theory Spec2Isabelle
  imports Complex_Main
begin

section \<open>Text and JSON values\<close>

text \<open>
  A Python \<open>str\<close> is a sequence of Unicode code points, so text is a list of code
  points. \<open>U\<close> embeds an ASCII literal. The labels and messages of \<open>views.py\<close> that
  are not ASCII (the Cyrillic category labels, the letters U+2018 and U+2026) are written as
  code points.
\<close>

type_synonym pystr = "nat list"

definition U :: "string \<Rightarrow> pystr" where
  "U s = map of_char s"

text \<open>The code points for which \<open>str.isspace\<close> holds: what \<open>str.strip()\<close> removes.\<close>

definition is_space :: "nat \<Rightarrow> bool" where
  "is_space c = (c \<in> set [9, 10, 11, 12, 13, 28, 29, 30, 31, 32, 133, 160, 5760, 8192, 8193,
     8194, 8195, 8196, 8197, 8198, 8199, 8200, 8201, 8202, 8232, 8233, 8239, 8287, 12288])"

definition strip :: "pystr \<Rightarrow> pystr" where
  "strip s = rev (dropWhile is_space (rev (dropWhile is_space s)))"

text \<open>
  The values \<open>json.loads\<close> returns. JSON numbers are integers here (a quantity or an id
  with a fraction is outside the model); a \<open>JDict\<close> lists the entries of a Python dict,
  looked up by key.
\<close>

datatype json =
    JNull
  | JBool bool
  | JInt int
  | JStr pystr
  | JList "json list"
  | JDict "(pystr \<times> json) list"

text \<open>Python truthiness, as \<open>or\<close>, \<open>not\<close> and \<open>if\<close> use it.\<close>

fun truthy :: "json \<Rightarrow> bool" where
  "truthy JNull = False"
| "truthy (JBool b) = b"
| "truthy (JInt n) = (n \<noteq> 0)"
| "truthy (JStr s) = (s \<noteq> [])"
| "truthy (JList xs) = (xs \<noteq> [])"
| "truthy (JDict kvs) = (kvs \<noteq> [])"

definition py_or :: "json \<Rightarrow> json \<Rightarrow> json" where
  "py_or a b = (if truthy a then a else b)"

text \<open>\<open>s or d\<close> for an optional text \<open>s\<close>: \<open>None\<close> and the empty text are falsy.\<close>

definition str_or :: "pystr option \<Rightarrow> pystr \<Rightarrow> pystr" where
  "str_or s d = (case s of None \<Rightarrow> d | Some t \<Rightarrow> if t = [] then d else t)"

datatype error =
    AttributeError
  | FieldError
  | IntegrityError
  | MultipleObjectsReturned
  | NoReverseMatch
  | OverflowError
  | UnicodeDecodeError
  | DatabaseError
  | RequestException
  | ValidationError
  | ValueError

text \<open>A \<open>Decimal\<close> is held by its text, \<open>str (d)\<close>: the views pass decimals on and never
  compute with one.\<close>

type_synonym decimal = pystr

fun bindE :: "error + 'a \<Rightarrow> ('a \<Rightarrow> error + 'b) \<Rightarrow> error + 'b" where
  "bindE (Inl e) f = Inl e"
| "bindE (Inr x) f = f x"

text \<open>\<open>item.get(key)\<close>: the value, \<open>None\<close> for a missing key, and an
  \<open>AttributeError\<close> when the item is not a dict (\<open>dict_get\<close> where the view has checked
  that it is one).\<close>

definition dict_get :: "(pystr \<times> json) list \<Rightarrow> pystr \<Rightarrow> json" where
  "dict_get kvs k = (case map_of kvs k of None \<Rightarrow> JNull | Some v \<Rightarrow> v)"

fun py_get :: "json \<Rightarrow> pystr \<Rightarrow> error + json" where
  "py_get (JDict kvs) k = Inr (dict_get kvs k)"
| "py_get _ k = Inl AttributeError"

text \<open>\<open>item.get(a) or item.get(b)\<close>.\<close>

definition get_or :: "json \<Rightarrow> pystr \<Rightarrow> pystr \<Rightarrow> error + json" where
  "get_or item a b =
     bindE (py_get item a) (\<lambda>x. if truthy x then Inr x else py_get item b)"

section \<open>Library functions the views call\<close>

text \<open>What a call of \<open>requests.post\<close> does: it raises, or it returns a reply with its
  \<open>ok\<close> flag and the value of \<open>r.json()\<close> (\<open>None\<close> when that raises).\<close>

datatype post_result = PostRaises | Reply bool "json option"

text \<open>
  The views call functions of Python, Django and the database whose code is not part of
  the repository. They are the fields of an environment, and every theorem holds for every
  environment unless it says otherwise.
\<close>

record env =
  casefold :: "pystr \<Rightarrow> pystr"
    \<comment> \<open>the database's case folding: \<open>a__iexact=b\<close> holds when both fold to the same text\<close>
  int_of_str :: "pystr \<Rightarrow> int option"
    \<comment> \<open>\<open>int(s)\<close> on a text, \<open>None\<close> for a \<open>ValueError\<close>\<close>
  decimal_of :: "json \<Rightarrow> decimal option"
    \<comment> \<open>\<open>Decimal(str(v))\<close>, \<open>None\<close> for \<open>InvalidOperation\<close> or \<open>ValueError\<close>\<close>
  py_str :: "json \<Rightarrow> pystr"
    \<comment> \<open>\<open>str(v)\<close>, as a text column stores a value that is not a text\<close>
  index_url :: pystr
    \<comment> \<open>what \<open>reverse ("optika:index")\<close> returns\<close>
  check_password :: "pystr \<Rightarrow> pystr \<Rightarrow> bool option"
    \<comment> \<open>Django's \<open>check_password (raw, encoded)\<close>, \<open>None\<close> when it raises\<close>
  make_password :: "pystr \<Rightarrow> pystr"
  strftime_local :: "nat \<Rightarrow> pystr"
    \<comment> \<open>a timestamp as \<open>%Y-%m-%d %H:%M\<close> in local time\<close>
  strftime_utc :: "nat \<Rightarrow> pystr"
    \<comment> \<open>a timestamp as \<open>%Y-%m-%d %H:%M\<close> as stored\<close>
  isoformat :: "nat \<Rightarrow> pystr"
    \<comment> \<open>\<open>datetime.isoformat()\<close>\<close>
  pdf_font :: pystr
    \<comment> \<open>the font \<open>_try_register_cyrillic_font\<close> settles on\<close>
  telegram_bot_token :: "pystr option"
    \<comment> \<open>\<open>settings.TELEGRAM_BOT_TOKEN\<close>, \<open>None\<close> when the setting is missing\<close>
  requests_importable :: bool
    \<comment> \<open>whether \<open>import requests\<close> succeeds\<close>
  requests_post :: "pystr \<Rightarrow> pystr \<Rightarrow> post_result"
    \<comment> \<open>what \<open>requests.post\<close> does for a URL and a chat id\<close>
  resolve_url :: "pystr \<Rightarrow> pystr option"
    \<comment> \<open>the URL of the route that the project's URL configuration gives a name, \<open>None\<close>
        when it has no route of that name (\<open>NoReverseMatch\<close>)\<close>
  narx_column :: "decimal \<Rightarrow> error + decimal"
    \<comment> \<open>what a \<open>DecimalField (max_digits=12, decimal_places=2)\<close> stores for a decimal, or
        the exception that binding it raises\<close>
  dioptriya_column :: "pystr \<Rightarrow> error + decimal"
    \<comment> \<open>what a \<open>DecimalField (max_digits=6, decimal_places=2)\<close> binds for a text, or the
        exception it raises (\<open>ValidationError\<close> for a text that is no number)\<close>
  decimal_iexact :: "decimal \<Rightarrow> decimal \<Rightarrow> bool"
    \<comment> \<open>whether the database's \<open>iexact\<close> holds between a stored decimal and a bound one\<close>

definition iexact :: "env \<Rightarrow> pystr \<Rightarrow> pystr \<Rightarrow> bool" where
  "iexact E a b = (casefold E a = casefold E b)"

subsection \<open>JSON helpers\<close>

text \<open>\<open>str(n)\<close> on an integer: the decimal digits, with a sign for a negative one.\<close>

fun str_nat :: "nat \<Rightarrow> pystr" where
  "str_nat n = (if n < 10 then [48 + n] else str_nat (n div 10) @ [48 + n mod 10])"

declare str_nat.simps [simp del]

definition str_of_int :: "int \<Rightarrow> pystr" where
  "str_of_int n = (if n < 0 then 45 # str_nat (nat (- n)) else str_nat (nat n))"

fun to_int :: "env \<Rightarrow> json \<Rightarrow> int \<Rightarrow> int" where
  "to_int E (JInt n) d = n"
| "to_int E (JBool b) d = (if b then 1 else 0)"
| "to_int E (JStr s) d = (case int_of_str E s of None \<Rightarrow> d | Some n \<Rightarrow> n)"
| "to_int E _ d = d"

definition to_decimal_or_none :: "env \<Rightarrow> json \<Rightarrow> decimal option" where
  "to_decimal_or_none E v = (if v = JNull \<or> v = JStr [] then None else decimal_of E v)"

text \<open>\<open>(value or "").strip()\<close>: a truthy value that is not a text has no \<open>strip\<close>.\<close>

fun clean_str :: "json \<Rightarrow> error + pystr" where
  "clean_str (JStr s) = Inr (strip s)"
| "clean_str v = (if truthy v then Inl AttributeError else Inr [])"

text \<open>A value stored in a text column: a text as it is, anything else through \<open>str\<close>.\<close>

fun as_text :: "env \<Rightarrow> json \<Rightarrow> pystr" where
  "as_text E (JStr s) = s"
| "as_text E v = py_str E v"

section \<open>The PDF table renderer\<close>

text \<open>
  \<open>_build_table_pdf\<close> draws on a ReportLab canvas with absolute coordinates. The model
  returns the drawing calls in order; the bytes of the file are a function of them. The page
  is ReportLab's \<open>A4\<close>: \<open>inch = 72.0\<close>, \<open>cm = inch / 2.54\<close>, \<open>mm = cm * 0.1\<close> and
  \<open>A4 = (210 * mm, 297 * mm)\<close>. Coordinates are real numbers: the code's floats differ from
  them by rounding far below the distance of any \<open>y\<close> from the thresholds 60 and 80, because
  every step subtracts a whole number from the page height.
\<close>

datatype canvas_op =
    SetFont pystr nat
  | SetLineWidth nat
  | DrawString int real pystr
  | Rect int real int int
  | ShowPage
  | Save

definition A4_height :: real where
  "A4_height = 297 * (72 / 2.54 * 0.1)"

definition margin_x :: int where
  "margin_x = 40"

text \<open>\<open>text[:n]\<close>: a negative \<open>n\<close> counts from the end.\<close>

definition slice_to :: "pystr \<Rightarrow> int \<Rightarrow> pystr" where
  "slice_to text n = (if 0 \<le> n then take (nat n) text else take (length text - nat (- n)) text)"

definition truncate_text :: "pystr \<Rightarrow> int \<Rightarrow> pystr" where
  "truncate_text text max_len =
     (if int (length text) \<le> max_len then text else slice_to text (max_len - 1) @ [8230])"

text \<open>\<open>int(w / 6)\<close>: true division, then truncation towards zero.\<close>

definition int_div6 :: "int \<Rightarrow> int" where
  "int_div6 w = (if 0 \<le> w then w div 6 else - ((- w) div 6))"

definition new_page :: "env \<Rightarrow> canvas_op list \<times> real" where
  "new_page E = ([ShowPage, SetFont (pdf_font E) 10], A4_height - 40)"

fun draw_header_lines :: "real \<Rightarrow> pystr list \<Rightarrow> canvas_op list \<times> real" where
  "draw_header_lines y [] = ([], y)"
| "draw_header_lines y (line # lines) =
     (let (ops, y') = draw_header_lines (y - 14) lines in (DrawString margin_x y line # ops, y'))"

fun header_cells :: "int \<Rightarrow> real \<Rightarrow> (pystr \<times> int) list \<Rightarrow> canvas_op list" where
  "header_cells x y [] = []"
| "header_cells x y ((name, w) # columns) =
     DrawString (x + 3) (y - 13) (truncate_text name 30) # header_cells (x + w) y columns"

definition draw_table_header :: "env \<Rightarrow> (pystr \<times> int) list \<Rightarrow> real \<Rightarrow> canvas_op list \<times> real" where
  "draw_table_header E columns y =
     (let (ops, y1) = (if y < 80 then new_page E else ([], y)) in
        (ops @ [SetFont (pdf_font E) 10, Rect margin_x (y1 - 18) (sum_list (map snd columns)) 18]
             @ header_cells margin_x y1 columns,
         y1 - 18))"

fun row_cells :: "int \<Rightarrow> real \<Rightarrow> nat \<Rightarrow> (pystr \<times> int) list \<Rightarrow> pystr list \<Rightarrow> canvas_op list" where
  "row_cells x y idx [] r = []"
| "row_cells x y idx ((name, w) # columns) r =
     DrawString (x + 3) (y - 13)
       (truncate_text (if idx < length r then r ! idx else []) (max 10 (int_div6 w)))
     # row_cells (x + w) y (Suc idx) columns r"

text \<open>The two halves of the loop body: the page break, and the row drawn at the \<open>y\<close> the
  page break leaves.\<close>

definition row_break :: "env \<Rightarrow> (pystr \<times> int) list \<Rightarrow> real \<Rightarrow> canvas_op list \<times> real" where
  "row_break E columns y =
     (if y < 60
      then (let (a, ya) = new_page E; (b, yb) = draw_table_header E columns ya in (a @ b, yb))
      else ([], y))"

definition draw_row :: "(pystr \<times> int) list \<Rightarrow> real \<Rightarrow> pystr list \<Rightarrow> canvas_op list" where
  "draw_row columns y r =
     Rect margin_x (y - 18) (sum_list (map snd columns)) 18 # row_cells margin_x y 0 columns r"

fun draw_rows :: "env \<Rightarrow> (pystr \<times> int) list \<Rightarrow> real \<Rightarrow> pystr list list \<Rightarrow> canvas_op list" where
  "draw_rows E columns y [] = []"
| "draw_rows E columns y (r # rows) =
     (let (ops, y1) = row_break E columns y in
        ops @ draw_row columns y1 r @ draw_rows E columns (y1 - 18) rows)"

definition build_table_pdf ::
  "env \<Rightarrow> pystr \<Rightarrow> pystr list \<Rightarrow> (pystr \<times> int) list \<Rightarrow> pystr list list \<Rightarrow> canvas_op list" where
  "build_table_pdf E title header_lines columns rows =
     (let y0 = A4_height - 40;
          (lops, y1) = draw_header_lines (y0 - 22) header_lines;
          (hops, y2) = draw_table_header E columns (y1 - 8)
      in [SetFont (pdf_font E) 14, DrawString margin_x y0 title, SetFont (pdf_font E) 10]
         @ lops @ [SetFont (pdf_font E) 10, SetLineWidth 1] @ hops
         @ draw_rows E columns y2 rows @ [Save])"

text \<open>A rectangle of the table (a header or a row, 18 high) whose upper edge is at least 60
  and at most the first line of a page.\<close>

fun rect_on_page :: "canvas_op \<Rightarrow> bool" where
  "rect_on_page (Rect x y w h) = (h = 18 \<and> 60 \<le> y + 18 \<and> y + 18 \<le> A4_height - 40)"
| "rect_on_page _ = True"

section \<open>The data model\<close>

text \<open>
  One record per model of \<open>models.py\<close>; a field keeps its name behind the prefix of its
  table (\<open>o_\<close> Order, \<open>p_\<close> the product tables, \<open>u_\<close> Users, \<open>a_\<close> Archive, \<open>ai_\<close>
  ArchiveItem, \<open>f_\<close> FeedBack, \<open>tc_\<close> TelegramChat). A nullable column is an option. The seven product
  tables share one row type: \<open>Gatoviy\<close> has no \<open>rasm\<close> and no \<open>turi\<close> column (they stay
  \<open>None\<close> there), and only \<open>Gatoviy\<close> has \<open>model\<close>, \<open>filial\<close> and \<open>created_at\<close>. The
  \<open>dioptriya\<close> column is a text in six tables and a decimal in \<open>Rangli\<close>.
\<close>

datatype model_cls = Rangsiz | Rangli | Kapliya | Aksessuar | Antikompyuter | Oprava | Gatoviy

record Users =
  u_id :: nat
  u_full_name :: pystr
  u_phone :: pystr
  u_user_id :: pystr
  u_parol :: pystr
  u_role :: pystr

record Order =
  o_id :: nat
  o_user_id :: pystr
  o_model :: pystr
  o_product_id :: nat
  o_category :: "pystr option"
  o_narx :: "decimal option"
  o_dioptriya :: "pystr option"
  o_miqdor :: int
  o_izoh :: pystr
  o_filial :: pystr
  o_is_sent :: bool
  o_created_at :: nat

record Product =
  p_id :: nat
  p_order_id :: int
  p_user_id :: pystr
  p_rasm :: "pystr option"
  p_nomi :: "pystr option"
  p_turi :: "pystr option"
  p_dioptriya :: "pystr option"
  p_miqdor :: int
  p_narx :: "decimal option"
  p_izoh :: "pystr option"
  p_category :: pystr
  p_model :: pystr
  p_filial :: pystr
  p_created_at :: nat

record Archive =
  a_id :: nat
  a_filial :: "pystr option"
  a_user_full_name :: "pystr option"
  a_created_at :: nat
  a_is_pdf_downloaded :: bool
  a_is_telegram_shared :: bool

record ArchiveItem =
  ai_id :: nat
  ai_archive :: nat
  ai_category :: "pystr option"
  ai_model :: "pystr option"
  ai_dioptriya :: "pystr option"
  ai_miqdor :: int
  ai_izoh :: "pystr option"

record FeedBack =
  f_id :: nat
  f_full_name :: pystr
  f_phone :: "pystr option"
  f_message :: pystr
  f_created_at :: nat

record TelegramChat =
  tc_id :: nat
  tc_full_name :: pystr
  tc_chat_id :: pystr

text \<open>
  The database: the tables, the next primary key of each table that the views insert into,
  and \<open>failing_in\<close>, which injects a failure of the database: \<open>Some k\<close> lets \<open>k\<close> more write
  statements through and raises \<open>DatabaseError\<close> at the next one, \<open>None\<close> never raises.
\<close>

record db =
  users :: "Users list"
  orders :: "Order list"
  products :: "model_cls \<Rightarrow> Product list"
  archives :: "Archive list"
  archive_items :: "ArchiveItem list"
  feedbacks :: "FeedBack list"
  telegram_chats :: "TelegramChat list"
  next_user_id :: nat
  next_order_id :: nat
  next_product_id :: "model_cls \<Rightarrow> nat"
  next_archive_id :: nat
  next_archive_item_id :: nat
  next_feedback_id :: nat
  failing_in :: "nat option"

text \<open>
  A computation on the database returns a value or raises, and leaves a database either way:
  outside a transaction every statement is committed at once (autocommit), so what was
  written before an exception stays.
\<close>

type_synonym 'a dbm = "db \<Rightarrow> (error + 'a) \<times> db"

definition returnM :: "'a \<Rightarrow> 'a dbm" where
  "returnM x d = (Inr x, d)"

definition raiseM :: "error \<Rightarrow> 'a dbm" where
  "raiseM e d = (Inl e, d)"

definition bindM :: "'a dbm \<Rightarrow> ('a \<Rightarrow> 'b dbm) \<Rightarrow> 'b dbm" where
  "bindM m f d = (case m d of (Inl e, d') \<Rightarrow> (Inl e, d') | (Inr x, d') \<Rightarrow> f x d')"

text \<open>A value computed without the database, or the exception it raised.\<close>

definition liftE :: "error + 'a \<Rightarrow> 'a dbm" where
  "liftE r d = (r, d)"

text \<open>A write statement: it raises when the injected failure is due, and applies its effect
  otherwise.\<close>

definition count_down :: "db \<Rightarrow> db" where
  "count_down d = (case failing_in d of Some (Suc k) \<Rightarrow> d\<lparr>failing_in := Some k\<rparr> | _ \<Rightarrow> d)"

definition db_write :: "(db \<Rightarrow> db) \<Rightarrow> unit dbm" where
  "db_write f d =
     (if failing_in d = Some 0 then (Inl DatabaseError, d) else (Inr (), f (count_down d)))"

text \<open>
  The integers of the database are SQLite's, of 64 bits with a sign: binding a Python \<open>int\<close>
  outside them to a statement raises \<open>OverflowError\<close> before the statement runs. A write that
  binds an integer of the request checks it first.
\<close>

definition db_integer :: "int \<Rightarrow> bool" where
  "db_integer n = (- (2 ^ 63) \<le> n \<and> n < 2 ^ 63)"

definition write_int :: "int \<Rightarrow> (db \<Rightarrow> db) \<Rightarrow> unit dbm" where
  "write_int n f = (if db_integer n then db_write f else raiseM OverflowError)"

text \<open>\<open>with transaction.atomic()\<close>: an exception that leaves the block rolls the database
  back to the state at its entry, and goes on to the caller.\<close>

definition atomic :: "'a dbm \<Rightarrow> 'a dbm" where
  "atomic block d = (case block d of (Inl e, d') \<Rightarrow> (Inl e, d) | (Inr x, d') \<Rightarrow> (Inr x, d'))"

text \<open>\<open>.first()\<close> on a queryset with no ordering orders by primary key: the first row in
  table order among those whose key is least.\<close>

definition first_by :: "('r \<Rightarrow> nat) \<Rightarrow> 'r list \<Rightarrow> 'r option" where
  "first_by pk rows = find (\<lambda>r. list_all (\<lambda>r'. pk r \<le> pk r') rows) rows"

section \<open>Requests and responses\<close>

datatype http_method = GET | POST | OtherMethod

datatype body = NoBody | BadUtf8 | NotJson | Json json

record session =
  UserId :: "pystr option"
  FullName :: "pystr option"
  Role :: "pystr option"
  Branch :: "pystr option"

record request =
  req_method :: http_method
  session :: session
  body :: body
  form :: "pystr \<Rightarrow> pystr option"
    \<comment> \<open>\<open>request.POST\<close>, or \<open>request.GET\<close> for a GET request\<close>
  now :: nat
    \<comment> \<open>what \<open>timezone.now()\<close> returns during the request\<close>

text \<open>An uncaught exception is Django's answer 500; a method that the decorator of the view
  refuses is 405.\<close>

datatype response =
    JsonResponse json nat
  | Redirect pystr
  | Render pystr
  | PdfResponse "canvas_op list" pystr
  | NotAllowed
  | ServerError error

definition fail_body :: "pystr \<Rightarrow> json" where
  "fail_body msg = JDict [(U ''success'', JBool False), (U ''message'', JStr msg)]"

definition ok_body :: json where
  "ok_body = JDict [(U ''success'', JBool True)]"

definition ok_msg_body :: "pystr \<Rightarrow> json" where
  "ok_msg_body msg = JDict [(U ''success'', JBool True), (U ''message'', JStr msg)]"

subsection \<open>Session helpers\<close>

text \<open>
  \<open>redirect (to)\<close> with a route name resolves the name and raises \<open>NoReverseMatch\<close> when
  no route has it. \<open>urls.py\<close> declares its routes in the namespace \<open>optika\<close>
  (\<open>optika:login\<close>, \<open>optika:index\<close>); whether a route is named \<open>login\<close> or \<open>index\<close>
  without the namespace is up to the URL configuration of the project, which the environment
  stands for. A session helper returns the redirect, raises, or returns \<open>None\<close>.
\<close>

definition redirect :: "env \<Rightarrow> pystr \<Rightarrow> error + response" where
  "redirect E to = (case resolve_url E to of None \<Rightarrow> Inl NoReverseMatch | Some url \<Rightarrow> Inr (Redirect url))"

text \<open>An uncaught exception is answered with the error 500.\<close>

definition answer :: "error + response \<Rightarrow> response" where
  "answer r = (case r of Inl e \<Rightarrow> ServerError e | Inr resp \<Rightarrow> resp)"

definition session_user_or_redirect :: "env \<Rightarrow> request \<Rightarrow> (error + response) option" where
  "session_user_or_redirect E req =
     (if str_or (UserId (session req)) [] = [] then Some (redirect E (U ''login'')) else None)"

definition session_user_or_json_401 :: "request \<Rightarrow> response option" where
  "session_user_or_json_401 req =
     (if str_or (UserId (session req)) [] = []
      then Some (JsonResponse (fail_body (U ''Login qiling (session topilmadi).'')) 401)
      else None)"

definition admin_or_403 :: "request \<Rightarrow> response option" where
  "admin_or_403 req =
     (if Role (session req) \<noteq> Some (U ''Admin'')
      then Some (JsonResponse (fail_body (U ''Admin ruxsati kerak.'')) 403)
      else None)"

definition admin_or_redirect :: "env \<Rightarrow> request \<Rightarrow> (error + response) option" where
  "admin_or_redirect E req =
     (if Role (session req) \<noteq> Some (U ''Admin'') then Some (redirect E (U ''index'')) else None)"

definition get_branch :: "request \<Rightarrow> pystr" where
  "get_branch req = str_or (Branch (session req)) (U ''-'')"

definition get_user_id :: "request \<Rightarrow> pystr" where
  "get_user_id req = str_or (UserId (session req)) []"

definition get_full_name :: "request \<Rightarrow> pystr" where
  "get_full_name req = str_or (FullName (session req)) []"

text \<open>\<open>_parse_json_body\<close>: an empty body and a body that is not JSON give \<open>None\<close>; only
  \<open>JSONDecodeError\<close> is caught, so bytes that are not UTF-8 raise.\<close>

fun parse_json_body :: "body \<Rightarrow> error + json" where
  "parse_json_body NoBody = Inr JNull"
| "parse_json_body NotJson = Inr JNull"
| "parse_json_body BadUtf8 = Inl UnicodeDecodeError"
| "parse_json_body (Json v) = Inr v"

text \<open>\<open>_clean_str (request.POST.get (key))\<close>: a form value is a text or missing.\<close>

definition clean_form :: "request \<Rightarrow> pystr \<Rightarrow> pystr" where
  "clean_form req key = strip (case form req key of None \<Rightarrow> [] | Some s \<Rightarrow> s)"

text \<open>A view answers with a response and leaves a database; an exception that no handler
  catches becomes the answer 500, with the database as committed so far.\<close>

definition respond :: "response dbm \<Rightarrow> db \<Rightarrow> response \<times> db" where
  "respond m d = (case m d of (Inl e, d') \<Rightarrow> (ServerError e, d') | (Inr r, d') \<Rightarrow> (r, d'))"

text \<open>\<open>@require_POST\<close> and \<open>@require_GET\<close>.\<close>

definition require_method :: "http_method \<Rightarrow> request \<Rightarrow> response dbm \<Rightarrow> response dbm" where
  "require_method m req view = (if req_method req = m then view else returnM NotAllowed)"

section \<open>The views\<close>

subsection \<open>Category labels\<close>

text \<open>The default of each model's \<open>category\<close> column, in code points: the Cyrillic for
  contact lens, coloured lens, drops, accessory, anti-computer, frame and ready-made.\<close>

fun category_label :: "model_cls \<Rightarrow> pystr" where
  "category_label Rangsiz = [1050, 1086, 1085, 1090, 1072, 1082, 1090, 32, 1083, 1080, 1085, 1079, 1072]"
| "category_label Rangli = [1062, 1074, 1077, 1090, 1085, 1072, 1103, 32, 1083, 1080, 1085, 1079, 1072]"
| "category_label Kapliya = [1050, 1072, 1087, 1083, 1103]"
| "category_label Aksessuar = [1040, 1082, 1089, 1077, 1089, 1089, 1091, 1072, 1088]"
| "category_label Antikompyuter = [1040, 1085, 1090, 1080, 1082, 1086, 1084, 1087]"
| "category_label Oprava = [1054, 1087, 1088, 1072, 1074, 1072]"
| "category_label Gatoviy = [1043, 1086, 1090, 1086, 1074, 1099, 1077]"

definition CATEGORY_MODEL :: "pystr \<Rightarrow> model_cls option" where
  "CATEGORY_MODEL =
     map_of (map (\<lambda>cls. (category_label cls, cls))
       [Rangsiz, Rangli, Kapliya, Aksessuar, Antikompyuter, Oprava, Gatoviy])"

subsection \<open>Login and pages\<close>

text \<open>The first check of \<open>login_view\<close>: a stored credential that is not empty and that
  \<open>check_password\<close> accepts without raising.\<close>

definition hash_ok :: "env \<Rightarrow> pystr \<Rightarrow> pystr \<Rightarrow> bool" where
  "hash_ok E password stored =
     (if stored \<noteq> [] then (case check_password E password stored of None \<Rightarrow> False | Some b \<Rightarrow> b)
      else False)"

definition login_wrong :: pystr where
  "login_wrong = U ''Login yoki parol noto'' @ [8216] @ U ''g'' @ [8216] @ U ''ri!''"

text \<open>\<open>user.save (update_fields=["parol"])\<close>: the row with the user's primary key.\<close>

definition save_parol :: "Users \<Rightarrow> db \<Rightarrow> db" where
  "save_parol u d =
     d\<lparr>users := map (\<lambda>r. if u_id r = u_id u then r\<lparr>u_parol := u_parol u\<rparr> else r) (users d)\<rparr>"

definition log_in :: "request \<Rightarrow> Users \<Rightarrow> pystr \<Rightarrow> session" where
  "log_in req user branch =
     (let s = (session req)\<lparr>UserId := Some (u_user_id user), FullName := Some (u_full_name user),
                 Role := Some (u_role user)\<rparr>
      in if branch \<noteq> [] then s\<lparr>Branch := Some branch\<rparr> else s)"

definition login_view :: "env \<Rightarrow> request \<Rightarrow> db \<Rightarrow> (response \<times> session) \<times> db" where
  "login_view E req d =
     (if req_method req = GET then ((Render (U ''optika/login.html''), session req), d)
      else if req_method req \<noteq> POST then ((NotAllowed, session req), d)
      else
        let user_id = clean_form req (U ''userId'');
            password = clean_form req (U ''password'');
            branch = clean_form req (U ''branch'')
        in
        if user_id = [] \<or> password = []
        then ((JsonResponse (fail_body (U ''ID va parolni kiriting!'')) 200, session req), d)
        else
          (case filter (\<lambda>u. u_user_id u = user_id) (users d) of
             [] \<Rightarrow> ((JsonResponse (fail_body login_wrong) 200, session req), d)
           | [user] \<Rightarrow>
               (if hash_ok E password (u_parol user)
                then ((JsonResponse ok_body 200, log_in req user branch), d)
                else if u_parol user = password
                then
                  (let user' = user\<lparr>u_parol := make_password E password\<rparr> in
                   case db_write (save_parol user') d of
                     (Inl e, d') \<Rightarrow> ((ServerError e, session req), d')
                   | (Inr _, d') \<Rightarrow> ((JsonResponse ok_body 200, log_in req user' branch), d'))
                else ((JsonResponse (fail_body login_wrong) 200, session req), d))
           | _ \<Rightarrow> ((ServerError MultipleObjectsReturned, session req), d)))"

definition index_view :: "env \<Rightarrow> request \<Rightarrow> db \<Rightarrow> response \<times> db" where
  "index_view E req d =
     (case session_user_or_redirect E req of
        Some redir \<Rightarrow> (answer redir, d)
      | None \<Rightarrow> (Render (U ''optika/index.html''), d))"

subsection \<open>Archives\<close>

definition table_columns :: "(pystr \<times> int) list" where
  "table_columns =
     [(U ''Kategoriya'', 95), (U ''Model'', 170), (U ''Dioptriya'', 70), (U ''Miqdor'', 55),
      (U ''Izoh'', 125)]"

definition item_row :: "ArchiveItem \<Rightarrow> pystr list" where
  "item_row it =
     [str_or (ai_category it) (U ''-''), str_or (ai_model it) (U ''-''),
      str_or (ai_dioptriya it) (U ''-''), str_of_int (ai_miqdor it),
      str_or (ai_izoh it) (U ''-'')]"

definition set_pdf_downloaded :: "nat \<Rightarrow> db \<Rightarrow> db" where
  "set_pdf_downloaded aid d =
     d\<lparr>archives := map (\<lambda>a. if a_id a = aid then a\<lparr>a_is_pdf_downloaded := True\<rparr> else a) (archives d)\<rparr>"

text \<open>The PDF of one archive: its items as rows under the three header lines.\<close>

definition archive_pdf :: "env \<Rightarrow> Archive \<Rightarrow> db \<Rightarrow> canvas_op list" where
  "archive_pdf E archive d =
     build_table_pdf E (U ''Arxiv Buyurtma (Optika)'')
       [U ''Ism: '' @ str_or (a_user_full_name archive) (U ''-''),
        U ''Filial: '' @ str_or (a_filial archive) (U ''-''),
        U ''Sana: '' @ strftime_local E (a_created_at archive)]
       table_columns
       (map item_row (filter (\<lambda>it. ai_archive it = a_id archive) (archive_items d)))"

definition download_archive_pdf :: "env \<Rightarrow> request \<Rightarrow> db \<Rightarrow> response \<times> db" where
  "download_archive_pdf E req =
     respond (require_method POST req
       (case session_user_or_json_401 req of
          Some not_logged \<Rightarrow> returnM not_logged
        | None \<Rightarrow>
            bindM (liftE (parse_json_body (body req))) (\<lambda>data.
              case data of
                JDict kvs \<Rightarrow>
                  (let archive_id = to_int E (dict_get kvs (U ''id'')) 0 in
                   if archive_id \<le> 0
                   then returnM (JsonResponse (fail_body (U ''archive id xato.'')) 400)
                   else (\<lambda>d.
                     (case first_by a_id (filter (\<lambda>a. int (a_id a) = archive_id) (archives d)) of
                        None \<Rightarrow> returnM (JsonResponse (fail_body (U ''Arxiv topilmadi.'')) 404)
                      | Some archive \<Rightarrow>
                          if Role (session req) \<noteq> Some (U ''Admin'')
                             \<and> (a_filial archive \<noteq> Some (get_branch req)
                                  \<or> a_user_full_name archive \<noteq> Some (get_full_name req))
                          then returnM (JsonResponse (fail_body (U ''Ruxsat yo'' @ [8216] @ U ''q.'')) 403)
                          else
                            (let pdf_bytes = archive_pdf E archive d
                             in bindM (db_write (set_pdf_downloaded (a_id archive)))
                                  (\<lambda>_. returnM (PdfResponse pdf_bytes (U ''archive.pdf''))))) d))
              | _ \<Rightarrow> returnM (JsonResponse (fail_body (U ''JSON xato.'')) 400))))"

definition form_int :: "env \<Rightarrow> request \<Rightarrow> pystr \<Rightarrow> int" where
  "form_int E req key =
     (case form req key of None \<Rightarrow> 0
      | Some s \<Rightarrow> (case int_of_str E s of None \<Rightarrow> 0 | Some n \<Rightarrow> n))"

definition opt_json :: "pystr option \<Rightarrow> json" where
  "opt_json s = (case s of None \<Rightarrow> JNull | Some t \<Rightarrow> JStr t)"

definition item_json :: "ArchiveItem \<Rightarrow> json" where
  "item_json it =
     JDict [(U ''category'', opt_json (ai_category it)), (U ''model'', opt_json (ai_model it)),
            (U ''dioptriya'', opt_json (ai_dioptriya it)), (U ''miqdor'', JInt (ai_miqdor it)),
            (U ''izoh'', opt_json (ai_izoh it))]"

definition get_archive_items :: "env \<Rightarrow> request \<Rightarrow> db \<Rightarrow> response \<times> db" where
  "get_archive_items E req =
     respond (require_method GET req
       (case session_user_or_json_401 req of
          Some not_logged \<Rightarrow> returnM not_logged
        | None \<Rightarrow>
            (case admin_or_403 req of
               Some not_admin \<Rightarrow> returnM not_admin
             | None \<Rightarrow>
                 (let archive_id = form_int E req (U ''archiveId'') in
                  if archive_id \<le> 0 then returnM (JsonResponse (JList []) 200)
                  else (\<lambda>d. returnM (JsonResponse
                          (JList (map item_json
                             (sort_key ai_id (filter (\<lambda>it. int (ai_archive it) = archive_id) (archive_items d)))))
                          200) d)))))"

subsection \<open>Sharing the archives by Telegram\<close>

text \<open>The body of the \<open>try\<close> in the loop over the chats: whether the send is counted, or
  the exception it raised.\<close>

definition try_send :: "env \<Rightarrow> pystr \<Rightarrow> TelegramChat \<Rightarrow> error + bool" where
  "try_send E url ch =
     (case requests_post E url (tc_chat_id ch) of
        PostRaises \<Rightarrow> Inl RequestException
      | Reply ok j \<Rightarrow>
          if ok
          then (case j of
                  None \<Rightarrow> Inl ValueError
                | Some v \<Rightarrow> bindE (py_get v (U ''ok'')) (\<lambda>flag. Inr (truthy flag)))
          else Inr False)"

fun send_all :: "env \<Rightarrow> pystr \<Rightarrow> TelegramChat list \<Rightarrow> nat \<Rightarrow> nat" where
  "send_all E url [] ok_count = ok_count"
| "send_all E url (ch # chats) ok_count =
     (case try_send E url ch of
        Inl e \<Rightarrow> send_all E url chats ok_count
      | Inr counted \<Rightarrow> send_all E url chats (if counted then ok_count + 1 else ok_count))"

text \<open>The rows of the PDF of all archives, newest archive first.\<close>

definition all_archive_rows :: "env \<Rightarrow> db \<Rightarrow> pystr list list" where
  "all_archive_rows E d =
     concat (map (\<lambda>a.
        [U ''---'', U ''---'', U ''---'', U ''---'',
         str_or (a_filial a) (U ''-'') @ U '' | '' @ str_or (a_user_full_name a) (U ''-'')
           @ U '' | '' @ strftime_utc E (a_created_at a)]
        # map item_row (filter (\<lambda>it. ai_archive it = a_id a) (archive_items d)))
       (rev (sort_key a_created_at (archives d))))"

definition set_all_telegram_shared :: "db \<Rightarrow> db" where
  "set_all_telegram_shared d =
     d\<lparr>archives := map (\<lambda>a. a\<lparr>a_is_telegram_shared := True\<rparr>) (archives d)\<rparr>"

definition telegram_url :: "pystr \<Rightarrow> pystr" where
  "telegram_url token = U ''https://api.telegram.org/bot'' @ token @ U ''/sendDocument''"

definition sent_message :: "nat \<Rightarrow> nat \<Rightarrow> pystr" where
  "sent_message ok_count n =
     U ''Telegramga yuborildi ('' @ str_of_int (int ok_count) @ U ''/'' @ str_of_int (int n) @ U '')''"

definition share_all_archives_telegram :: "env \<Rightarrow> request \<Rightarrow> db \<Rightarrow> response \<times> db" where
  "share_all_archives_telegram E req =
     respond (require_method POST req
       (case session_user_or_json_401 req of
          Some not_logged \<Rightarrow> returnM not_logged
        | None \<Rightarrow>
            (case admin_or_403 req of
               Some not_admin \<Rightarrow> returnM not_admin
             | None \<Rightarrow>
                 if str_or (telegram_bot_token E) [] = []
                 then returnM (JsonResponse (fail_body
                        (U ''TELEGRAM_BOT_TOKEN topilmadi. settings.py ga TELEGRAM_BOT_TOKEN = ''
                         @ [39] @ U ''xxxxx'' @ [39] @ U '' qo'' @ [8216] @ U ''shing.'')) 500)
                 else (\<lambda>d.
                   (let chats = telegram_chats d in
                    if chats = []
                    then returnM (JsonResponse (fail_body
                           (U ''Telegram chat IDlar yo'' @ [8216] @ U ''q.'')) 400)
                    else
                      (let pdf_bytes = build_table_pdf E (U ''Arxiv Buyurtmalar (Optika)'')
                             [U ''Sana: '' @ strftime_local E (now req)] table_columns
                             (all_archive_rows E d)
                       in if \<not> requests_importable E
                          then returnM (JsonResponse (fail_body
                                 (U ''requests kutubxonasi kerak: pip install requests'')) 500)
                          else
                            (let ok_count = send_all E (telegram_url (str_or (telegram_bot_token E) [])) chats 0
                             in if ok_count = 0
                                then returnM (JsonResponse (fail_body (U ''Telegramga yuborilmadi.'')) 500)
                                else bindM (db_write set_all_telegram_shared)
                                       (\<lambda>_. returnM (JsonResponse
                                          (ok_msg_body (sent_message ok_count (length chats))) 200))))) d))))"

subsection \<open>Adding to the cart\<close>

text \<open>
  The keyword arguments of \<open>_merge_save_product_and_order\<close>. \<open>extra_fields\<close> holds the
  three keys its one caller passes.
\<close>

record extra_fields =
  ef_model :: "pystr option"
  ef_filial :: "pystr option"
  ef_created_at :: "nat option"

record merge_args =
  m_user_id :: pystr
  m_branch :: pystr
  m_model_cls :: model_cls
  m_category :: pystr
  m_nomi :: pystr
  m_miqdor :: int
  m_turi :: "pystr option"
  m_dioptriya :: "pystr option"
  m_narx :: "decimal option"
  m_izoh :: "pystr option"
  m_rasm :: "pystr option"
  m_extra_fields :: extra_fields

definition has_turi :: "model_cls \<Rightarrow> bool" where
  "has_turi cls = (cls \<noteq> Gatoviy)"

definition has_rasm :: "model_cls \<Rightarrow> bool" where
  "has_rasm cls = (cls \<noteq> Gatoviy)"

definition is_gatoviy :: "model_cls \<Rightarrow> bool" where
  "is_gatoviy cls = (cls = Gatoviy)"

text \<open>\<open>column__iexact=value\<close> on a nullable column: \<open>NULL\<close> matches nothing.\<close>

definition iexact_opt :: "env \<Rightarrow> pystr option \<Rightarrow> pystr \<Rightarrow> bool" where
  "iexact_opt E col v = (case col of None \<Rightarrow> False | Some c \<Rightarrow> iexact E c v)"

text \<open>A filter key is added only for a value that is neither \<open>None\<close> nor empty.\<close>

definition given :: "pystr option \<Rightarrow> bool" where
  "given v = (v \<noteq> None \<and> v \<noteq> Some [])"

definition filter_on :: "env \<Rightarrow> pystr option \<Rightarrow> pystr option \<Rightarrow> bool" where
  "filter_on E col v =
     (case v of None \<Rightarrow> True | Some t \<Rightarrow> if t = [] then True else iexact_opt E col t)"

text \<open>
  The \<open>dioptriya\<close> key of the lookup. The code adds it whatever the type of the column (its
  comment says otherwise). In \<open>Rangli\<close> the column is a decimal: the lookup binds the text as
  a decimal, which raises for a text that is none, and the database compares the stored
  decimal with the bound one.
\<close>

definition dioptriya_filter :: "env \<Rightarrow> model_cls \<Rightarrow> decimal option \<Rightarrow> pystr option \<Rightarrow> bool" where
  "dioptriya_filter E cls col v =
     (case v of
        None \<Rightarrow> True
      | Some t \<Rightarrow>
          if t = [] then True
          else if cls = Rangli
          then (case dioptriya_column E t of
                  Inl e \<Rightarrow> False
                | Inr b \<Rightarrow> (case col of None \<Rightarrow> False | Some c \<Rightarrow> decimal_iexact E c b))
          else iexact_opt E col t)"

definition lookup_error :: "env \<Rightarrow> merge_args \<Rightarrow> error option" where
  "lookup_error E a =
     (case m_dioptriya a of
        None \<Rightarrow> None
      | Some t \<Rightarrow>
          if t \<noteq> [] \<and> m_model_cls a = Rangli
          then (case dioptriya_column E t of Inl e \<Rightarrow> Some e | Inr b \<Rightarrow> None)
          else None)"

definition product_filter :: "env \<Rightarrow> merge_args \<Rightarrow> Product \<Rightarrow> bool" where
  "product_filter E a p =
     (p_user_id p = m_user_id a
      \<and> iexact E (p_category p) (m_category a)
      \<and> iexact_opt E (p_nomi p) (m_nomi a)
      \<and> dioptriya_filter E (m_model_cls a) (p_dioptriya p) (m_dioptriya a)
      \<and> filter_on E (p_turi p) (m_turi a))"

text \<open>
  The arguments as a write binds them to its statement: a \<open>narx\<close> as its decimal column
  stores it and, for \<open>Rangli\<close>, the \<open>dioptriya\<close> as a decimal, or the exception that binding
  one of them raises. The product row holds the bound values; the Order row, whose
  \<open>dioptriya\<close> is a text column, takes the \<open>dioptriya\<close> as it was passed.
\<close>

definition bound :: "env \<Rightarrow> merge_args \<Rightarrow> error + merge_args" where
  "bound E a =
     bindE (case m_dioptriya a of
              None \<Rightarrow> Inr None
            | Some t \<Rightarrow> if m_model_cls a = Rangli
                        then bindE (dioptriya_column E t) (\<lambda>b. Inr (Some b))
                        else Inr (Some t)) (\<lambda>dioptriya.
     bindE (case m_narx a of
              None \<Rightarrow> Inr None
            | Some n \<Rightarrow> bindE (narx_column E n) (\<lambda>b. Inr (Some b))) (\<lambda>narx.
       Inr (a\<lparr>m_dioptriya := dioptriya, m_narx := narx\<rparr>)))"

definition order_filter :: "env \<Rightarrow> pystr \<Rightarrow> nat \<Rightarrow> pystr \<Rightarrow> Order \<Rightarrow> bool" where
  "order_filter E user_id product_id category ord =
     (o_user_id ord = user_id \<and> o_product_id ord = product_id
      \<and> iexact_opt E (o_category ord) category \<and> \<not> o_is_sent ord)"

definition opt_or :: "'a option \<Rightarrow> 'a option \<Rightarrow> 'a option" where
  "opt_or new old = (case new of None \<Rightarrow> old | Some v \<Rightarrow> Some v)"

text \<open>The assignments to \<open>existing\<close> before \<open>existing.save()\<close>, for bound arguments.\<close>

definition merge_into :: "merge_args \<Rightarrow> Product \<Rightarrow> Product" where
  "merge_into a existing =
     (let cls = m_model_cls a; ef = m_extra_fields a in
      existing\<lparr>
        p_miqdor := p_miqdor existing + m_miqdor a,
        p_turi := (if has_turi cls then opt_or (m_turi a) (p_turi existing) else p_turi existing),
        p_dioptriya := opt_or (m_dioptriya a) (p_dioptriya existing),
        p_izoh := opt_or (m_izoh a) (p_izoh existing),
        p_narx := opt_or (m_narx a) (p_narx existing),
        p_rasm := (if has_rasm cls then opt_or (m_rasm a) (p_rasm existing) else p_rasm existing),
        p_model := (if is_gatoviy cls then (case ef_model ef of None \<Rightarrow> p_model existing | Some v \<Rightarrow> v)
                    else p_model existing),
        p_filial := (if is_gatoviy cls then (case ef_filial ef of None \<Rightarrow> p_filial existing | Some v \<Rightarrow> v)
                     else p_filial existing),
        p_created_at := (if is_gatoviy cls
                         then (case ef_created_at ef of None \<Rightarrow> p_created_at existing | Some v \<Rightarrow> v)
                         else p_created_at existing)\<rparr>)"

text \<open>\<open>row.save()\<close> of a row read from the table: the row with its primary key.\<close>

definition save_product :: "model_cls \<Rightarrow> Product \<Rightarrow> db \<Rightarrow> db" where
  "save_product cls row d =
     d\<lparr>products := (products d)(cls := map (\<lambda>r. if p_id r = p_id row then row else r) (products d cls))\<rparr>"

definition save_order :: "Order \<Rightarrow> db \<Rightarrow> db" where
  "save_order row d = d\<lparr>orders := map (\<lambda>r. if o_id r = o_id row then row else r) (orders d)\<rparr>"

text \<open>\<open>Order.objects.create\<close> for a product row, as both branches call it, with the
  arguments as they were passed.\<close>

definition new_order :: "merge_args \<Rightarrow> nat \<Rightarrow> Product \<Rightarrow> nat \<Rightarrow> Order" where
  "new_order a t item oid =
     \<lparr>o_id = oid, o_user_id = m_user_id a, o_model = str_or (p_nomi item) (p_model item),
      o_product_id = p_id item, o_category = Some (m_category a), o_narx = p_narx item,
      o_dioptriya = opt_or (m_dioptriya a) (p_dioptriya item), o_miqdor = p_miqdor item,
      o_izoh = str_or (p_izoh item) (U ''-''), o_filial = m_branch a, o_is_sent = False,
      o_created_at = t\<rparr>"

definition create_order :: "merge_args \<Rightarrow> nat \<Rightarrow> Product \<Rightarrow> db \<Rightarrow> db" where
  "create_order a t item d =
     d\<lparr>orders := orders d @ [new_order a t item (next_order_id d)],
       next_order_id := Suc (next_order_id d)\<rparr>"

text \<open>The row \<open>model_cls.objects.create\<close> inserts for bound arguments: the keys of
  \<open>safe_kwargs\<close> that the model has, the model's defaults for the rest.\<close>

definition new_product :: "merge_args \<Rightarrow> nat \<Rightarrow> nat \<Rightarrow> Product" where
  "new_product a t pid =
     (let cls = m_model_cls a; ef = m_extra_fields a in
      \<lparr>p_id = pid, p_order_id = 0, p_user_id = m_user_id a,
       p_rasm = (if has_rasm cls then m_rasm a else None),
       p_nomi = Some (m_nomi a),
       p_turi = (if has_turi cls then m_turi a else None),
       p_dioptriya = m_dioptriya a, p_miqdor = m_miqdor a, p_narx = m_narx a,
       p_izoh = m_izoh a, p_category = m_category a,
       p_model = (if is_gatoviy cls then (case ef_model ef of None \<Rightarrow> [] | Some v \<Rightarrow> v) else []),
       p_filial = (if is_gatoviy cls then (case ef_filial ef of None \<Rightarrow> U ''-'' | Some v \<Rightarrow> v) else []),
       p_created_at = (if is_gatoviy cls then (case ef_created_at ef of None \<Rightarrow> t | Some v \<Rightarrow> v) else 0)\<rparr>)"

definition create_product :: "merge_args \<Rightarrow> nat \<Rightarrow> db \<Rightarrow> db" where
  "create_product a t d =
     (let cls = m_model_cls a in
      d\<lparr>products := (products d)(cls := products d cls @ [new_product a t (next_product_id d cls)]),
        next_product_id := (next_product_id d)(cls := Suc (next_product_id d cls))\<rparr>)"

text \<open>\<open>turi\<close> is \<open>NOT NULL\<close> in \<open>Aksessuar\<close> and \<open>Oprava\<close>: an insert with \<open>turi=None\<close>
  violates the constraint.\<close>

definition turi_not_null :: "model_cls \<Rightarrow> bool" where
  "turi_not_null cls = (cls = Aksessuar \<or> cls = Oprava)"

text \<open>
  The lookup raises before anything is written (\<open>FieldError\<close> for a \<open>turi\<close> key on
  \<open>Gatoviy\<close>, which has no such column, and what binding the decimal key raises). Every
  write binds the quantity, which has to be an integer of the database.
\<close>

definition merge_save_product_and_order :: "env \<Rightarrow> nat \<Rightarrow> merge_args \<Rightarrow> unit dbm" where
  "merge_save_product_and_order E t a d =
     (let cls = m_model_cls a in
      if given (m_turi a) \<and> \<not> has_turi cls then raiseM FieldError d
      else
        (case lookup_error E a of
           Some e \<Rightarrow> raiseM e d
         | None \<Rightarrow>
             (case first_by p_id (filter (product_filter E a) (products d cls)) of
                Some existing0 \<Rightarrow>
                  bindM (liftE (bound E a)) (\<lambda>b.
                    (let existing = merge_into b existing0 in
                     bindM (write_int (p_miqdor existing) (save_product cls existing)) (\<lambda>_ d1.
                       (case first_by o_id (filter (order_filter E (m_user_id a) (p_id existing) (m_category a)) (orders d1)) of
                          Some ord \<Rightarrow>
                            write_int (p_miqdor existing)
                              (save_order (ord\<lparr>o_miqdor := p_miqdor existing,
                                 o_izoh := str_or (p_izoh existing) (U ''-''), o_narx := p_narx existing,
                                 o_dioptriya := opt_or (m_dioptriya a) (p_dioptriya existing),
                                 o_filial := m_branch a\<rparr>)) d1
                        | None \<Rightarrow> write_int (p_miqdor existing) (create_order a t existing) d1)))) d
              | None \<Rightarrow>
                  bindM (liftE (bound E a)) (\<lambda>b.
                    if \<not> db_integer (m_miqdor a) then raiseM OverflowError
                    else if turi_not_null cls \<and> m_turi a = None then raiseM IntegrityError
                    else
                      bindM (db_write (create_product b t)) (\<lambda>_ d1.
                        db_write (create_order a t (new_product b t (next_product_id d cls))) d1)) d)))"

text \<open>One turn of the loop of \<open>save_rangsiz\<close>: the fields of the item, the \<open>continue\<close>
  for an item without a name or with a quantity that is not positive, and the upsert.\<close>

definition none_if_empty :: "pystr \<Rightarrow> pystr option" where
  "none_if_empty s = (if s = [] then None else Some s)"

definition save_rangsiz_item :: "env \<Rightarrow> request \<Rightarrow> json \<Rightarrow> unit dbm" where
  "save_rangsiz_item E req item =
     bindM (liftE (bindE (get_or item (U ''nomi'') (U ''Nomi'')) clean_str)) (\<lambda>nomi.
     bindM (liftE (bindE (get_or item (U ''dioptriya'') (U ''Dioptriya'')) clean_str)) (\<lambda>dioptriya.
     bindM (liftE (bindE (get_or item (U ''turi'') (U ''Turi'')) clean_str)) (\<lambda>turi.
     bindM (liftE (bindE (get_or item (U ''category'') (U ''Category''))
                    (\<lambda>c. clean_str (py_or c (JStr (category_label Rangsiz)))))) (\<lambda>category0.
     bindM (liftE (get_or item (U ''izoh'') (U ''Izoh''))) (\<lambda>izoh0.
     bindM (liftE (get_or item (U ''miqdor'') (U ''Miqdor''))) (\<lambda>miqdor0.
     bindM (liftE (get_or item (U ''narx'') (U ''Narx''))) (\<lambda>narx0.
     bindM (liftE (get_or item (U ''rasm'') (U ''Rasm''))) (\<lambda>rasm.
       (let category = (if category0 = [] then category_label Rangsiz else category0);
            izoh = py_or izoh0 (JStr []);
            miqdor = to_int E miqdor0 0;
            narx = to_decimal_or_none E narx0
        in if nomi = [] \<or> miqdor \<le> 0 then returnM ()
           else merge_save_product_and_order E (now req)
                  \<lparr>m_user_id = get_user_id req, m_branch = get_branch req, m_model_cls = Rangsiz,
                   m_category = category, m_nomi = nomi, m_miqdor = miqdor,
                   m_turi = none_if_empty turi, m_dioptriya = none_if_empty dioptriya,
                   m_narx = narx, m_izoh = Some (as_text E izoh),
                   m_rasm = (if rasm = JNull then None else Some (as_text E rasm)),
                   m_extra_fields = \<lparr>ef_model = None, ef_filial = None, ef_created_at = None\<rparr>\<rparr>)))))))))"

fun for_each :: "('a \<Rightarrow> unit dbm) \<Rightarrow> 'a list \<Rightarrow> unit dbm" where
  "for_each f [] = returnM ()"
| "for_each f (x # xs) = bindM (f x) (\<lambda>_. for_each f xs)"

text \<open>The body the seven save views share: the JSON gate, the payload that must be a list
  that is not empty, the loop over the items inside one transaction, and the answer with the
  view's message.\<close>

definition save_view ::
  "(env \<Rightarrow> request \<Rightarrow> json \<Rightarrow> unit dbm) \<Rightarrow> pystr \<Rightarrow> env \<Rightarrow> request \<Rightarrow> db \<Rightarrow> response \<times> db" where
  "save_view save_item message E req =
     respond (require_method POST req
       (case session_user_or_json_401 req of
          Some not_logged \<Rightarrow> returnM not_logged
        | None \<Rightarrow>
            bindM (liftE (parse_json_body (body req))) (\<lambda>payload.
              case payload of
                JList (item # items) \<Rightarrow>
                  bindM (atomic (for_each (save_item E req) (item # items)))
                    (\<lambda>_. returnM (JsonResponse
                       (JDict [(U ''success'', JBool True), (U ''message'', JStr message),
                               (U ''redirectUrl'', JStr (index_url E))]) 200))
              | _ \<Rightarrow> returnM (JsonResponse (fail_body (U ''Hech narsa tanlanmadi!'')) 400))))"

definition save_rangsiz :: "env \<Rightarrow> request \<Rightarrow> db \<Rightarrow> response \<times> db" where
  "save_rangsiz = save_view save_rangsiz_item (U ''Rangsiz linzalar saqlandi'')"

text \<open>The loops of the other six save views. A field read with \<open>_clean_str\<close> is a text; a
  field passed on as it is (\<open>rasm\<close>, \<open>izoh\<close>, the \<open>turi\<close> of \<open>save_rangli\<close>) is \<open>None\<close>
  or what the column stores for it.\<close>

definition item_text :: "json \<Rightarrow> pystr \<Rightarrow> error + pystr" where
  "item_text item key = bindE (py_get item key) clean_str"

definition text_opt :: "env \<Rightarrow> json \<Rightarrow> pystr option" where
  "text_opt E v = (if v = JNull then None else Some (as_text E v))"

definition no_extra_fields :: extra_fields where
  "no_extra_fields = \<lparr>ef_model = None, ef_filial = None, ef_created_at = None\<rparr>"

definition save_rangli_item :: "env \<Rightarrow> request \<Rightarrow> json \<Rightarrow> unit dbm" where
  "save_rangli_item E req item =
     bindM (liftE (item_text item (U ''nomi''))) (\<lambda>nomi.
     bindM (liftE (py_get item (U ''miqdor''))) (\<lambda>miqdor0.
     bindM (liftE (py_get item (U ''rasm''))) (\<lambda>rasm.
     bindM (liftE (py_get item (U ''izoh''))) (\<lambda>izoh0.
     bindM (liftE (py_get item (U ''turi''))) (\<lambda>turi.
       (let miqdor = to_int E miqdor0 0 in
        if nomi = [] \<or> miqdor \<le> 0 then returnM ()
        else merge_save_product_and_order E (now req)
               \<lparr>m_user_id = get_user_id req, m_branch = get_branch req, m_model_cls = Rangli,
                m_category = category_label Rangli, m_nomi = nomi, m_miqdor = miqdor,
                m_turi = text_opt E turi, m_dioptriya = None, m_narx = None,
                m_izoh = Some (as_text E (py_or izoh0 (JStr []))), m_rasm = text_opt E rasm,
                m_extra_fields = no_extra_fields\<rparr>))))))"

definition save_kapliya_item :: "env \<Rightarrow> request \<Rightarrow> json \<Rightarrow> unit dbm" where
  "save_kapliya_item E req item =
     bindM (liftE (item_text item (U ''nomi''))) (\<lambda>nomi.
     bindM (liftE (item_text item (U ''turi''))) (\<lambda>turi.
     bindM (liftE (py_get item (U ''miqdor''))) (\<lambda>miqdor0.
     bindM (liftE (py_get item (U ''rasm''))) (\<lambda>rasm.
     bindM (liftE (py_get item (U ''izoh''))) (\<lambda>izoh0.
       (let miqdor = to_int E miqdor0 0 in
        if nomi = [] \<or> miqdor \<le> 0 then returnM ()
        else merge_save_product_and_order E (now req)
               \<lparr>m_user_id = get_user_id req, m_branch = get_branch req, m_model_cls = Kapliya,
                m_category = category_label Kapliya, m_nomi = nomi, m_miqdor = miqdor,
                m_turi = none_if_empty turi, m_dioptriya = None, m_narx = None,
                m_izoh = Some (as_text E (py_or izoh0 (JStr []))), m_rasm = text_opt E rasm,
                m_extra_fields = no_extra_fields\<rparr>))))))"

definition save_aksessuar_item :: "env \<Rightarrow> request \<Rightarrow> json \<Rightarrow> unit dbm" where
  "save_aksessuar_item E req item =
     bindM (liftE (item_text item (U ''nomi''))) (\<lambda>nomi.
     bindM (liftE (item_text item (U ''turi''))) (\<lambda>turi.
     bindM (liftE (py_get item (U ''miqdor''))) (\<lambda>miqdor0.
     bindM (liftE (py_get item (U ''narx''))) (\<lambda>narx0.
     bindM (liftE (py_get item (U ''izoh''))) (\<lambda>izoh0.
     bindM (liftE (py_get item (U ''rasm''))) (\<lambda>rasm.
       (let miqdor = to_int E miqdor0 0 in
        if nomi = [] \<or> miqdor \<le> 0 then returnM ()
        else merge_save_product_and_order E (now req)
               \<lparr>m_user_id = get_user_id req, m_branch = get_branch req, m_model_cls = Aksessuar,
                m_category = category_label Aksessuar, m_nomi = nomi, m_miqdor = miqdor,
                m_turi = none_if_empty turi, m_dioptriya = None,
                m_narx = to_decimal_or_none E narx0,
                m_izoh = Some (as_text E (py_or izoh0 (JStr []))), m_rasm = text_opt E rasm,
                m_extra_fields = no_extra_fields\<rparr>)))))))"

definition save_antik_item :: "env \<Rightarrow> request \<Rightarrow> json \<Rightarrow> unit dbm" where
  "save_antik_item E req item =
     bindM (liftE (item_text item (U ''nomi''))) (\<lambda>nomi.
     bindM (liftE (py_get item (U ''miqdor''))) (\<lambda>miqdor0.
     bindM (liftE (py_get item (U ''narx''))) (\<lambda>narx0.
     bindM (liftE (py_get item (U ''izoh''))) (\<lambda>izoh0.
     bindM (liftE (item_text item (U ''turi''))) (\<lambda>turi.
       (let miqdor = to_int E miqdor0 0 in
        if nomi = [] \<or> miqdor \<le> 0 then returnM ()
        else merge_save_product_and_order E (now req)
               \<lparr>m_user_id = get_user_id req, m_branch = get_branch req,
                m_model_cls = Antikompyuter, m_category = category_label Antikompyuter,
                m_nomi = nomi, m_miqdor = miqdor, m_turi = none_if_empty turi,
                m_dioptriya = None, m_narx = to_decimal_or_none E narx0,
                m_izoh = Some (as_text E (py_or izoh0 (JStr []))), m_rasm = None,
                m_extra_fields = no_extra_fields\<rparr>))))))"

definition save_gatoviy_item :: "env \<Rightarrow> request \<Rightarrow> json \<Rightarrow> unit dbm" where
  "save_gatoviy_item E req item =
     bindM (liftE (item_text item (U ''nomi''))) (\<lambda>model_name.
     bindM (liftE (item_text item (U ''dioptriya''))) (\<lambda>dioptriya.
     bindM (liftE (py_get item (U ''miqdor''))) (\<lambda>miqdor0.
     bindM (liftE (py_get item (U ''izoh''))) (\<lambda>izoh0.
       (let miqdor = to_int E miqdor0 0 in
        if model_name = [] \<or> miqdor \<le> 0 then returnM ()
        else merge_save_product_and_order E (now req)
               \<lparr>m_user_id = get_user_id req, m_branch = get_branch req, m_model_cls = Gatoviy,
                m_category = category_label Gatoviy, m_nomi = model_name, m_miqdor = miqdor,
                m_turi = None, m_dioptriya = none_if_empty dioptriya, m_narx = None,
                m_izoh = Some (as_text E (py_or izoh0 (JStr []))), m_rasm = None,
                m_extra_fields = \<lparr>ef_model = Some model_name, ef_filial = Some (get_branch req),
                                   ef_created_at = Some (now req)\<rparr>\<rparr>)))))"

definition save_oprava_item :: "env \<Rightarrow> request \<Rightarrow> json \<Rightarrow> unit dbm" where
  "save_oprava_item E req item =
     bindM (liftE (item_text item (U ''nomi''))) (\<lambda>nomi.
     bindM (liftE (item_text item (U ''turi''))) (\<lambda>turi.
     bindM (liftE (py_get item (U ''miqdor''))) (\<lambda>miqdor0.
     bindM (liftE (py_get item (U ''izoh''))) (\<lambda>izoh0.
       (let miqdor = to_int E miqdor0 0 in
        if nomi = [] \<or> miqdor \<le> 0 then returnM ()
        else merge_save_product_and_order E (now req)
               \<lparr>m_user_id = get_user_id req, m_branch = get_branch req, m_model_cls = Oprava,
                m_category = category_label Oprava, m_nomi = nomi, m_miqdor = miqdor,
                m_turi = none_if_empty turi, m_dioptriya = None, m_narx = None,
                m_izoh = Some (as_text E (py_or izoh0 (JStr []))), m_rasm = None,
                m_extra_fields = no_extra_fields\<rparr>)))))"

definition save_rangli :: "env \<Rightarrow> request \<Rightarrow> db \<Rightarrow> response \<times> db" where
  "save_rangli = save_view save_rangli_item (U ''Rangli linzalar saqlandi'')"

definition save_kapliya :: "env \<Rightarrow> request \<Rightarrow> db \<Rightarrow> response \<times> db" where
  "save_kapliya = save_view save_kapliya_item (U ''Kaplyalar saqlandi'')"

definition save_aksessuar :: "env \<Rightarrow> request \<Rightarrow> db \<Rightarrow> response \<times> db" where
  "save_aksessuar = save_view save_aksessuar_item (U ''Aksessuarlar saqlandi'')"

definition save_antik :: "env \<Rightarrow> request \<Rightarrow> db \<Rightarrow> response \<times> db" where
  "save_antik = save_view save_antik_item (U ''Antikompyuterlar saqlandi'')"

definition save_gatoviy :: "env \<Rightarrow> request \<Rightarrow> db \<Rightarrow> response \<times> db" where
  "save_gatoviy = save_view save_gatoviy_item (U ''Gatoviylar saqlandi'')"

definition save_oprava :: "env \<Rightarrow> request \<Rightarrow> db \<Rightarrow> response \<times> db" where
  "save_oprava = save_view save_oprava_item (U ''Opravalar saqlandi'')"

subsection \<open>Editing, deleting and sending the cart\<close>

text \<open>\<open>Order.objects.filter (id=row_id, user_id=user_id, is_sent=False).first()\<close>.\<close>

definition own_unsent_order :: "db \<Rightarrow> pystr \<Rightarrow> int \<Rightarrow> Order option" where
  "own_unsent_order d user_id row_id =
     first_by o_id (filter (\<lambda>ord. int (o_id ord) = row_id \<and> o_user_id ord = user_id \<and> \<not> o_is_sent ord)
       (orders d))"

text \<open>\<open>order.save (update_fields=["miqdor", "izoh"])\<close>.\<close>

definition save_order_miqdor_izoh :: "Order \<Rightarrow> db \<Rightarrow> db" where
  "save_order_miqdor_izoh row d =
     d\<lparr>orders := map (\<lambda>r. if o_id r = o_id row then r\<lparr>o_miqdor := o_miqdor row, o_izoh := o_izoh row\<rparr> else r)
                   (orders d)\<rparr>"

text \<open>\<open>model_cls.objects.filter (id=product_id).update (miqdor=..., izoh=...)\<close>.\<close>

definition update_product :: "model_cls \<Rightarrow> nat \<Rightarrow> int \<Rightarrow> pystr \<Rightarrow> db \<Rightarrow> db" where
  "update_product cls product_id miqdor izoh d =
     d\<lparr>products := (products d)(cls :=
         map (\<lambda>r. if p_id r = product_id then r\<lparr>p_miqdor := miqdor, p_izoh := Some izoh\<rparr> else r)
           (products d cls))\<rparr>"

definition save_profile_row :: "env \<Rightarrow> request \<Rightarrow> db \<Rightarrow> response \<times> db" where
  "save_profile_row E req =
     respond (require_method POST req
       (case session_user_or_json_401 req of
          Some not_logged \<Rightarrow> returnM not_logged
        | None \<Rightarrow>
            bindM (liftE (parse_json_body (body req))) (\<lambda>data.
              case data of
                JDict kvs \<Rightarrow>
                  (let row_id = to_int E (dict_get kvs (U ''Id'')) 0;
                       miqdor = to_int E (dict_get kvs (U ''Miqdor'')) 0;
                       izoh = as_text E (py_or (dict_get kvs (U ''Izoh'')) (JStr (U ''-'')))
                   in bindM (liftE (clean_str (dict_get kvs (U ''Category'')))) (\<lambda>category.
                        if row_id \<le> 0
                        then returnM (JsonResponse (fail_body
                               (U ''Id noto'' @ [8216] @ U ''g'' @ [8216] @ U ''ri.'')) 400)
                        else (\<lambda>d.
                          (case own_unsent_order d (get_user_id req) row_id of
                             None \<Rightarrow> returnM (JsonResponse (fail_body (U ''Buyurtma topilmadi.'')) 404)
                           | Some order0 \<Rightarrow>
                               (let ord = order0\<lparr>o_miqdor := max 0 miqdor, o_izoh := izoh\<rparr>;
                                    cat = (if category \<noteq> [] then category else str_or (o_category ord) [])
                                in bindM (write_int (o_miqdor ord) (save_order_miqdor_izoh ord)) (\<lambda>_.
                                     case CATEGORY_MODEL cat of
                                       Some model_cls \<Rightarrow>
                                         bindM (write_int (o_miqdor ord)
                                                  (update_product model_cls (o_product_id ord)
                                                     (o_miqdor ord) (o_izoh ord)))
                                           (\<lambda>_. returnM (JsonResponse ok_body 200))
                                     | None \<Rightarrow> returnM (JsonResponse ok_body 200)))) d)))
              | _ \<Rightarrow> returnM (JsonResponse (fail_body (U ''JSON xato formatda.'')) 400))))"

definition delete_product :: "model_cls \<Rightarrow> nat \<Rightarrow> db \<Rightarrow> db" where
  "delete_product cls product_id d =
     d\<lparr>products := (products d)(cls := filter (\<lambda>r. p_id r \<noteq> product_id) (products d cls))\<rparr>"

definition delete_order :: "nat \<Rightarrow> db \<Rightarrow> db" where
  "delete_order order_id d = d\<lparr>orders := filter (\<lambda>r. o_id r \<noteq> order_id) (orders d)\<rparr>"

definition delete_rows_item :: "env \<Rightarrow> request \<Rightarrow> json \<Rightarrow> unit dbm" where
  "delete_rows_item E req item =
     bindM (liftE (py_get item (U ''Id''))) (\<lambda>id0.
       (let row_id = to_int E id0 0 in
        if row_id \<le> 0 then returnM ()
        else (\<lambda>d.
          (case own_unsent_order d (get_user_id req) row_id of
             None \<Rightarrow> returnM ()
           | Some ord \<Rightarrow>
               bindM (if str_or (o_category ord) [] \<noteq> [] then returnM (str_or (o_category ord) [])
                      else liftE (bindE (py_get item (U ''Category'')) clean_str)) (\<lambda>cat.
               bindM (case CATEGORY_MODEL cat of
                        Some model_cls \<Rightarrow> db_write (delete_product model_cls (o_product_id ord))
                      | None \<Rightarrow> returnM ()) (\<lambda>_.
               db_write (delete_order (o_id ord))))) d)))"

definition delete_rows :: "env \<Rightarrow> request \<Rightarrow> db \<Rightarrow> response \<times> db" where
  "delete_rows E req =
     respond (require_method POST req
       (case session_user_or_json_401 req of
          Some not_logged \<Rightarrow> returnM not_logged
        | None \<Rightarrow>
            bindM (liftE (parse_json_body (body req))) (\<lambda>payload.
              case payload of
                JList (item # items) \<Rightarrow>
                  bindM (atomic (for_each (delete_rows_item E req) (item # items)))
                    (\<lambda>_. returnM (JsonResponse ok_body 200))
              | _ \<Rightarrow> returnM (JsonResponse (fail_body (U ''Hech narsa tanlanmadi.'')) 400))))"

text \<open>\<open>mark_as_sent\<close>: the archive, one item per order, then the product rows and the
  orders deleted.\<close>

definition create_archive :: "request \<Rightarrow> db \<Rightarrow> db" where
  "create_archive req d =
     d\<lparr>archives := archives d @
          [\<lparr>a_id = next_archive_id d, a_filial = Some (get_branch req),
            a_user_full_name = Some (get_full_name req), a_created_at = now req,
            a_is_pdf_downloaded = True, a_is_telegram_shared = False\<rparr>],
       next_archive_id := Suc (next_archive_id d)\<rparr>"

definition archive_item_of :: "nat \<Rightarrow> Order \<Rightarrow> nat \<Rightarrow> ArchiveItem" where
  "archive_item_of archive_id ord item_id =
     \<lparr>ai_id = item_id, ai_archive = archive_id, ai_category = o_category ord,
      ai_model = Some (o_model ord), ai_dioptriya = o_dioptriya ord, ai_miqdor = o_miqdor ord,
      ai_izoh = Some (o_izoh ord)\<rparr>"

definition bulk_create_items :: "nat \<Rightarrow> Order list \<Rightarrow> db \<Rightarrow> db" where
  "bulk_create_items archive_id ords d =
     d\<lparr>archive_items := archive_items d @
          map (\<lambda>(ord, k). archive_item_of archive_id ord (next_archive_item_id d + k))
            (zip ords [0 ..< length ords]),
       next_archive_item_id := next_archive_item_id d + length ords\<rparr>"

definition clear_order :: "Order \<Rightarrow> unit dbm" where
  "clear_order ord =
     bindM (case CATEGORY_MODEL (str_or (o_category ord) []) of
              Some model_cls \<Rightarrow> db_write (delete_product model_cls (o_product_id ord))
            | None \<Rightarrow> returnM ())
       (\<lambda>_. db_write (delete_order (o_id ord)))"

text \<open>\<open>list (Order.objects.filter (id__in=ids, user_id=user_id, is_sent=False))\<close>: the
  query binds every id, so an id that is no integer of the database raises.\<close>

definition orders_in :: "request \<Rightarrow> int list \<Rightarrow> db \<Rightarrow> error + Order list" where
  "orders_in req ids d =
     (if list_all db_integer ids
      then Inr (filter (\<lambda>ord. int (o_id ord) \<in> set ids \<and> o_user_id ord = get_user_id req
                               \<and> \<not> o_is_sent ord) (orders d))
      else Inl OverflowError)"

definition selected_orders :: "env \<Rightarrow> request \<Rightarrow> json list \<Rightarrow> db \<Rightarrow> error + Order list" where
  "selected_orders E req payload d =
     orders_in req (filter (\<lambda>i. 0 < i) (map (\<lambda>x. to_int E x 0) payload)) d"

definition mark_as_sent :: "env \<Rightarrow> request \<Rightarrow> db \<Rightarrow> response \<times> db" where
  "mark_as_sent E req =
     respond (require_method POST req
       (case session_user_or_json_401 req of
          Some not_logged \<Rightarrow> returnM not_logged
        | None \<Rightarrow>
            bindM (liftE (parse_json_body (body req))) (\<lambda>payload.
              case payload of
                JList (x # xs) \<Rightarrow>
                  if filter (\<lambda>i. 0 < i) (map (\<lambda>x. to_int E x 0) (x # xs)) = []
                  then returnM (JsonResponse (fail_body
                         (U ''OrderId noto'' @ [8216] @ U ''g'' @ [8216] @ U ''ri.'')) 400)
                  else (\<lambda>d.
                    bindM (liftE (selected_orders E req (x # xs) d)) (\<lambda>ords.
                      if ords = []
                      then returnM (JsonResponse (fail_body (U ''Buyurtmalar topilmadi.'')) 404)
                      else
                        bindM (atomic (\<lambda>d0.
                                 bindM (db_write (create_archive req)) (\<lambda>_.
                                 bindM (db_write (bulk_create_items (next_archive_id d0) ords)) (\<lambda>_.
                                 for_each clear_order ords)) d0))
                          (\<lambda>_. returnM (JsonResponse (ok_msg_body (U ''Buyurtmalar arxivlandi.'')) 200))) d)
              | _ \<Rightarrow> returnM (JsonResponse (fail_body
                       (U ''Bo'' @ [8216] @ U ''sh ro'' @ [8216] @ U ''yxat.'')) 400))))"

subsection \<open>Pages\<close>

text \<open>A view that renders a template for a logged-in session: the category pages, the
  profile, the archive list and the feedback page differ in the template and in the rows
  they hand to it, which the model leaves out.\<close>

definition render_for_session :: "pystr \<Rightarrow> env \<Rightarrow> request \<Rightarrow> db \<Rightarrow> response \<times> db" where
  "render_for_session template E req d =
     (case session_user_or_redirect E req of
        Some redir \<Rightarrow> (answer redir, d)
      | None \<Rightarrow> (Render template, d))"

definition render_for_admin :: "pystr \<Rightarrow> env \<Rightarrow> request \<Rightarrow> db \<Rightarrow> response \<times> db" where
  "render_for_admin template E req d =
     (case session_user_or_redirect E req of
        Some redir \<Rightarrow> (answer redir, d)
      | None \<Rightarrow>
          (case admin_or_redirect E req of
             Some redir2 \<Rightarrow> (answer redir2, d)
           | None \<Rightarrow> (Render template, d)))"

definition rangsiz_page :: "env \<Rightarrow> request \<Rightarrow> db \<Rightarrow> response \<times> db" where
  "rangsiz_page = render_for_session (U ''optika/rangsiz.html'')"

definition rangli_page :: "env \<Rightarrow> request \<Rightarrow> db \<Rightarrow> response \<times> db" where
  "rangli_page = render_for_session (U ''optika/rangli.html'')"

definition kaplya_page :: "env \<Rightarrow> request \<Rightarrow> db \<Rightarrow> response \<times> db" where
  "kaplya_page = render_for_session (U ''optika/kaplya.html'')"

definition aksessuar_page :: "env \<Rightarrow> request \<Rightarrow> db \<Rightarrow> response \<times> db" where
  "aksessuar_page = render_for_session (U ''optika/aksessuar.html'')"

definition antikomp_page :: "env \<Rightarrow> request \<Rightarrow> db \<Rightarrow> response \<times> db" where
  "antikomp_page = render_for_session (U ''optika/antikomp.html'')"

definition gatoviy_page :: "env \<Rightarrow> request \<Rightarrow> db \<Rightarrow> response \<times> db" where
  "gatoviy_page = render_for_session (U ''optika/gatoviy.html'')"

definition oprava_page :: "env \<Rightarrow> request \<Rightarrow> db \<Rightarrow> response \<times> db" where
  "oprava_page = render_for_session (U ''optika/oprava.html'')"

definition profile_view :: "env \<Rightarrow> request \<Rightarrow> db \<Rightarrow> response \<times> db" where
  "profile_view = render_for_session (U ''optika/profile.html'')"

definition archive_view :: "env \<Rightarrow> request \<Rightarrow> db \<Rightarrow> response \<times> db" where
  "archive_view = render_for_session (U ''optika/archive.html'')"

definition feedback_page :: "env \<Rightarrow> request \<Rightarrow> db \<Rightarrow> response \<times> db" where
  "feedback_page = render_for_session (U ''optika/feedback.html'')"

definition admin_page :: "env \<Rightarrow> request \<Rightarrow> db \<Rightarrow> response \<times> db" where
  "admin_page = render_for_admin (U ''optika/admin.html'')"

definition admin_feedback_page :: "env \<Rightarrow> request \<Rightarrow> db \<Rightarrow> response \<times> db" where
  "admin_feedback_page = render_for_admin (U ''optika/admin_feedback.html'')"

definition telegram_chat_id_page :: "env \<Rightarrow> request \<Rightarrow> db \<Rightarrow> response \<times> db" where
  "telegram_chat_id_page E req d =
     (if req_method req \<noteq> GET then (NotAllowed, d)
      else render_for_admin (U ''optika/telegram_chat_id.html'') E req d)"

text \<open>\<open>add_user_page_and_create\<close>: the page on GET, a new user on POST. The flash messages
  are left out.\<close>

definition create_user :: "Users \<Rightarrow> db \<Rightarrow> db" where
  "create_user u d =
     d\<lparr>users := users d @ [u\<lparr>u_id := next_user_id d\<rparr>], next_user_id := Suc (next_user_id d)\<rparr>"

definition add_user_page_and_create :: "env \<Rightarrow> request \<Rightarrow> db \<Rightarrow> response \<times> db" where
  "add_user_page_and_create E req d =
     (if req_method req \<noteq> GET \<and> req_method req \<noteq> POST then (NotAllowed, d)
      else
        (case session_user_or_redirect E req of
           Some redir \<Rightarrow> (answer redir, d)
         | None \<Rightarrow>
             (case admin_or_redirect E req of
                Some redir2 \<Rightarrow> (answer redir2, d)
              | None \<Rightarrow>
                  if req_method req = POST
                  then
                    (let full_name = clean_form req (U ''FullName'');
                         phone = clean_form req (U ''Phone'');
                         user_id = clean_form req (U ''UserId'');
                         parol = clean_form req (U ''Parol'');
                         role = (if clean_form req (U ''Role'') = [] then U ''User''
                                 else clean_form req (U ''Role''))
                     in if full_name = [] \<or> user_id = [] \<or> parol = []
                        then (Redirect (U ''/Home/AddUser''), d)
                        else if filter (\<lambda>u. u_user_id u = user_id) (users d) \<noteq> []
                        then (Redirect (U ''/Home/AddUser''), d)
                        else respond
                               (bindM (db_write (create_user
                                         \<lparr>u_id = 0, u_full_name = full_name, u_phone = phone,
                                          u_user_id = user_id, u_parol = make_password E parol,
                                          u_role = role\<rparr>))
                                  (\<lambda>_. returnM (Redirect (U ''/Home/AddUser'')))) d)
                  else (Render (U ''optika/add_user.html''), d))))"

subsection \<open>The other JSON views\<close>

fun map_E :: "('a \<Rightarrow> error + 'b) \<Rightarrow> 'a list \<Rightarrow> error + 'b list" where
  "map_E f [] = Inr []"
| "map_E f (x # xs) = bindE (f x) (\<lambda>y. bindE (map_E f xs) (\<lambda>ys. Inr (y # ys)))"

text \<open>\<open>_clean_str (it.get (a) or it.get (b) or "-")\<close>.\<close>

definition get_or_dash :: "json \<Rightarrow> pystr \<Rightarrow> pystr \<Rightarrow> error + pystr" where
  "get_or_dash it a b = bindE (get_or it a b) (\<lambda>v. clean_str (py_or v (JStr (U ''-''))))"

definition payload_row :: "env \<Rightarrow> json \<Rightarrow> error + pystr list" where
  "payload_row E it =
     bindE (bindE (py_get it (U ''Category'')) (\<lambda>v. clean_str (py_or v (JStr (U ''-''))))) (\<lambda>category.
     bindE (get_or_dash it (U ''Model'') (U ''model'')) (\<lambda>model_name.
     bindE (get_or_dash it (U ''Dioptriya'') (U ''dioptriya'')) (\<lambda>dioptriya.
     bindE (get_or it (U ''Miqdor'') (U ''miqdor'')) (\<lambda>miqdor.
     bindE (get_or_dash it (U ''Izoh'') (U ''izoh'')) (\<lambda>izoh.
       Inr [category, model_name, dioptriya, str_of_int (to_int E miqdor 0), izoh])))))"

definition order_row :: "Order \<Rightarrow> pystr list" where
  "order_row ord =
     [str_or (o_category ord) (U ''-''), str_or (Some (o_model ord)) (U ''-''),
      str_or (o_dioptriya ord) (U ''-''), str_of_int (o_miqdor ord),
      str_or (Some (o_izoh ord)) (U ''-'')]"

text \<open>The PDF of \<open>download_orders_pdf\<close> for a payload that is a list and not empty: the
  caller's unsent orders among the ids of the payload or, when there is none, the rows of
  the payload itself.\<close>

definition orders_pdf :: "env \<Rightarrow> request \<Rightarrow> json list \<Rightarrow> response dbm" where
  "orders_pdf E req payload =
     bindM (liftE (map_E (\<lambda>it. bindE (get_or it (U ''Id'') (U ''OrderId''))
                                  (\<lambda>v. Inr (to_int E v 0))) payload)) (\<lambda>oids. \<lambda>d.
       (let ids = filter (\<lambda>oid. 0 < oid) oids in
        bindM (liftE (if ids = [] then Inr [] else orders_in req ids d)) (\<lambda>ords.
        bindM (if ords = [] then liftE (map_E (payload_row E) payload)
               else returnM (map order_row ords)) (\<lambda>rows.
          returnM (PdfResponse
            (build_table_pdf E (U ''Buyurtma (Optika)'')
               [U ''Ism: '' @ get_full_name req, U ''Filial: '' @ get_branch req,
                U ''Sana: '' @ strftime_local E (now req)]
               table_columns rows)
            (U ''order.pdf''))))) d)"

definition download_orders_pdf :: "env \<Rightarrow> request \<Rightarrow> db \<Rightarrow> response \<times> db" where
  "download_orders_pdf E req =
     respond (require_method POST req
       (case session_user_or_json_401 req of
          Some not_logged \<Rightarrow> returnM not_logged
        | None \<Rightarrow>
            bindM (liftE (parse_json_body (body req))) (\<lambda>payload.
              case payload of
                JList (x # xs) \<Rightarrow> orders_pdf E req (x # xs)
              | _ \<Rightarrow> returnM (JsonResponse (fail_body
                       (U ''Order list bo'' @ [8216] @ U ''sh.'')) 400))))"

definition archive_json :: "env \<Rightarrow> Archive \<Rightarrow> json" where
  "archive_json E a =
     JDict [(U ''id'', JInt (int (a_id a))), (U ''filial'', opt_json (a_filial a)),
            (U ''userFullName'', opt_json (a_user_full_name a)),
            (U ''createdAt'', JStr (isoformat E (a_created_at a))),
            (U ''isTelegramShared'', JBool (a_is_telegram_shared a)),
            (U ''isPdfDownloaded'', JBool (a_is_pdf_downloaded a))]"

text \<open>The gate of the admin-only JSON views.\<close>

definition admin_json_view :: "http_method \<Rightarrow> request \<Rightarrow> response dbm \<Rightarrow> db \<Rightarrow> response \<times> db" where
  "admin_json_view m req view =
     respond (require_method m req
       (case session_user_or_json_401 req of
          Some not_logged \<Rightarrow> returnM not_logged
        | None \<Rightarrow>
            (case admin_or_403 req of
               Some not_admin \<Rightarrow> returnM not_admin
             | None \<Rightarrow> view)))"

definition get_archives :: "env \<Rightarrow> request \<Rightarrow> db \<Rightarrow> response \<times> db" where
  "get_archives E req =
     admin_json_view GET req
       (\<lambda>d. returnM (JsonResponse
          (JList (map (archive_json E) (rev (sort_key a_created_at (archives d))))) 200) d)"

text \<open>Deleting an archive deletes its items too (\<open>on_delete=CASCADE\<close>), in one transaction
  of the ORM.\<close>

definition delete_archives :: "(Archive \<Rightarrow> bool) \<Rightarrow> db \<Rightarrow> db" where
  "delete_archives P d =
     d\<lparr>archive_items := filter (\<lambda>it. \<not> (\<exists>a \<in> set (archives d). P a \<and> a_id a = ai_archive it))
                           (archive_items d),
       archives := filter (\<lambda>a. \<not> P a) (archives d)\<rparr>"

definition delete_archive_of :: "env \<Rightarrow> (pystr \<times> json) list \<Rightarrow> response dbm" where
  "delete_archive_of E kvs =
     (let archive_id = to_int E (dict_get kvs (U ''ArchiveId'')) 0 in
      if archive_id \<le> 0
      then returnM (JsonResponse (fail_body (U ''ArchiveId xato.'')) 400)
      else bindM (db_write (delete_archives (\<lambda>a. int (a_id a) = archive_id)))
             (\<lambda>_. returnM (JsonResponse ok_body 200)))"

definition delete_archive :: "env \<Rightarrow> request \<Rightarrow> db \<Rightarrow> response \<times> db" where
  "delete_archive E req =
     admin_json_view POST req
       (bindM (liftE (parse_json_body (body req))) (\<lambda>data.
          case data of
            JDict kvs \<Rightarrow> delete_archive_of E kvs
          | _ \<Rightarrow> returnM (JsonResponse (fail_body (U ''JSON xato.'')) 400)))"

definition clear_all_archives :: "env \<Rightarrow> request \<Rightarrow> db \<Rightarrow> response \<times> db" where
  "clear_all_archives E req =
     admin_json_view POST req
       (bindM (db_write (delete_archives (\<lambda>a. True)))
          (\<lambda>_. returnM (JsonResponse (ok_msg_body
             (U ''Barcha arxivlar o'' @ [8216] @ U ''chirildi.'')) 200)))"

definition set_all_pdf_downloaded :: "db \<Rightarrow> db" where
  "set_all_pdf_downloaded d =
     d\<lparr>archives := map (\<lambda>a. a\<lparr>a_is_pdf_downloaded := True\<rparr>) (archives d)\<rparr>"

definition download_all_archives_pdf :: "env \<Rightarrow> request \<Rightarrow> db \<Rightarrow> response \<times> db" where
  "download_all_archives_pdf E req =
     admin_json_view POST req
       (\<lambda>d. bindM (db_write set_all_pdf_downloaded)
               (\<lambda>_. returnM (PdfResponse
                  (build_table_pdf E (U ''Barcha Arxiv Buyurtmalar (Optika)'')
                     [U ''Sana: '' @ strftime_local E (now req)] table_columns (all_archive_rows E d))
                  (U ''all_archives.pdf''))) d)"

definition create_feedback :: "request \<Rightarrow> pystr \<Rightarrow> pystr \<Rightarrow> db \<Rightarrow> db" where
  "create_feedback req phone message_text d =
     d\<lparr>feedbacks := feedbacks d @
          [\<lparr>f_id = next_feedback_id d, f_full_name = get_full_name req,
            f_phone = none_if_empty phone, f_message = message_text, f_created_at = now req\<rparr>],
       next_feedback_id := Suc (next_feedback_id d)\<rparr>"

definition store_feedback :: "request \<Rightarrow> (pystr \<times> json) list \<Rightarrow> response dbm" where
  "store_feedback req kvs =
     bindM (liftE (clean_str (dict_get kvs (U ''message'')))) (\<lambda>message_text.
     bindM (liftE (clean_str (dict_get kvs (U ''phone'')))) (\<lambda>phone.
       if message_text = []
       then returnM (JsonResponse (fail_body
              (U ''Xabar bo'' @ [8216] @ U ''sh bo'' @ [8216] @ U ''lmasin.'')) 400)
       else bindM (db_write (create_feedback req phone message_text))
              (\<lambda>_. returnM (JsonResponse ok_body 200))))"

definition send_feedback :: "env \<Rightarrow> request \<Rightarrow> db \<Rightarrow> response \<times> db" where
  "send_feedback E req =
     respond (require_method POST req
       (case session_user_or_json_401 req of
          Some not_logged \<Rightarrow> returnM not_logged
        | None \<Rightarrow>
            bindM (liftE (parse_json_body (body req))) (\<lambda>data.
              case data of
                JDict kvs \<Rightarrow> store_feedback req kvs
              | _ \<Rightarrow> returnM (JsonResponse (fail_body (U ''JSON xato.'')) 400))))"

definition clear_all_feedback :: "env \<Rightarrow> request \<Rightarrow> db \<Rightarrow> response \<times> db" where
  "clear_all_feedback E req =
     admin_json_view POST req
       (bindM (db_write (\<lambda>d. d\<lparr>feedbacks := []\<rparr>))
          (\<lambda>_. returnM (Redirect (U ''/Home/AdminFeedBack''))))"

section \<open>An environment to run the views in\<close>

text \<open>A small environment for evaluating the views on concrete requests: ASCII case folding,
  decimal digits for \<open>int\<close>, a password hasher that prefixes its input, a messaging API
  that accepts the chat \<open>1\<close> only, a URL configuration with the routes of \<open>urls.py\<close> in
  their namespace alone (so none is named \<open>login\<close> or \<open>index\<close>), a decimal column
  that takes the texts of digits as they are, and a database that holds a decimal as a number
  and compares its shortest text (so a bound decimal that ends in 0 matches nothing).\<close>

definition E0 :: env where
  "E0 = \<lparr>casefold = map (\<lambda>c. if 65 \<le> c \<and> c \<le> 90 then c + 32 else c),
         int_of_str = (\<lambda>s. if s \<noteq> [] \<and> list_all (\<lambda>c. 48 \<le> c \<and> c \<le> 57) s
                             then Some (foldl (\<lambda>n c. 10 * n + (int c - 48)) 0 s) else None),
         decimal_of = (\<lambda>v. case v of JInt n \<Rightarrow> Some (str_of_int n) | _ \<Rightarrow> None),
         py_str = (\<lambda>v. case v of JInt n \<Rightarrow> str_of_int n | _ \<Rightarrow> U ''None''),
         index_url = U ''/'',
         check_password = (\<lambda>raw enc. Some (enc = U ''hash$'' @ raw)),
         make_password = (\<lambda>raw. U ''hash$'' @ raw),
         strftime_local = str_nat,
         strftime_utc = str_nat,
         isoformat = str_nat,
         pdf_font = U ''Helvetica'',
         telegram_bot_token = Some (U ''42:token''),
         requests_importable = True,
         requests_post = (\<lambda>url chat. if chat = U ''1''
                            then Reply True (Some (JDict [(U ''ok'', JBool True)])) else PostRaises),
         resolve_url = (\<lambda>name. None),
         narx_column = Inr,
         dioptriya_column = (\<lambda>s. if s \<noteq> [] \<and> list_all (\<lambda>c. 48 \<le> c \<and> c \<le> 57 \<or> c = 46) s
                                   then Inr s else Inl ValidationError),
         decimal_iexact = (\<lambda>c b. c = b \<and> b \<noteq> [] \<and> last b \<noteq> 48)\<rparr>"

definition empty_db :: db where
  "empty_db = \<lparr>users = [], orders = [], products = (\<lambda>cls. []), archives = [], archive_items = [],
      feedbacks = [], telegram_chats = [], next_user_id = 1, next_order_id = 1,
      next_product_id = (\<lambda>cls. 1), next_archive_id = 1, next_archive_item_id = 1,
      next_feedback_id = 1, failing_in = None\<rparr>"

definition no_session :: session where
  "no_session = \<lparr>UserId = None, FullName = None, Role = None, Branch = None\<rparr>"

definition user_session :: session where
  "user_session = \<lparr>UserId = Some (U ''u1''), FullName = Some (U ''Ali''), Role = Some (U ''User''),
      Branch = Some (U ''Chilonzor'')\<rparr>"

definition admin_session :: session where
  "admin_session = \<lparr>UserId = Some (U ''a1''), FullName = Some (U ''Vali''), Role = Some (U ''Admin''),
      Branch = Some (U ''Chilonzor'')\<rparr>"

definition post_json :: "session \<Rightarrow> json \<Rightarrow> request" where
  "post_json s v = \<lparr>req_method = POST, session = s, body = Json v, form = (\<lambda>k. None), now = 7\<rparr>"

definition plain_user :: Users where
  "plain_user = \<lparr>u_id = 1, u_full_name = U ''Ali'', u_phone = [], u_user_id = U ''u1'',
      u_parol = U ''secret'', u_role = U ''User''\<rparr>"

definition login_request :: request where
  "login_request = \<lparr>req_method = POST, session = no_session, body = NoBody,
      form = map_of [(U ''userId'', U ''u1''), (U ''password'', U '' secret''), (U ''branch'', U ''Chilonzor'')],
      now = 7\<rparr>"

definition two_chats :: "TelegramChat list" where
  "two_chats = [\<lparr>tc_id = 1, tc_full_name = U ''Ali'', tc_chat_id = U ''9''\<rparr>,
                \<lparr>tc_id = 2, tc_full_name = U ''Vali'', tc_chat_id = U ''1''\<rparr>]"

definition one_archive :: Archive where
  "one_archive = \<lparr>a_id = 1, a_filial = Some (U ''Chilonzor''), a_user_full_name = Some (U ''Ali''),
      a_created_at = 3, a_is_pdf_downloaded = True, a_is_telegram_shared = False\<rparr>"

definition other_archive :: Archive where
  "other_archive = \<lparr>a_id = 1, a_filial = Some (U ''Yunusobod''), a_user_full_name = Some (U ''Ali''),
      a_created_at = 3, a_is_pdf_downloaded = False, a_is_telegram_shared = False\<rparr>"

definition own_archive :: Archive where
  "own_archive = \<lparr>a_id = 2, a_filial = Some (U ''Chilonzor''), a_user_full_name = Some (U ''Ali''),
      a_created_at = 4, a_is_pdf_downloaded = False, a_is_telegram_shared = False\<rparr>"

definition frame_product :: Product where
  "frame_product = \<lparr>p_id = 5, p_order_id = 0, p_user_id = U ''u1'', p_rasm = None,
      p_nomi = Some (U ''Ray''), p_turi = Some (U ''Erkak''), p_dioptriya = None, p_miqdor = 2,
      p_narx = None, p_izoh = Some [], p_category = category_label Oprava, p_model = [],
      p_filial = [], p_created_at = 0\<rparr>"

definition frame_order :: Order where
  "frame_order = \<lparr>o_id = 1, o_user_id = U ''u1'', o_model = U ''Ray'', o_product_id = 5,
      o_category = Some (category_label Oprava), o_narx = None, o_dioptriya = None, o_miqdor = 2,
      o_izoh = U ''-'', o_filial = U ''Chilonzor'', o_is_sent = False, o_created_at = 3\<rparr>"

definition cart_db :: db where
  "cart_db = empty_db\<lparr>orders := [frame_order], products := (\<lambda>cls. [])(Oprava := [frame_product]),
      next_order_id := 2, next_product_id := (\<lambda>cls. 1)(Oprava := 6)\<rparr>"

definition drops_product :: Product where
  "drops_product = \<lparr>p_id = 5, p_order_id = 0, p_user_id = U ''u2'', p_rasm = None,
      p_nomi = Some (U ''Systane''), p_turi = None, p_dioptriya = None, p_miqdor = 9,
      p_narx = None, p_izoh = Some [], p_category = category_label Kapliya, p_model = [],
      p_filial = [], p_created_at = 0\<rparr>"

definition shelf_db :: db where
  "shelf_db = cart_db\<lparr>products := (\<lambda>cls. [])(Oprava := [frame_product], Kapliya := [drops_product])\<rparr>"

definition edit_request :: "pystr \<Rightarrow> request" where
  "edit_request category =
     post_json user_session
       (JDict [(U ''Id'', JInt 1), (U ''Miqdor'', JInt 4), (U ''Izoh'', JStr (U ''yangi'')),
               (U ''Category'', JStr category)])"

definition lens_request :: request where
  "lens_request = post_json user_session
     (JList [JDict [(U ''nomi'', JStr (U ''Acuvue'')), (U ''miqdor'', JInt 2)]])"

definition lens_args :: merge_args where
  "lens_args = \<lparr>m_user_id = U ''u1'', m_branch = U ''Chilonzor'', m_model_cls = Rangsiz,
      m_category = category_label Rangsiz, m_nomi = U ''Acuvue'', m_miqdor = 2, m_turi = None,
      m_dioptriya = None, m_narx = None, m_izoh = Some [], m_rasm = None,
      m_extra_fields = \<lparr>ef_model = None, ef_filial = None, ef_created_at = None\<rparr>\<rparr>"

text \<open>The views that answer with JSON, as \<open>urls.py\<close> routes to them, with the method their
  decorator requires and whether they call \<open>_admin_or_403\<close>.\<close>

datatype json_view =
    SaveRangsiz | SaveRangli | SaveKapliya | SaveAksessuar | SaveAntik | SaveGatoviy | SaveOprava
  | SaveProfileRow | DeleteRows | DownloadOrdersPdf | MarkAsSent | DownloadArchivePdf
  | GetArchives | GetArchiveItems | DeleteArchive | ClearAllArchives | DownloadAllArchivesPdf
  | ShareAllArchivesTelegram | SendFeedback | ClearAllFeedback

fun run_view :: "json_view \<Rightarrow> env \<Rightarrow> request \<Rightarrow> db \<Rightarrow> response \<times> db" where
  "run_view SaveRangsiz = save_rangsiz"
| "run_view SaveRangli = save_rangli"
| "run_view SaveKapliya = save_kapliya"
| "run_view SaveAksessuar = save_aksessuar"
| "run_view SaveAntik = save_antik"
| "run_view SaveGatoviy = save_gatoviy"
| "run_view SaveOprava = save_oprava"
| "run_view SaveProfileRow = save_profile_row"
| "run_view DeleteRows = delete_rows"
| "run_view DownloadOrdersPdf = download_orders_pdf"
| "run_view MarkAsSent = mark_as_sent"
| "run_view DownloadArchivePdf = download_archive_pdf"
| "run_view GetArchives = get_archives"
| "run_view GetArchiveItems = get_archive_items"
| "run_view DeleteArchive = delete_archive"
| "run_view ClearAllArchives = clear_all_archives"
| "run_view DownloadAllArchivesPdf = download_all_archives_pdf"
| "run_view ShareAllArchivesTelegram = share_all_archives_telegram"
| "run_view SendFeedback = send_feedback"
| "run_view ClearAllFeedback = clear_all_feedback"

fun view_method :: "json_view \<Rightarrow> http_method" where
  "view_method GetArchives = GET"
| "view_method GetArchiveItems = GET"
| "view_method _ = POST"

fun admin_only :: "json_view \<Rightarrow> bool" where
  "admin_only GetArchives = True"
| "admin_only GetArchiveItems = True"
| "admin_only DeleteArchive = True"
| "admin_only ClearAllArchives = True"
| "admin_only DownloadAllArchivesPdf = True"
| "admin_only ShareAllArchivesTelegram = True"
| "admin_only ClearAllFeedback = True"
| "admin_only _ = False"

text \<open>What a view reads from the body: a list that is not empty, a dict, or nothing.\<close>

datatype payload_kind = ListPayload | DictPayload | NoPayload

fun payload_of :: "json_view \<Rightarrow> payload_kind" where
  "payload_of SaveProfileRow = DictPayload"
| "payload_of DownloadArchivePdf = DictPayload"
| "payload_of DeleteArchive = DictPayload"
| "payload_of SendFeedback = DictPayload"
| "payload_of GetArchives = NoPayload"
| "payload_of GetArchiveItems = NoPayload"
| "payload_of ClearAllArchives = NoPayload"
| "payload_of DownloadAllArchivesPdf = NoPayload"
| "payload_of ShareAllArchivesTelegram = NoPayload"
| "payload_of ClearAllFeedback = NoPayload"
| "payload_of _ = ListPayload"

text \<open>An empty or malformed payload: no body, a body that is not JSON, or JSON of another
  shape than the view reads.\<close>

fun malformed :: "payload_kind \<Rightarrow> body \<Rightarrow> bool" where
  "malformed NoPayload b = False"
| "malformed k NoBody = True"
| "malformed k NotJson = True"
| "malformed k BadUtf8 = False"
| "malformed ListPayload (Json (JList (x # xs))) = False"
| "malformed DictPayload (Json (JDict kvs)) = False"
| "malformed k (Json v) = True"

text \<open>A JSON answer whose \<open>success\<close> is false and whose \<open>message\<close> is a text that is not
  empty.\<close>

fun json_failure :: "response \<Rightarrow> bool" where
  "json_failure (JsonResponse (JDict kvs) status) =
     (map_of kvs (U ''success'') = Some (JBool False)
      \<and> (case map_of kvs (U ''message'') of Some (JStr m) \<Rightarrow> m \<noteq> [] | _ \<Rightarrow> False))"
| "json_failure _ = False"

fun status_of :: "response \<Rightarrow> nat" where
  "status_of (JsonResponse b status) = status"
| "status_of (Redirect u) = 302"
| "status_of (Render t) = 200"
| "status_of (PdfResponse pdf name) = 200"
| "status_of NotAllowed = 405"
| "status_of (ServerError e) = 500"

text \<open>The views that render a page, with the methods they accept.\<close>

datatype page_view =
    IndexView | RangsizPage | RangliPage | KaplyaPage | AksessuarPage | AntikompPage
  | GatoviyPage | OpravaPage | ProfileView | ArchiveView | FeedbackPage | AdminPage
  | AdminFeedbackPage | TelegramChatIdPage | AddUserPage

fun run_page :: "page_view \<Rightarrow> env \<Rightarrow> request \<Rightarrow> db \<Rightarrow> response \<times> db" where
  "run_page IndexView = index_view"
| "run_page RangsizPage = rangsiz_page"
| "run_page RangliPage = rangli_page"
| "run_page KaplyaPage = kaplya_page"
| "run_page AksessuarPage = aksessuar_page"
| "run_page AntikompPage = antikomp_page"
| "run_page GatoviyPage = gatoviy_page"
| "run_page OpravaPage = oprava_page"
| "run_page ProfileView = profile_view"
| "run_page ArchiveView = archive_view"
| "run_page FeedbackPage = feedback_page"
| "run_page AdminPage = admin_page"
| "run_page AdminFeedbackPage = admin_feedback_page"
| "run_page TelegramChatIdPage = telegram_chat_id_page"
| "run_page AddUserPage = add_user_page_and_create"

fun page_allows :: "page_view \<Rightarrow> http_method \<Rightarrow> bool" where
  "page_allows TelegramChatIdPage m = (m = GET)"
| "page_allows AddUserPage m = (m = GET \<or> m = POST)"
| "page_allows _ m = True"

definition bad_id_request :: request where
  "bad_id_request = \<lparr>req_method = GET, session = admin_session, body = NoBody,
      form = map_of [(U ''archiveId'', U ''abc'')], now = 7\<rparr>"

section \<open>The page-break arithmetic of the PDF table\<close>

lemma A4_height_bounds: "841 < A4_height" "A4_height < 842"
  by (simp_all add: A4_height_def)

lemma header_cells_on_page: "list_all rect_on_page (header_cells x y columns)"
  by (induction x y columns rule: header_cells.induct) auto

lemma row_cells_on_page: "list_all rect_on_page (row_cells x y idx columns r)"
  by (induction x y idx columns r rule: row_cells.induct) auto

lemma draw_table_header_on_page:
  assumes "y \<le> A4_height - 40"
  shows "list_all rect_on_page (fst (draw_table_header E columns y))"
    and "62 \<le> snd (draw_table_header E columns y)"
    and "snd (draw_table_header E columns y) \<le> A4_height - 58"
  using assms A4_height_bounds
  by (auto simp: draw_table_header_def new_page_def header_cells_on_page split: prod.splits if_splits)

lemma draw_table_header_new_page:
  "draw_table_header E columns (A4_height - 40) =
     ([SetFont (pdf_font E) 10, Rect margin_x (A4_height - 58) (sum_list (map snd columns)) 18]
        @ header_cells margin_x (A4_height - 40) columns,
      A4_height - 58)"
  using A4_height_bounds by (simp add: draw_table_header_def)

lemma row_break_eq:
  "row_break E columns y =
     (if y < 60
      then ([ShowPage, SetFont (pdf_font E) 10, SetFont (pdf_font E) 10,
             Rect margin_x (A4_height - 58) (sum_list (map snd columns)) 18]
              @ header_cells margin_x (A4_height - 40) columns,
            A4_height - 58)
      else ([], y))"
  by (simp add: row_break_def new_page_def draw_table_header_new_page)

lemma row_break_on_page:
  shows "60 \<le> snd (row_break E columns y)"
    and "y \<le> A4_height - 40 \<Longrightarrow> snd (row_break E columns y) \<le> A4_height - 40"
    and "list_all rect_on_page (fst (row_break E columns y))"
  using A4_height_bounds by (auto simp: row_break_eq header_cells_on_page)

lemma draw_rows_on_page:
  "y \<le> A4_height - 40 \<Longrightarrow> list_all rect_on_page (draw_rows E columns y rows)"
proof (induction rows arbitrary: y)
  case Nil
  then show ?case by simp
next
  case (Cons r rows)
  obtain ops y1 where rb: "row_break E columns y = (ops, y1)"
    by (cases "row_break E columns y")
  from row_break_on_page[where E=E and columns=columns and y=y] Cons.prems rb
  have ops: "list_all rect_on_page ops" and lo: "60 \<le> y1" and hi: "y1 \<le> A4_height - 40"
    by simp_all
  have "list_all rect_on_page (draw_row columns y1 r)"
    using lo hi by (simp add: draw_row_def row_cells_on_page)
  moreover have "list_all rect_on_page (draw_rows E columns (y1 - 18) rows)"
    using hi by (intro Cons.IH) simp
  ultimately show ?case using ops rb by simp
qed

lemma draw_header_lines_on_page:
  "list_all rect_on_page (fst (draw_header_lines y lines))"
  by (induction y lines rule: draw_header_lines.induct) (auto split: prod.splits)

lemma draw_header_lines_below: "snd (draw_header_lines y lines) \<le> y"
proof (induction y lines rule: draw_header_lines.induct)
  case (1 y)
  then show ?case by simp
next
  case (2 y line lines)
  then show ?case by (auto split: prod.splits)
qed

text \<open>
  C8. In \<open>_build_table_pdf\<close>, for every title, header lines, columns and rows: every
  rectangle of the table (a row or the table header) is drawn with its upper edge \<open>y\<close> at
  least 60 and at most the first line of the page. The loop draws a row at the \<open>y\<close> that the
  page break leaves, and that \<open>y\<close> is at least 60 for every \<open>y\<close> the loop arrives with: a
  \<open>y\<close> below 60 first makes a new page (\<open>y\<close> is the page height minus 40) and draws the table
  header again, so the row is drawn at the page height minus 58.
\<close>

theorem build_table_pdf_rows_on_page:
  "list_all rect_on_page (build_table_pdf E title header_lines columns rows)
   \<and> draw_rows E columns y (r # rest) =
       fst (row_break E columns y) @ draw_row columns (snd (row_break E columns y)) r
         @ draw_rows E columns (snd (row_break E columns y) - 18) rest
   \<and> 60 \<le> snd (row_break E columns y)
   \<and> row_break E columns y =
       (if y < 60
        then ([ShowPage, SetFont (pdf_font E) 10, SetFont (pdf_font E) 10,
               Rect margin_x (A4_height - 58) (sum_list (map snd columns)) 18]
                @ header_cells margin_x (A4_height - 40) columns,
              A4_height - 58)
        else ([], y))"
proof -
  obtain lops y1 where hl: "draw_header_lines (A4_height - 40 - 22) header_lines = (lops, y1)"
    by (cases "draw_header_lines (A4_height - 40 - 22) header_lines")
  obtain hops y2 where th: "draw_table_header E columns (y1 - 8) = (hops, y2)"
    by (cases "draw_table_header E columns (y1 - 8)")
  have "y1 \<le> A4_height - 40 - 22"
    using draw_header_lines_below[of "A4_height - 40 - 22" header_lines] hl by simp
  then have y1: "y1 - 8 \<le> A4_height - 40" by simp
  have lops: "list_all rect_on_page lops"
    using draw_header_lines_on_page[of "A4_height - 40 - 22" header_lines] hl by simp
  have hops: "list_all rect_on_page hops" and y2: "y2 \<le> A4_height - 40"
    using draw_table_header_on_page[OF y1, of E columns] th by simp_all
  have "list_all rect_on_page (build_table_pdf E title header_lines columns rows)"
    using lops hops draw_rows_on_page[OF y2, of E columns rows] hl th
    by (simp add: build_table_pdf_def)
  moreover have "draw_rows E columns y (r # rest) =
       fst (row_break E columns y) @ draw_row columns (snd (row_break E columns y)) r
         @ draw_rows E columns (snd (row_break E columns y) - 18) rest"
    by (simp split: prod.splits)
  ultimately show ?thesis
    using row_break_on_page(1)[where E=E and columns=columns and y=y] row_break_eq[of E columns y] by simp
qed

theorem build_table_pdf_rows_on_page_witness:
  "list_all rect_on_page
     (build_table_pdf E0 (U ''Buyurtma'') [U ''Ism: Ali''] table_columns [[U ''a''], [U ''b'']])
   \<and> snd (row_break E0 table_columns 59) = A4_height - 58
   \<and> snd (row_break E0 table_columns 60) = 60"
  using build_table_pdf_rows_on_page[of E0 "U ''Buyurtma''" "[U ''Ism: Ali'']" table_columns
      "[[U ''a''], [U ''b'']]" 59 "[]" "[]"]
    build_table_pdf_rows_on_page[of E0 "U ''Buyurtma''" "[U ''Ism: Ali'']" table_columns
      "[[U ''a''], [U ''b'']]" 60 "[]" "[]"]
  by simp

section \<open>Database computations\<close>

lemma count_down_tables [simp]:
  "users (count_down d) = users d"
  "orders (count_down d) = orders d"
  "products (count_down d) = products d"
  "archives (count_down d) = archives d"
  "archive_items (count_down d) = archive_items d"
  "telegram_chats (count_down d) = telegram_chats d"
  "feedbacks (count_down d) = feedbacks d"
  "next_user_id (count_down d) = next_user_id d"
  "next_feedback_id (count_down d) = next_feedback_id d"
  "next_order_id (count_down d) = next_order_id d"
  "next_product_id (count_down d) = next_product_id d"
  "next_archive_id (count_down d) = next_archive_id d"
  "next_archive_item_id (count_down d) = next_archive_item_id d"
  by (simp_all add: count_down_def split: option.splits nat.splits)

lemma count_down_None [simp]: "failing_in d = None \<Longrightarrow> count_down d = d"
  by (simp add: count_down_def)

lemma db_write_Inl:
  "db_write f d = (Inl e, d') \<longleftrightarrow> e = DatabaseError \<and> d' = d \<and> failing_in d = Some 0"
  by (auto simp: db_write_def)

lemma db_write_Inr:
  "db_write f d = (Inr u, d') \<longleftrightarrow> failing_in d \<noteq> Some 0 \<and> d' = f (count_down d)"
  by (auto simp: db_write_def)

section \<open>Login and the migration of a plain-text credential\<close>

lemma filter_save_parol:
  "filter (\<lambda>u. u_user_id u = uid) (users (save_parol user' d)) =
     map (\<lambda>r. if u_id r = u_id user' then r\<lparr>u_parol := u_parol user'\<rparr> else r)
       (filter (\<lambda>u. u_user_id u = uid) (users d))"
  by (simp add: save_parol_def filter_map comp_def if_distrib[of u_user_id] cong: if_cong)

text \<open>After a login that succeeded: exactly one user has the submitted id, the stored
  credential of that user now passes the hash check, nothing was written when it passed
  before, and otherwise the stored value was the submitted plain text and has been replaced
  by its hash; the same login succeeds again and leaves the database as it is.\<close>

lemma login_view_success:
  assumes hasher: "\<And>raw. hash_ok E raw (make_password E raw)"
    and ok: "login_view E req d = ((JsonResponse ok_body 200, s'), d')"
  shows "login_view E req d' = ((JsonResponse ok_body 200, s'), d')
    \<and> (\<exists>user user'.
      filter (\<lambda>u. u_user_id u = clean_form req (U ''userId'')) (users d) = [user]
    \<and> filter (\<lambda>u. u_user_id u = clean_form req (U ''userId'')) (users d') = [user']
    \<and> hash_ok E (clean_form req (U ''password'')) (u_parol user')
    \<and> (if hash_ok E (clean_form req (U ''password'')) (u_parol user)
        then d' = d
        else u_parol user = clean_form req (U ''password'')
           \<and> user' = user\<lparr>u_parol := make_password E (clean_form req (U ''password''))\<rparr>
           \<and> users d' = map (\<lambda>r. if u_id r = u_id user
                                  then r\<lparr>u_parol := make_password E (clean_form req (U ''password''))\<rparr>
                                  else r) (users d)))"
proof -
  let ?uid = "clean_form req (U ''userId'')"
  let ?pw = "clean_form req (U ''password'')"
  let ?br = "clean_form req (U ''branch'')"
  have post: "req_method req = POST" and given: "?uid \<noteq> []" "?pw \<noteq> []"
    using ok by (auto simp: login_view_def Let_def fail_body_def ok_body_def U_def split: if_splits)
  obtain user where one: "filter (\<lambda>u. u_user_id u = ?uid) (users d) = [user]"
    using ok post given
    by (auto simp: login_view_def Let_def fail_body_def ok_body_def U_def split: list.splits if_splits)
  show ?thesis
  proof (cases "hash_ok E ?pw (u_parol user)")
    case True
    then have "d' = d" "s' = log_in req user ?br"
      using ok post given one by (simp_all add: login_view_def Let_def)
    then show ?thesis
      using True ok one by auto
  next
    case False
    let ?user' = "user\<lparr>u_parol := make_password E ?pw\<rparr>"
    have plain: "u_parol user = ?pw"
      using ok post given one False
      by (auto simp: login_view_def Let_def fail_body_def ok_body_def U_def split: if_splits)
    have w: "db_write (save_parol ?user') d = (Inr (), d')" and s': "s' = log_in req ?user' ?br"
      using ok post given one False plain
      by (auto simp: login_view_def Let_def split: prod.splits sum.splits)
    from w have d': "d' = save_parol ?user' (count_down d)"
      by (simp add: db_write_Inr)
    have one': "filter (\<lambda>u. u_user_id u = ?uid) (users d') = [?user']"
      using one by (simp add: d' filter_save_parol)
    have users': "users d' = map (\<lambda>r. if u_id r = u_id user then r\<lparr>u_parol := make_password E ?pw\<rparr> else r) (users d)"
      by (simp add: d' save_parol_def)
    have again: "login_view E req d' = ((JsonResponse ok_body 200, s'), d')"
      using post given one' hasher[of ?pw] s' by (simp add: login_view_def Let_def log_in_def)
    show ?thesis
      using False plain one one' users' again hasher[of ?pw] by auto
  qed
qed

text \<open>
  C5. \<open>login_view\<close> checks the submitted password against the stored credential as a hash
  first. For every POST with a user id and a password that finds exactly one user: when the
  hash check passes, the login succeeds and nothing is written; when it fails but the stored
  value equals the submitted plain text, the login succeeds too (the database accepting the
  write) and replaces the stored credential of that user, and of no other, by
  \<open>make_password\<close> of the password; when it fails and the stored value differs, the login
  is refused and nothing is written. For a hasher whose \<open>check_password\<close> accepts what its
  \<open>make_password\<close> produces, after every successful login the stored credential of the user
  passes the hash check for the submitted password, and a later login with the same request
  succeeds through the hash check and leaves the database as it is: the replacement happens
  once.
\<close>

theorem login_view_migrates_once:
  assumes hasher: "\<And>raw. hash_ok E raw (make_password E raw)"
  shows "(req_method req = POST \<and> clean_form req (U ''userId'') \<noteq> []
          \<and> clean_form req (U ''password'') \<noteq> []
          \<and> filter (\<lambda>u. u_user_id u = clean_form req (U ''userId'')) (users d) = [user] \<longrightarrow>
        (if hash_ok E (clean_form req (U ''password'')) (u_parol user)
         then login_view E req d =
                ((JsonResponse ok_body 200, log_in req user (clean_form req (U ''branch''))), d)
         else if u_parol user = clean_form req (U ''password'') \<and> failing_in d \<noteq> Some 0
         then login_view E req d =
                ((JsonResponse ok_body 200,
                  log_in req (user\<lparr>u_parol := make_password E (clean_form req (U ''password''))\<rparr>)
                    (clean_form req (U ''branch''))),
                 save_parol (user\<lparr>u_parol := make_password E (clean_form req (U ''password''))\<rparr>)
                   (count_down d))
              \<and> users (snd (login_view E req d)) =
                  map (\<lambda>r. if u_id r = u_id user
                            then r\<lparr>u_parol := make_password E (clean_form req (U ''password''))\<rparr>
                            else r) (users d)
         else u_parol user \<noteq> clean_form req (U ''password'') \<longrightarrow>
              login_view E req d = ((JsonResponse (fail_body login_wrong) 200, session req), d)))
     \<and> (login_view E req d = ((JsonResponse ok_body 200, s'), d') \<longrightarrow>
        login_view E req d' = ((JsonResponse ok_body 200, s'), d')
        \<and> (\<exists>user0 user'.
          filter (\<lambda>u. u_user_id u = clean_form req (U ''userId'')) (users d) = [user0]
        \<and> filter (\<lambda>u. u_user_id u = clean_form req (U ''userId'')) (users d') = [user']
        \<and> hash_ok E (clean_form req (U ''password'')) (u_parol user')
        \<and> (if hash_ok E (clean_form req (U ''password'')) (u_parol user0)
            then d' = d
            else u_parol user0 = clean_form req (U ''password'')
               \<and> user' = user0\<lparr>u_parol := make_password E (clean_form req (U ''password''))\<rparr>
               \<and> users d' = map (\<lambda>r. if u_id r = u_id user0
                                      then r\<lparr>u_parol := make_password E (clean_form req (U ''password''))\<rparr>
                                      else r) (users d))))"
proof (intro conjI impI)
  assume a: "req_method req = POST \<and> clean_form req (U ''userId'') \<noteq> []
          \<and> clean_form req (U ''password'') \<noteq> []
          \<and> filter (\<lambda>u. u_user_id u = clean_form req (U ''userId'')) (users d) = [user]"
  let ?pw = "clean_form req (U ''password'')"
  let ?user' = "user\<lparr>u_parol := make_password E ?pw\<rparr>"
  have 1: "login_view E req d = ((JsonResponse ok_body 200, log_in req user (clean_form req (U ''branch''))), d)"
    if "hash_ok E ?pw (u_parol user)"
    using a that by (simp add: login_view_def Let_def)
  have 2: "login_view E req d =
             ((JsonResponse ok_body 200, log_in req ?user' (clean_form req (U ''branch''))),
              save_parol ?user' (count_down d))"
    if "\<not> hash_ok E ?pw (u_parol user)" "u_parol user = ?pw" "failing_in d \<noteq> Some 0"
    using a that by (simp add: login_view_def Let_def db_write_def)
  have 3: "login_view E req d = ((JsonResponse (fail_body login_wrong) 200, session req), d)"
    if "\<not> hash_ok E ?pw (u_parol user)" "u_parol user \<noteq> ?pw"
    using a that by (simp add: login_view_def Let_def)
  show "if hash_ok E ?pw (u_parol user)
         then login_view E req d =
                ((JsonResponse ok_body 200, log_in req user (clean_form req (U ''branch''))), d)
         else if u_parol user = ?pw \<and> failing_in d \<noteq> Some 0
         then login_view E req d =
                ((JsonResponse ok_body 200, log_in req ?user' (clean_form req (U ''branch''))),
                 save_parol ?user' (count_down d))
              \<and> users (snd (login_view E req d)) =
                  map (\<lambda>r. if u_id r = u_id user then r\<lparr>u_parol := make_password E ?pw\<rparr> else r) (users d)
         else u_parol user \<noteq> ?pw \<longrightarrow>
              login_view E req d = ((JsonResponse (fail_body login_wrong) 200, session req), d)"
    using 1 2 3 by (simp add: save_parol_def)
next
  assume "login_view E req d = ((JsonResponse ok_body 200, s'), d')"
  from login_view_success[OF hasher this]
  show "login_view E req d' = ((JsonResponse ok_body 200, s'), d')"
    and "\<exists>user0 user'.
          filter (\<lambda>u. u_user_id u = clean_form req (U ''userId'')) (users d) = [user0]
        \<and> filter (\<lambda>u. u_user_id u = clean_form req (U ''userId'')) (users d') = [user']
        \<and> hash_ok E (clean_form req (U ''password'')) (u_parol user')
        \<and> (if hash_ok E (clean_form req (U ''password'')) (u_parol user0)
            then d' = d
            else u_parol user0 = clean_form req (U ''password'')
               \<and> user' = user0\<lparr>u_parol := make_password E (clean_form req (U ''password''))\<rparr>
               \<and> users d' = map (\<lambda>r. if u_id r = u_id user0
                                      then r\<lparr>u_parol := make_password E (clean_form req (U ''password''))\<rparr>
                                      else r) (users d))"
    by blast+
qed

lemma E0_hasher: "hash_ok E0 raw (make_password E0 raw)"
  by (simp add: hash_ok_def E0_def U_def)

lemma login_plain_eval:
  "req_method login_request = POST \<and> clean_form login_request (U ''userId'') \<noteq> []
   \<and> clean_form login_request (U ''password'') \<noteq> []
   \<and> filter (\<lambda>u. u_user_id u = clean_form login_request (U ''userId''))
         (users (empty_db\<lparr>users := [plain_user]\<rparr>)) = [plain_user]"
  "\<not> hash_ok E0 (clean_form login_request (U ''password'')) (u_parol plain_user)"
  "u_parol plain_user = clean_form login_request (U ''password'')"
  "failing_in (empty_db\<lparr>users := [plain_user]\<rparr>) \<noteq> Some 0"
  by (simp_all add: login_request_def empty_db_def plain_user_def clean_form_def strip_def
      is_space_def U_def hash_ok_def E0_def)

theorem login_view_migrates_once_witness:
  "login_view E0 login_request (empty_db\<lparr>users := [plain_user]\<rparr>) =
     ((JsonResponse ok_body 200, user_session),
      empty_db\<lparr>users := [plain_user\<lparr>u_parol := U ''hash$secret''\<rparr>]\<rparr>)
   \<and> login_view E0 login_request (empty_db\<lparr>users := [plain_user\<lparr>u_parol := U ''hash$secret''\<rparr>]\<rparr>) =
     ((JsonResponse ok_body 200, user_session),
      empty_db\<lparr>users := [plain_user\<lparr>u_parol := U ''hash$secret''\<rparr>]\<rparr>)"
proof -
  note inst = login_view_migrates_once[OF E0_hasher, where req = login_request
      and d = "empty_db\<lparr>users := [plain_user]\<rparr>" and user = plain_user
      and s' = user_session and d' = "empty_db\<lparr>users := [plain_user\<lparr>u_parol := U ''hash$secret''\<rparr>]\<rparr>"]
  from inst[THEN conjunct1] login_plain_eval
  have "login_view E0 login_request (empty_db\<lparr>users := [plain_user]\<rparr>) =
          ((JsonResponse ok_body 200,
            log_in login_request
              (plain_user\<lparr>u_parol := make_password E0 (clean_form login_request (U ''password''))\<rparr>)
              (clean_form login_request (U ''branch''))),
           save_parol (plain_user\<lparr>u_parol := make_password E0 (clean_form login_request (U ''password''))\<rparr>)
             (count_down (empty_db\<lparr>users := [plain_user]\<rparr>)))"
    by simp
  then have first: "login_view E0 login_request (empty_db\<lparr>users := [plain_user]\<rparr>) =
     ((JsonResponse ok_body 200, user_session),
      empty_db\<lparr>users := [plain_user\<lparr>u_parol := U ''hash$secret''\<rparr>]\<rparr>)"
    by (simp add: login_request_def empty_db_def plain_user_def clean_form_def strip_def
        is_space_def U_def E0_def save_parol_def log_in_def no_session_def user_session_def
        count_down_def)
  from inst[THEN conjunct2] first
  have "login_view E0 login_request (empty_db\<lparr>users := [plain_user\<lparr>u_parol := U ''hash$secret''\<rparr>]\<rparr>) =
     ((JsonResponse ok_body 200, user_session),
      empty_db\<lparr>users := [plain_user\<lparr>u_parol := U ''hash$secret''\<rparr>]\<rparr>)"
    by blast
  with first show ?thesis by (rule conjI)
qed

section \<open>Sharing by Telegram: the count of successful sends\<close>

lemma send_all_count:
  "send_all E url chats n = n + length (filter (\<lambda>ch. try_send E url ch = Inr True) chats)"
proof (induction chats arbitrary: n)
  case Nil
  then show ?case by simp
next
  case (Cons ch chats)
  show ?case
  proof (cases "try_send E url ch")
    case (Inl e)
    then show ?thesis by (simp add: Cons.IH)
  next
    case (Inr counted)
    then show ?thesis by (cases counted) (simp_all add: Cons.IH)
  qed
qed

lemma fail_body_not_ok [simp]:
  "fail_body m \<noteq> ok_msg_body m'" "fail_body m \<noteq> ok_body"
  by (simp_all add: fail_body_def ok_msg_body_def ok_body_def)

text \<open>
  C7. In \<open>share_all_archives_telegram\<close> the loop over the configured chats goes through
  every chat: a send that raises, a reply that is not ok and a reply whose JSON has no true
  \<open>ok\<close> are passed over, and the count \<open>k\<close> is the number of chats, among all of them, whose
  send succeeded. The view answers success exactly when the request passed its gates (POST,
  logged in, admin, a bot token, at least one chat, \<open>requests\<close> importable), at least one
  send succeeded, and the database accepted the update; the message then reports \<open>k\<close> out of
  the number of chats, and every archive is marked as shared. When the gates are passed and
  no send succeeded, the answer is the failure with status 500 and nothing is written.
\<close>

theorem share_all_archives_telegram_counts:
  fixes E req d
  defines "url \<equiv> telegram_url (str_or (telegram_bot_token E) [])"
  defines "k \<equiv> length (filter (\<lambda>ch. try_send E url ch = Inr True) (telegram_chats d))"
  defines "gates \<equiv> req_method req = POST \<and> session_user_or_json_401 req = None
                    \<and> admin_or_403 req = None \<and> str_or (telegram_bot_token E) [] \<noteq> []
                    \<and> telegram_chats d \<noteq> [] \<and> requests_importable E"
  shows "(share_all_archives_telegram E req d = (JsonResponse (ok_msg_body msg) 200, d')
          \<longleftrightarrow> gates \<and> 0 < k \<and> failing_in d \<noteq> Some 0
              \<and> msg = sent_message k (length (telegram_chats d))
              \<and> d' = set_all_telegram_shared (count_down d))
       \<and> (gates \<and> k = 0 \<longrightarrow>
            share_all_archives_telegram E req d =
              (JsonResponse (fail_body (U ''Telegramga yuborilmadi.'')) 500, d))
       \<and> list_all a_is_telegram_shared (archives (set_all_telegram_shared (count_down d)))"
proof -
  have cnt: "send_all E url (telegram_chats d) 0 = k"
    by (simp add: send_all_count k_def)
  have msg_inj: "ok_msg_body m1 = ok_msg_body m2 \<longleftrightarrow> m1 = m2" for m1 m2
    by (simp add: ok_msg_body_def)
  have 1: "share_all_archives_telegram E req d = (JsonResponse (ok_msg_body msg) 200, d')
          \<longleftrightarrow> gates \<and> 0 < k \<and> failing_in d \<noteq> Some 0
              \<and> msg = sent_message k (length (telegram_chats d))
              \<and> d' = set_all_telegram_shared (count_down d)"
    using cnt
    by (auto simp: share_all_archives_telegram_def respond_def require_method_def returnM_def
        bindM_def db_write_def Let_def gates_def url_def[symmetric] msg_inj
        session_user_or_json_401_def admin_or_403_def
        split: option.splits if_splits)
  have 2: "gates \<and> k = 0 \<longrightarrow>
            share_all_archives_telegram E req d =
              (JsonResponse (fail_body (U ''Telegramga yuborilmadi.'')) 500, d)"
    using cnt
    by (auto simp: share_all_archives_telegram_def respond_def require_method_def returnM_def
        bindM_def Let_def gates_def url_def[symmetric] split: option.splits)
  have 3: "list_all a_is_telegram_shared (archives (set_all_telegram_shared (count_down d)))"
    by (simp add: set_all_telegram_shared_def list_all_iff)
  from 1 2 3 show ?thesis by blast
qed

theorem share_all_archives_telegram_counts_witness:
  "share_all_archives_telegram E0 (post_json admin_session JNull)
     (empty_db\<lparr>archives := [one_archive], telegram_chats := two_chats\<rparr>) =
   (JsonResponse (ok_msg_body (U ''Telegramga yuborildi (1/2)'')) 200,
    empty_db\<lparr>archives := [one_archive\<lparr>a_is_telegram_shared := True\<rparr>], telegram_chats := two_chats\<rparr>)"
proof (rule share_all_archives_telegram_counts[THEN conjunct1, THEN iffD2])
  have "str_nat 1 = [49]" "str_nat 2 = [50]"
    by (simp_all add: str_nat.simps)
  then show "(req_method (post_json admin_session JNull) = POST
      \<and> session_user_or_json_401 (post_json admin_session JNull) = None
      \<and> admin_or_403 (post_json admin_session JNull) = None
      \<and> str_or (telegram_bot_token E0) [] \<noteq> []
      \<and> telegram_chats (empty_db\<lparr>archives := [one_archive], telegram_chats := two_chats\<rparr>) \<noteq> []
      \<and> requests_importable E0)
    \<and> 0 < length (filter (\<lambda>ch. try_send E0 (telegram_url (str_or (telegram_bot_token E0) [])) ch = Inr True)
               (telegram_chats (empty_db\<lparr>archives := [one_archive], telegram_chats := two_chats\<rparr>)))
    \<and> failing_in (empty_db\<lparr>archives := [one_archive], telegram_chats := two_chats\<rparr>) \<noteq> Some 0
    \<and> U ''Telegramga yuborildi (1/2)'' =
        sent_message
          (length (filter (\<lambda>ch. try_send E0 (telegram_url (str_or (telegram_bot_token E0) [])) ch = Inr True)
               (telegram_chats (empty_db\<lparr>archives := [one_archive], telegram_chats := two_chats\<rparr>))))
          (length (telegram_chats (empty_db\<lparr>archives := [one_archive], telegram_chats := two_chats\<rparr>)))
    \<and> empty_db\<lparr>archives := [one_archive\<lparr>a_is_telegram_shared := True\<rparr>], telegram_chats := two_chats\<rparr> =
        set_all_telegram_shared (count_down (empty_db\<lparr>archives := [one_archive], telegram_chats := two_chats\<rparr>))"
    by (simp add: post_json_def admin_session_def session_user_or_json_401_def admin_or_403_def
        str_or_def E0_def empty_db_def two_chats_def one_archive_def try_send_def U_def
        sent_message_def str_of_int_def set_all_telegram_shared_def count_down_def dict_get_def)
qed

section \<open>Downloading an archive\<close>

lemma download_archive_pdf_eq:
  "download_archive_pdf E req d =
     (if req_method req \<noteq> POST then (NotAllowed, d)
      else if session_user_or_json_401 req \<noteq> None then (the (session_user_or_json_401 req), d)
      else
        (case body req of
           BadUtf8 \<Rightarrow> (ServerError UnicodeDecodeError, d)
         | Json (JDict kvs) \<Rightarrow>
             if to_int E (dict_get kvs (U ''id'')) 0 \<le> 0
             then (JsonResponse (fail_body (U ''archive id xato.'')) 400, d)
             else
               (case first_by a_id
                       (filter (\<lambda>a. int (a_id a) = to_int E (dict_get kvs (U ''id'')) 0) (archives d)) of
                  None \<Rightarrow> (JsonResponse (fail_body (U ''Arxiv topilmadi.'')) 404, d)
                | Some archive \<Rightarrow>
                    if Role (session req) \<noteq> Some (U ''Admin'')
                       \<and> (a_filial archive \<noteq> Some (get_branch req)
                            \<or> a_user_full_name archive \<noteq> Some (get_full_name req))
                    then (JsonResponse (fail_body (U ''Ruxsat yo'' @ [8216] @ U ''q.'')) 403, d)
                    else if failing_in d = Some 0 then (ServerError DatabaseError, d)
                    else (PdfResponse (archive_pdf E archive d) (U ''archive.pdf''),
                          set_pdf_downloaded (a_id archive) (count_down d)))
         | _ \<Rightarrow> (JsonResponse (fail_body (U ''JSON xato.'')) 400, d)))"
  by (simp add: download_archive_pdf_def respond_def require_method_def returnM_def bindM_def
      liftE_def Let_def db_write_def split: option.splits json.splits body.splits)

lemma set_pdf_downloaded_flag:
  "list_all (\<lambda>a. a_id a \<noteq> aid \<or> a_is_pdf_downloaded a) (archives (set_pdf_downloaded aid d))"
proof -
  have "a_id (if a_id a = aid then a\<lparr>a_is_pdf_downloaded := True\<rparr> else a) \<noteq> aid
        \<or> a_is_pdf_downloaded (if a_id a = aid then a\<lparr>a_is_pdf_downloaded := True\<rparr> else a)" for a :: Archive
    by (cases "a_id a = aid") simp_all
  then have "list_all (\<lambda>a. a_id a \<noteq> aid \<or> a_is_pdf_downloaded a)
               (map (\<lambda>a. if a_id a = aid then a\<lparr>a_is_pdf_downloaded := True\<rparr> else a) xs)" for xs
    by (induction xs) simp_all
  then show ?thesis
    unfolding set_pdf_downloaded_def by simp
qed

text \<open>
  C10. For every \<open>download_archive_pdf\<close> request (POST, a JSON object with a positive
  \<open>id\<close>) of a logged-in session that is not an admin's: when the archive with that id has a
  \<open>filial\<close> other than the session's branch or a \<open>user_full_name\<close> other than the session's
  full name, the answer is 403 with success false, and the database is unchanged. For every
  request: the database changes only when a PDF is served, and then by setting
  \<open>is_pdf_downloaded\<close> of the requested archive, which the session was permitted to
  download; and a permitted download is served whenever the database accepts the update.
\<close>

theorem download_archive_pdf_permission:
  fixes E req d
  defines "res \<equiv> download_archive_pdf E req d"
  defines "target \<equiv> (\<lambda>kvs. first_by a_id
             (filter (\<lambda>a. int (a_id a) = to_int E (dict_get kvs (U ''id'')) 0) (archives d)))"
  defines "permitted \<equiv> (\<lambda>archive. Role (session req) = Some (U ''Admin'')
             \<or> (a_filial archive = Some (get_branch req)
                 \<and> a_user_full_name archive = Some (get_full_name req)))"
  defines "valid \<equiv> (\<lambda>kvs. req_method req = POST \<and> session_user_or_json_401 req = None
             \<and> body req = Json (JDict kvs) \<and> 0 < to_int E (dict_get kvs (U ''id'')) 0)"
  shows "(valid kvs \<and> target kvs = Some archive \<and> \<not> permitted archive \<longrightarrow>
            res = (JsonResponse (fail_body (U ''Ruxsat yo'' @ [8216] @ U ''q.'')) 403, d))
       \<and> (valid kvs \<and> target kvs = Some archive \<and> permitted archive \<and> failing_in d \<noteq> Some 0 \<longrightarrow>
            res = (PdfResponse (archive_pdf E archive d) (U ''archive.pdf''),
                   set_pdf_downloaded (a_id archive) (count_down d)))
       \<and> (case fst res of
            PdfResponse pdf name \<Rightarrow>
              (\<exists>kvs archive. valid kvs \<and> target kvs = Some archive \<and> permitted archive
                 \<and> snd res = set_pdf_downloaded (a_id archive) (count_down d)
                 \<and> list_all (\<lambda>a. a_id a \<noteq> a_id archive \<or> a_is_pdf_downloaded a) (archives (snd res)))
          | _ \<Rightarrow> snd res = d)"
proof -
  have 1: "valid kvs \<and> target kvs = Some archive \<and> \<not> permitted archive \<longrightarrow>
            res = (JsonResponse (fail_body (U ''Ruxsat yo'' @ [8216] @ U ''q.'')) 403, d)"
    by (simp add: res_def valid_def target_def permitted_def download_archive_pdf_eq)
  have 2: "valid kvs \<and> target kvs = Some archive \<and> permitted archive \<and> failing_in d \<noteq> Some 0 \<longrightarrow>
            res = (PdfResponse (archive_pdf E archive d) (U ''archive.pdf''),
                   set_pdf_downloaded (a_id archive) (count_down d))"
    by (auto simp: res_def valid_def target_def permitted_def download_archive_pdf_eq)
  have 3: "case fst res of
            PdfResponse pdf name \<Rightarrow>
              (\<exists>kvs archive. valid kvs \<and> target kvs = Some archive \<and> permitted archive
                 \<and> snd res = set_pdf_downloaded (a_id archive) (count_down d)
                 \<and> list_all (\<lambda>a. a_id a \<noteq> a_id archive \<or> a_is_pdf_downloaded a) (archives (snd res)))
          | _ \<Rightarrow> snd res = d"
  proof (cases "fst res")
    case (PdfResponse pdf name)
    then have post: "req_method req = POST" and sess: "session_user_or_json_401 req = None"
      by (auto simp: res_def download_archive_pdf_eq session_user_or_json_401_def split: if_splits)
    from PdfResponse post sess obtain kvs0 where body: "body req = Json (JDict kvs0)"
      by (auto simp: res_def download_archive_pdf_eq split: body.splits json.splits)
    from PdfResponse post sess body have pos: "0 < to_int E (dict_get kvs0 (U ''id'')) 0"
      by (auto simp: res_def download_archive_pdf_eq split: if_splits)
    from PdfResponse post sess body pos obtain archive0 where tg: "target kvs0 = Some archive0"
      by (auto simp: res_def target_def download_archive_pdf_eq split: option.splits)
    from PdfResponse post sess body pos tg have perm: "permitted archive0"
      and snd_res: "snd res = set_pdf_downloaded (a_id archive0) (count_down d)"
      by (auto simp: res_def target_def permitted_def download_archive_pdf_eq split: if_splits)
    have "valid kvs0" using post sess body pos by (simp add: valid_def)
    then show ?thesis
      using PdfResponse tg perm snd_res set_pdf_downloaded_flag[of "a_id archive0" "count_down d"]
      by auto
  qed (auto simp: res_def download_archive_pdf_eq session_user_or_json_401_def
        split: if_splits body.splits json.splits option.splits)
  from 1 2 3 show ?thesis by blast
qed

lemma download_other_eval:
  "req_method (post_json user_session (JDict [(U ''id'', JInt 1)])) = POST
   \<and> session_user_or_json_401 (post_json user_session (JDict [(U ''id'', JInt 1)])) = None
   \<and> body (post_json user_session (JDict [(U ''id'', JInt 1)])) = Json (JDict [(U ''id'', JInt 1)])
   \<and> 0 < to_int E0 (dict_get [(U ''id'', JInt 1)] (U ''id'')) 0
   \<and> first_by a_id (filter (\<lambda>a. int (a_id a) = to_int E0 (dict_get [(U ''id'', JInt 1)] (U ''id'')) 0)
        (archives (empty_db\<lparr>archives := [other_archive, own_archive]\<rparr>))) = Some other_archive
   \<and> \<not> (Role (session (post_json user_session (JDict [(U ''id'', JInt 1)]))) = Some (U ''Admin'')
        \<or> (a_filial other_archive = Some (get_branch (post_json user_session (JDict [(U ''id'', JInt 1)])))
            \<and> a_user_full_name other_archive
                = Some (get_full_name (post_json user_session (JDict [(U ''id'', JInt 1)])))))"
  by (simp add: post_json_def user_session_def session_user_or_json_401_def str_or_def dict_get_def
      U_def first_by_def empty_db_def other_archive_def own_archive_def get_branch_def
      get_full_name_def)

theorem download_archive_pdf_permission_witness:
  "download_archive_pdf E0 (post_json user_session (JDict [(U ''id'', JInt 1)]))
     (empty_db\<lparr>archives := [other_archive, own_archive]\<rparr>) =
   (JsonResponse (fail_body (U ''Ruxsat yo'' @ [8216] @ U ''q.'')) 403,
    empty_db\<lparr>archives := [other_archive, own_archive]\<rparr>)"
  using download_archive_pdf_permission[where E=E0
      and req="post_json user_session (JDict [(U ''id'', JInt 1)])"
      and kvs="[(U ''id'', JInt 1)]" and d="empty_db\<lparr>archives := [other_archive, own_archive]\<rparr>"
      and archive=other_archive, THEN conjunct1] download_other_eval
  by blast

section \<open>Sending the cart to the archive\<close>

lemma bindM_Inr:
  "bindM m f d = (Inr y, d') \<longleftrightarrow> (\<exists>x d1. m d = (Inr x, d1) \<and> f x d1 = (Inr y, d'))"
  by (auto simp: bindM_def split: prod.splits sum.splits)

lemma db_write_ok: "failing_in d = None \<Longrightarrow> db_write f d = (Inr (), f d)"
  by (simp add: db_write_def)

lemma clear_order_Inr:
  assumes "clear_order ord d = (Inr u, d')"
  shows "orders d' = filter (\<lambda>r. o_id r \<noteq> o_id ord) (orders d)"
    and "products d' cls =
           filter (\<lambda>p. \<not> (CATEGORY_MODEL (str_or (o_category ord) []) = Some cls \<and> p_id p = o_product_id ord))
             (products d cls)"
    and "archives d' = archives d" and "archive_items d' = archive_items d"
    and "users d' = users d" and "telegram_chats d' = telegram_chats d"
  using assms
  by (auto simp: clear_order_def bindM_Inr db_write_Inr returnM_def delete_order_def
      delete_product_def split: option.splits)

lemma clear_order_ok:
  assumes "failing_in d = None"
  shows "\<exists>d'. clear_order ord d = (Inr (), d') \<and> failing_in d' = None"
  using assms
  by (auto simp: clear_order_def bindM_def db_write_def returnM_def delete_order_def
      delete_product_def split: option.splits)

lemma for_each_clear_order_Inr:
  assumes "for_each clear_order ords d = (Inr u, d')"
  shows "orders d' = filter (\<lambda>r. o_id r \<notin> o_id ` set ords) (orders d)
       \<and> products d' cls =
           filter (\<lambda>p. \<not> (\<exists>ord\<in>set ords. CATEGORY_MODEL (str_or (o_category ord) []) = Some cls
                                           \<and> p_id p = o_product_id ord))
             (products d cls)
       \<and> archives d' = archives d \<and> archive_items d' = archive_items d
       \<and> users d' = users d \<and> telegram_chats d' = telegram_chats d"
  using assms
proof (induction ords arbitrary: d)
  case Nil
  then show ?case by (simp add: returnM_def)
next
  case (Cons ord ords)
  from Cons.prems obtain d1 where
    1: "clear_order ord d = (Inr (), d1)" and 2: "for_each clear_order ords d1 = (Inr u, d')"
    by (auto simp: bindM_Inr)
  note a = clear_order_Inr[OF 1]
  note b = Cons.IH[OF 2]
  have "orders d' = filter (\<lambda>r. o_id r \<notin> o_id ` set (ord # ords)) (orders d)"
    using a(1) b by (auto intro: filter_cong)
  moreover have "products d' cls =
           filter (\<lambda>p. \<not> (\<exists>x\<in>set (ord # ords). CATEGORY_MODEL (str_or (o_category x) []) = Some cls
                                           \<and> p_id p = o_product_id x))
             (products d cls)"
    using a(2)[of cls] b by (auto intro: filter_cong)
  ultimately show ?case using a(3-6) b by simp
qed

lemma for_each_clear_order_ok:
  "failing_in d = None \<Longrightarrow> \<exists>d'. for_each clear_order ords d = (Inr (), d') \<and> failing_in d' = None"
proof (induction ords arbitrary: d)
  case Nil
  then show ?case by (simp add: returnM_def)
next
  case (Cons ord ords)
  from clear_order_ok[OF Cons.prems, of ord] obtain d1 where
    1: "clear_order ord d = (Inr (), d1)" and "failing_in d1 = None" by blast
  with Cons.IH[of d1] show ?case by (auto simp: bindM_def)
qed

lemma mark_as_sent_eq:
  "mark_as_sent E req d =
     (if req_method req \<noteq> POST then (NotAllowed, d)
      else if session_user_or_json_401 req \<noteq> None then (the (session_user_or_json_401 req), d)
      else
        (case body req of
           BadUtf8 \<Rightarrow> (ServerError UnicodeDecodeError, d)
         | Json (JList (x # xs)) \<Rightarrow>
             if filter (\<lambda>i. 0 < i) (map (\<lambda>x. to_int E x 0) (x # xs)) = []
             then (JsonResponse (fail_body (U ''OrderId noto'' @ [8216] @ U ''g'' @ [8216] @ U ''ri.'')) 400, d)
             else
               (case selected_orders E req (x # xs) d of
                  Inl e \<Rightarrow> (ServerError e, d)
                | Inr ords \<Rightarrow>
                    if ords = []
                    then (JsonResponse (fail_body (U ''Buyurtmalar topilmadi.'')) 404, d)
                    else
                      (case bindM (db_write (create_archive req)) (\<lambda>_.
                            bindM (db_write (bulk_create_items (next_archive_id d) ords))
                              (\<lambda>_. for_each clear_order ords)) d of
                         (Inl e, d') \<Rightarrow> (ServerError e, d)
                       | (Inr u, d') \<Rightarrow> (JsonResponse (ok_msg_body (U ''Buyurtmalar arxivlandi.'')) 200, d')))
         | _ \<Rightarrow> (JsonResponse (fail_body (U ''Bo'' @ [8216] @ U ''sh ro'' @ [8216] @ U ''yxat.'')) 400, d)))"
  by (simp add: mark_as_sent_def respond_def require_method_def returnM_def bindM_def liftE_def
      Let_def atomic_def split: option.splits json.splits body.splits list.splits prod.splits sum.splits)

lemma positive_db_integer: "0 < i \<Longrightarrow> db_integer i \<longleftrightarrow> i < 2 ^ 63"
  by (simp add: db_integer_def)

lemma selected_orders_Inr:
  "selected_orders E req payload d = Inr ords \<longleftrightarrow>
     list_all db_integer (filter (\<lambda>i. 0 < i) (map (\<lambda>x. to_int E x 0) payload))
     \<and> ords = filter (\<lambda>ord. int (o_id ord) \<in> set (filter (\<lambda>i. 0 < i) (map (\<lambda>x. to_int E x 0) payload))
                              \<and> o_user_id ord = get_user_id req \<and> \<not> o_is_sent ord) (orders d)"
  by (auto simp: selected_orders_def orders_in_def)

lemma selected_orders_Inl:
  "selected_orders E req payload d = Inl e \<longleftrightarrow>
     e = OverflowError \<and> (\<exists>x \<in> set payload. 2 ^ 63 \<le> to_int E x 0)"
proof -
  have "list_all db_integer (filter (\<lambda>i. 0 < i) (map (\<lambda>x. to_int E x 0) payload))
          \<longleftrightarrow> \<not> (\<exists>x \<in> set payload. 2 ^ 63 \<le> to_int E x 0)"
    by (auto simp: list_all_iff db_integer_def)
  then show ?thesis
    by (auto simp: selected_orders_def orders_in_def)
qed

lemma selected_orders_ids:
  assumes "selected_orders E req payload d = Inr ords" and "ords \<noteq> []"
  shows "filter (\<lambda>i. 0 < i) (map (\<lambda>x. to_int E x 0) payload) \<noteq> []"
proof
  assume "filter (\<lambda>i. 0 < i) (map (\<lambda>x. to_int E x 0) payload) = []"
  then have "selected_orders E req payload d = Inr []"
    by (simp add: selected_orders_def orders_in_def)
  with assms show False by simp
qed

lemma mark_as_sent_success:
  assumes "mark_as_sent E req d = (JsonResponse (ok_msg_body m) 200, d')"
  shows "\<exists>payload ords d1 d2. body req = Json (JList payload)
      \<and> selected_orders E req payload d = Inr ords \<and> ords \<noteq> []
      \<and> db_write (create_archive req) d = (Inr (), d1)
      \<and> db_write (bulk_create_items (next_archive_id d) ords) d1 = (Inr (), d2)
      \<and> for_each clear_order ords d2 = (Inr (), d')"
proof -
  from assms have post: "req_method req = POST" and sess: "session_user_or_json_401 req = None"
    by (auto simp: mark_as_sent_eq session_user_or_json_401_def split: if_splits)
  from assms post sess obtain x xs where body: "body req = Json (JList (x # xs))"
    by (auto simp: mark_as_sent_eq split: body.splits json.splits list.splits)
  from assms post sess body have ids: "filter (\<lambda>i. 0 < i) (map (\<lambda>x. to_int E x 0) (x # xs)) \<noteq> []"
    by (auto simp: mark_as_sent_eq fail_body_def ok_msg_body_def U_def split: if_splits)
  from assms post sess body ids obtain ords where
    sel: "selected_orders E req (x # xs) d = Inr ords"
    by (cases "selected_orders E req (x # xs) d") (auto simp: mark_as_sent_eq)
  from assms post sess body ids sel have ne: "ords \<noteq> []"
    by (auto simp: mark_as_sent_eq split: if_splits)
  from assms post sess body ids sel ne show ?thesis
    by (auto simp: mark_as_sent_eq bindM_Inr split: prod.splits sum.splits)
qed

lemma archive_item_fields:
  "map ((\<lambda>it. (ai_archive it, ai_category it, ai_model it, ai_dioptriya it, ai_miqdor it, ai_izoh it))
         \<circ> (\<lambda>(ord, k). archive_item_of aid ord (n + k)))
     (zip ords [0 ..< length ords]) =
   map (\<lambda>ord. (aid, o_category ord, Some (o_model ord), o_dioptriya ord, o_miqdor ord, Some (o_izoh ord))) ords"
proof -
  let ?h = "\<lambda>ord. (aid, o_category ord, Some (o_model ord), o_dioptriya ord, o_miqdor ord, Some (o_izoh ord))"
  have "((\<lambda>it. (ai_archive it, ai_category it, ai_model it, ai_dioptriya it, ai_miqdor it, ai_izoh it))
         \<circ> (\<lambda>(ord, k). archive_item_of aid ord (n + k))) = ?h \<circ> fst"
    by (auto simp: archive_item_of_def fun_eq_iff)
  moreover have "map (?h \<circ> fst) (zip ords [0 ..< length ords]) = map ?h (map fst (zip ords [0 ..< length ords]))"
    by (simp only: map_map)
  moreover have "map fst (zip ords [0 ..< length ords]) = ords"
    by simp
  ultimately show ?thesis by simp
qed

lemma overflow_payload_eval:
  "mark_as_sent E0 (post_json user_session (JList [JInt 1, JInt (2 ^ 63)])) cart_db =
     (ServerError OverflowError, cart_db)"
  by (simp add: mark_as_sent_eq post_json_def user_session_def session_user_or_json_401_def
      str_or_def U_def selected_orders_def orders_in_def db_integer_def)

theorem mark_as_sent_overflow_counterexample:
  "mark_as_sent E0 (post_json user_session (JList [JInt 1, JInt (2 ^ 63)])) cart_db =
     (ServerError OverflowError, cart_db)
   \<and> orders cart_db = [frame_order] \<and> o_id frame_order = 1
   \<and> o_user_id frame_order = get_user_id (post_json user_session (JList [JInt 1, JInt (2 ^ 63)]))
   \<and> \<not> o_is_sent frame_order
   \<and> archives cart_db = []"
  using overflow_payload_eval
  by (simp add: post_json_def user_session_def str_or_def U_def get_user_id_def cart_db_def
      empty_db_def frame_order_def)

text \<open>
  C3 (as amended). For every \<open>mark_as_sent\<close> request (POST, logged in, a JSON list): when
  the payload holds an id of \<open>2^63\<close> or more, the query that selects the orders cannot bind
  it and the request is answered with the error 500 (an uncaught \<open>OverflowError\<close>), with
  nothing archived and nothing deleted, whatever else the payload selects. When the query
  returns a set of the caller's unsent orders that is not empty and the database accepts
  every statement, the request is answered with success: it appends exactly one Archive row
  (branch, full name and time of the request) and, in the order of the selected orders, one
  ArchiveItem per selected order that belongs to the new archive and copies the order's
  category, model, dioptriya, miqdor and izoh. Afterwards no Order row has the id of a
  selected order, and the product table that \<open>CATEGORY_MODEL\<close> names for the order's
  category has no row with the order's \<open>product_id\<close>.
\<close>

theorem mark_as_sent_copies_then_deletes:
  assumes "req_method req = POST" and "session_user_or_json_401 req = None"
    and "body req = Json (JList payload)"
  shows "((\<exists>x \<in> set payload. 2 ^ 63 \<le> to_int E x 0) \<longrightarrow>
            mark_as_sent E req d = (ServerError OverflowError, d))
     \<and> (selected_orders E req payload d = Inr ords \<and> ords \<noteq> [] \<and> failing_in d = None \<longrightarrow>
         (\<exists>d'. mark_as_sent E req d = (JsonResponse (ok_msg_body (U ''Buyurtmalar arxivlandi.'')) 200, d')
     \<and> archives d' = archives d @
          [\<lparr>a_id = next_archive_id d, a_filial = Some (get_branch req),
            a_user_full_name = Some (get_full_name req), a_created_at = now req,
            a_is_pdf_downloaded = True, a_is_telegram_shared = False\<rparr>]
     \<and> take (length (archive_items d)) (archive_items d') = archive_items d
     \<and> map (\<lambda>it. (ai_archive it, ai_category it, ai_model it, ai_dioptriya it, ai_miqdor it, ai_izoh it))
          (drop (length (archive_items d)) (archive_items d')) =
        map (\<lambda>ord. (next_archive_id d, o_category ord, Some (o_model ord), o_dioptriya ord,
                     o_miqdor ord, Some (o_izoh ord)))
          ords
     \<and> (\<forall>ord \<in> set ords.
           (\<forall>r \<in> set (orders d'). o_id r \<noteq> o_id ord)
           \<and> (\<forall>cls. CATEGORY_MODEL (str_or (o_category ord) []) = Some cls \<longrightarrow>
                  (\<forall>p \<in> set (products d' cls). p_id p \<noteq> o_product_id ord)))))"
proof (intro conjI impI)
  assume big: "\<exists>x \<in> set payload. 2 ^ 63 \<le> to_int E x 0"
  then have sel: "selected_orders E req payload d = Inl OverflowError"
    by (simp add: selected_orders_Inl)
  from big obtain x where "x \<in> set payload" "0 < to_int E x 0"
    by fastforce
  then have ids: "filter (\<lambda>i. 0 < i) (map (\<lambda>x. to_int E x 0) payload) \<noteq> []"
    by (auto simp: filter_empty_conv)
  then obtain y ys where payload: "payload = y # ys"
    by (cases payload) simp_all
  show "mark_as_sent E req d = (ServerError OverflowError, d)"
    using assms sel ids by (simp add: mark_as_sent_eq payload)
next
  assume a: "selected_orders E req payload d = Inr ords \<and> ords \<noteq> [] \<and> failing_in d = None"
  then have sel: "selected_orders E req payload d = Inr ords" and ne: "ords \<noteq> []"
    and nofail: "failing_in d = None"
    by simp_all
  let ?d1 = "create_archive req d"
  let ?d2 = "bulk_create_items (next_archive_id d) ords ?d1"
  note ids = selected_orders_ids[OF sel ne]
  then obtain x xs where payload: "payload = x # xs"
    by (cases payload) simp_all
  have f1: "failing_in ?d1 = None" and f2: "failing_in ?d2 = None"
    using nofail by (simp_all add: create_archive_def bulk_create_items_def)
  obtain d' where loop: "for_each clear_order ords ?d2 = (Inr (), d')"
    using for_each_clear_order_ok[OF f2] by blast
  have block: "bindM (db_write (create_archive req)) (\<lambda>_.
                 bindM (db_write (bulk_create_items (next_archive_id d) ords))
                   (\<lambda>_. for_each clear_order ords)) d = (Inr (), d')"
    using loop by (simp add: bindM_def db_write_ok[OF nofail] db_write_ok[OF f1])
  have res: "mark_as_sent E req d = (JsonResponse (ok_msg_body (U ''Buyurtmalar arxivlandi.'')) 200, d')"
    using assms(1-3) sel ne ids block
    by (simp add: mark_as_sent_eq payload)
  note eff = for_each_clear_order_Inr[OF loop]
  have arch: "archives d' = archives d @
          [\<lparr>a_id = next_archive_id d, a_filial = Some (get_branch req),
            a_user_full_name = Some (get_full_name req), a_created_at = now req,
            a_is_pdf_downloaded = True, a_is_telegram_shared = False\<rparr>]"
    using eff[of Rangsiz] by (simp add: create_archive_def bulk_create_items_def)
  have items: "archive_items d' = archive_items d @
          map (\<lambda>(ord, k). archive_item_of (next_archive_id d) ord (next_archive_item_id d + k))
            (zip ords [0 ..< length ords])"
    using eff[of Rangsiz] by (simp add: create_archive_def bulk_create_items_def)
  have gone: "(\<forall>r \<in> set (orders d'). o_id r \<noteq> o_id ord)
           \<and> (\<forall>cls. CATEGORY_MODEL (str_or (o_category ord) []) = Some cls \<longrightarrow>
                  (\<forall>p \<in> set (products d' cls). p_id p \<noteq> o_product_id ord))"
    if "ord \<in> set ords" for ord
  proof -
    have "\<forall>r \<in> set (orders d'). o_id r \<noteq> o_id ord"
      using eff[of Rangsiz] that by auto
    moreover have "\<forall>p \<in> set (products d' cls). p_id p \<noteq> o_product_id ord"
      if "CATEGORY_MODEL (str_or (o_category ord) []) = Some cls" for cls
      using eff[of cls] that \<open>ord \<in> set ords\<close> by auto
    ultimately show ?thesis by blast
  qed
  show "\<exists>d'. mark_as_sent E req d = (JsonResponse (ok_msg_body (U ''Buyurtmalar arxivlandi.'')) 200, d')
     \<and> archives d' = archives d @
          [\<lparr>a_id = next_archive_id d, a_filial = Some (get_branch req),
            a_user_full_name = Some (get_full_name req), a_created_at = now req,
            a_is_pdf_downloaded = True, a_is_telegram_shared = False\<rparr>]
     \<and> take (length (archive_items d)) (archive_items d') = archive_items d
     \<and> map (\<lambda>it. (ai_archive it, ai_category it, ai_model it, ai_dioptriya it, ai_miqdor it, ai_izoh it))
          (drop (length (archive_items d)) (archive_items d')) =
        map (\<lambda>ord. (next_archive_id d, o_category ord, Some (o_model ord), o_dioptriya ord,
                     o_miqdor ord, Some (o_izoh ord)))
          ords
     \<and> (\<forall>ord \<in> set ords.
           (\<forall>r \<in> set (orders d'). o_id r \<noteq> o_id ord)
           \<and> (\<forall>cls. CATEGORY_MODEL (str_or (o_category ord) []) = Some cls \<longrightarrow>
                  (\<forall>p \<in> set (products d' cls). p_id p \<noteq> o_product_id ord)))"
    using res arch gone by (intro exI[of _ d']) (simp add: items archive_item_fields)
qed

lemma mark_as_sent_cart_eval:
  shows "req_method (post_json user_session (JList [JInt 1])) = POST"
    and "session_user_or_json_401 (post_json user_session (JList [JInt 1])) = None"
    and "body (post_json user_session (JList [JInt 1])) = Json (JList [JInt 1])"
  by (simp_all add: post_json_def user_session_def session_user_or_json_401_def str_or_def U_def)

lemma cart_selected:
  "selected_orders E0 (post_json user_session (JList [JInt 1])) [JInt 1] cart_db = Inr [frame_order]"
  "failing_in cart_db = None"
  by (simp_all add: post_json_def user_session_def str_or_def U_def selected_orders_def
      orders_in_def db_integer_def get_user_id_def cart_db_def empty_db_def frame_order_def)

theorem mark_as_sent_copies_then_deletes_witness:
  "\<exists>d'. mark_as_sent E0 (post_json user_session (JList [JInt 1])) cart_db =
          (JsonResponse (ok_msg_body (U ''Buyurtmalar arxivlandi.'')) 200, d')
        \<and> length (archives d') = 1"
proof -
  from mark_as_sent_copies_then_deletes[OF mark_as_sent_cart_eval, where E = E0 and d = cart_db
      and ords = "[frame_order]", THEN conjunct2] cart_selected
  obtain d' where "mark_as_sent E0 (post_json user_session (JList [JInt 1])) cart_db =
          (JsonResponse (ok_msg_body (U ''Buyurtmalar arxivlandi.'')) 200, d')"
    and "archives d' = archives cart_db @
          [\<lparr>a_id = next_archive_id cart_db,
            a_filial = Some (get_branch (post_json user_session (JList [JInt 1]))),
            a_user_full_name = Some (get_full_name (post_json user_session (JList [JInt 1]))),
            a_created_at = now (post_json user_session (JList [JInt 1])),
            a_is_pdf_downloaded = True, a_is_telegram_shared = False\<rparr>]"
    by auto
  moreover have "archives cart_db = []"
    by (simp add: cart_db_def empty_db_def)
  ultimately show ?thesis by simp
qed

section \<open>What becomes of a sent order\<close>

lemma mark_as_sent_cart_result:
  "fst (mark_as_sent E0 (post_json user_session (JList [JInt 1])) cart_db) =
     JsonResponse (ok_msg_body (U ''Buyurtmalar arxivlandi.'')) 200"
  "orders (snd (mark_as_sent E0 (post_json user_session (JList [JInt 1])) cart_db)) = []"
  "products (snd (mark_as_sent E0 (post_json user_session (JList [JInt 1])) cart_db)) Oprava = []"
  by (simp_all add: mark_as_sent_eq post_json_def user_session_def session_user_or_json_401_def
      str_or_def U_def selected_orders_def orders_in_def db_integer_def get_user_id_def cart_db_def empty_db_def
      frame_order_def frame_product_def bindM_def db_write_def count_down_def create_archive_def
      bulk_create_items_def clear_order_def CATEGORY_MODEL_def delete_product_def delete_order_def
      returnM_def get_branch_def get_full_name_def archive_item_of_def)

theorem mark_as_sent_is_sent_counterexample:
  "fst (mark_as_sent E0 (post_json user_session (JList [JInt 1])) cart_db) =
     JsonResponse (ok_msg_body (U ''Buyurtmalar arxivlandi.'')) 200
   \<and> selected_orders E0 (post_json user_session (JList [JInt 1])) [JInt 1] cart_db = Inr [frame_order]
   \<and> \<not> (\<exists>r \<in> set (orders (snd (mark_as_sent E0 (post_json user_session (JList [JInt 1])) cart_db))).
           o_id r = o_id frame_order \<and> o_is_sent r)"
  using mark_as_sent_cart_result
  by (simp add: post_json_def user_session_def str_or_def U_def
      selected_orders_def orders_in_def db_integer_def get_user_id_def cart_db_def empty_db_def
      frame_order_def)

text \<open>
  C4 (as amended). When a cart line is archived, its Order row is deleted, not flagged: after
  a successful \<open>mark_as_sent\<close> request the Order table holds exactly the rows whose id is not
  the id of a selected order, each unchanged, so no row has its \<open>is_sent\<close> set and no selected
  order exists any more.
\<close>

theorem mark_as_sent_deletes_selected:
  assumes "mark_as_sent E req d = (JsonResponse (ok_msg_body m) 200, d')"
  shows "\<exists>payload ords. body req = Json (JList payload)
      \<and> selected_orders E req payload d = Inr ords \<and> ords \<noteq> []
      \<and> orders d' = filter (\<lambda>r. o_id r \<notin> o_id ` set ords) (orders d)
      \<and> list_all (\<lambda>ord. list_all (\<lambda>r. o_id r \<noteq> o_id ord) (orders d')) ords"
proof -
  from mark_as_sent_success[OF assms] obtain payload ords d1 d2 where
    body: "body req = Json (JList payload)"
    and sel: "selected_orders E req payload d = Inr ords" "ords \<noteq> []"
    and w1: "db_write (create_archive req) d = (Inr (), d1)"
    and w2: "db_write (bulk_create_items (next_archive_id d) ords) d1 = (Inr (), d2)"
    and loop: "for_each clear_order ords d2 = (Inr (), d')"
    by blast
  have "orders d2 = orders d"
    using w1 w2 by (simp add: db_write_Inr create_archive_def bulk_create_items_def)
  with for_each_clear_order_Inr[OF loop, of Rangsiz]
  have eq: "orders d' = filter (\<lambda>r. o_id r \<notin> o_id ` set ords) (orders d)"
    by simp
  then have "list_all (\<lambda>ord. list_all (\<lambda>r. o_id r \<noteq> o_id ord) (orders d')) ords"
    by (auto simp: list_all_iff)
  with body sel eq show ?thesis by blast
qed

theorem mark_as_sent_deletes_selected_witness:
  "\<exists>payload ords. body (post_json user_session (JList [JInt 1])) = Json (JList payload)
      \<and> selected_orders E0 (post_json user_session (JList [JInt 1])) payload cart_db = Inr ords
      \<and> ords \<noteq> []
      \<and> orders (snd (mark_as_sent E0 (post_json user_session (JList [JInt 1])) cart_db)) =
          filter (\<lambda>r. o_id r \<notin> o_id ` set ords) (orders cart_db)
      \<and> list_all (\<lambda>ord. list_all (\<lambda>r. o_id r \<noteq> o_id ord)
                    (orders (snd (mark_as_sent E0 (post_json user_session (JList [JInt 1])) cart_db))))
           ords"
proof -
  have "mark_as_sent E0 (post_json user_session (JList [JInt 1])) cart_db =
      (JsonResponse (ok_msg_body (U ''Buyurtmalar arxivlandi.'')) 200,
       snd (mark_as_sent E0 (post_json user_session (JList [JInt 1])) cart_db))"
    using mark_as_sent_cart_result(1) by (simp add: prod_eq_iff)
  then show ?thesis by (rule mark_as_sent_deletes_selected)
qed

section \<open>Editing a cart line\<close>

lemma save_profile_row_eq:
  "save_profile_row E req d =
     (if req_method req \<noteq> POST then (NotAllowed, d)
      else if session_user_or_json_401 req \<noteq> None then (the (session_user_or_json_401 req), d)
      else
        (case body req of
           BadUtf8 \<Rightarrow> (ServerError UnicodeDecodeError, d)
         | Json (JDict kvs) \<Rightarrow>
             (case clean_str (dict_get kvs (U ''Category'')) of
                Inl e \<Rightarrow> (ServerError e, d)
              | Inr category \<Rightarrow>
                  if to_int E (dict_get kvs (U ''Id'')) 0 \<le> 0
                  then (JsonResponse (fail_body (U ''Id noto'' @ [8216] @ U ''g'' @ [8216] @ U ''ri.'')) 400, d)
                  else
                    (case own_unsent_order d (get_user_id req) (to_int E (dict_get kvs (U ''Id'')) 0) of
                       None \<Rightarrow> (JsonResponse (fail_body (U ''Buyurtma topilmadi.'')) 404, d)
                     | Some order0 \<Rightarrow>
                         (let ord = order0\<lparr>o_miqdor := max 0 (to_int E (dict_get kvs (U ''Miqdor'')) 0),
                                    o_izoh := as_text E (py_or (dict_get kvs (U ''Izoh'')) (JStr (U ''-'')))\<rparr>;
                              d1 = save_order_miqdor_izoh ord (count_down d)
                          in if \<not> db_integer (max 0 (to_int E (dict_get kvs (U ''Miqdor'')) 0))
                             then (ServerError OverflowError, d)
                             else if failing_in d = Some 0 then (ServerError DatabaseError, d)
                             else
                               (case CATEGORY_MODEL (if category \<noteq> [] then category
                                                     else str_or (o_category ord) []) of
                                  None \<Rightarrow> (JsonResponse ok_body 200, d1)
                                | Some model_cls \<Rightarrow>
                                    if failing_in d1 = Some 0 then (ServerError DatabaseError, d1)
                                    else (JsonResponse ok_body 200,
                                          update_product model_cls (o_product_id ord) (o_miqdor ord)
                                            (o_izoh ord) (count_down d1))))))
         | _ \<Rightarrow> (JsonResponse (fail_body (U ''JSON xato formatda.'')) 400, d)))"
  by (simp add: save_profile_row_def respond_def require_method_def returnM_def bindM_def liftE_def
      Let_def db_write_def write_int_def raiseM_def
      split: option.splits json.splits body.splits sum.splits)

lemmas save_profile_row_eval =
  save_profile_row_eq edit_request_def post_json_def user_session_def session_user_or_json_401_def
  str_or_def get_user_id_def U_def dict_get_def py_or_def strip_def is_space_def CATEGORY_MODEL_def
  own_unsent_order_def first_by_def shelf_db_def cart_db_def empty_db_def frame_order_def
  frame_product_def drops_product_def save_order_miqdor_izoh_def update_product_def count_down_def
  ok_body_def db_integer_def

text \<open>
  C9. The code at the input that breaks the claim: the caller's order 1 is a frame (category
  of \<open>Oprava\<close>, product row 5 of the frame table), and the request edits it to quantity 4 with
  the category of the drops in its \<open>Category\<close> field. The answer is success and the Order row
  has quantity 4 and the new note, but the frame row 5 keeps quantity 2 and its note, and row
  5 of the drops table, a row of another user, is set to quantity 4 and the note: the table is
  chosen by the request's category before the order's.
\<close>

theorem save_profile_row_category_of_request:
  "fst (save_profile_row E0 (edit_request (category_label Kapliya)) shelf_db) = JsonResponse ok_body 200
   \<and> orders (snd (save_profile_row E0 (edit_request (category_label Kapliya)) shelf_db)) =
       [frame_order\<lparr>o_miqdor := 4, o_izoh := U ''yangi''\<rparr>]
   \<and> products (snd (save_profile_row E0 (edit_request (category_label Kapliya)) shelf_db)) Oprava =
       [frame_product]
   \<and> p_miqdor frame_product = 2
   \<and> products (snd (save_profile_row E0 (edit_request (category_label Kapliya)) shelf_db)) Kapliya =
       [drops_product\<lparr>p_miqdor := 4, p_izoh := Some (U ''yangi'')\<rparr>]
   \<and> p_user_id drops_product \<noteq> get_user_id (edit_request (category_label Kapliya))"
  by (simp add: save_profile_row_eval)

text \<open>The views that wrap their writes in \<open>transaction.atomic()\<close> leave the database as
  it was whenever they answer with an error: an exception inside the block, a failing
  statement included, rolls every write of the request back.\<close>

lemma save_rangsiz_eq:
  "save_rangsiz E req d =
     (if req_method req \<noteq> POST then (NotAllowed, d)
      else if session_user_or_json_401 req \<noteq> None then (the (session_user_or_json_401 req), d)
      else
        (case body req of
           BadUtf8 \<Rightarrow> (ServerError UnicodeDecodeError, d)
         | Json (JList (item # items)) \<Rightarrow>
             (case for_each (save_rangsiz_item E req) (item # items) d of
                (Inl e, d') \<Rightarrow> (ServerError e, d)
              | (Inr u, d') \<Rightarrow>
                  (JsonResponse (JDict [(U ''success'', JBool True),
                     (U ''message'', JStr (U ''Rangsiz linzalar saqlandi'')),
                     (U ''redirectUrl'', JStr (index_url E))]) 200, d'))
         | _ \<Rightarrow> (JsonResponse (fail_body (U ''Hech narsa tanlanmadi!'')) 400, d)))"
  by (simp add: save_rangsiz_def save_view_def respond_def require_method_def returnM_def bindM_def
      liftE_def atomic_def
      split: option.splits json.splits body.splits list.splits prod.splits sum.splits)

lemma delete_rows_eq:
  "delete_rows E req d =
     (if req_method req \<noteq> POST then (NotAllowed, d)
      else if session_user_or_json_401 req \<noteq> None then (the (session_user_or_json_401 req), d)
      else
        (case body req of
           BadUtf8 \<Rightarrow> (ServerError UnicodeDecodeError, d)
         | Json (JList (item # items)) \<Rightarrow>
             (case for_each (delete_rows_item E req) (item # items) d of
                (Inl e, d') \<Rightarrow> (ServerError e, d)
              | (Inr u, d') \<Rightarrow> (JsonResponse ok_body 200, d'))
         | _ \<Rightarrow> (JsonResponse (fail_body (U ''Hech narsa tanlanmadi.'')) 400, d)))"
  by (simp add: delete_rows_def respond_def require_method_def returnM_def bindM_def liftE_def
      atomic_def split: option.splits json.splits body.splits list.splits prod.splits sum.splits)

lemma atomic_views_change_on_success:
  "snd (save_rangsiz E req d) = d \<or> (\<exists>b. fst (save_rangsiz E req d) = JsonResponse b 200)"
  "snd (delete_rows E req d) = d \<or> (\<exists>b. fst (delete_rows E req d) = JsonResponse b 200)"
  "snd (mark_as_sent E req d) = d \<or> (\<exists>b. fst (mark_as_sent E req d) = JsonResponse b 200)"
  by (simp_all add: save_rangsiz_eq delete_rows_eq mark_as_sent_eq
      split: json.split body.split list.split prod.split sum.split)

lemma atomic_views_roll_back:
  "fst (save_rangsiz E req d) = ServerError e \<Longrightarrow> snd (save_rangsiz E req d) = d"
  "fst (delete_rows E req d) = ServerError e \<Longrightarrow> snd (delete_rows E req d) = d"
  "fst (mark_as_sent E req d) = ServerError e \<Longrightarrow> snd (mark_as_sent E req d) = d"
  using atomic_views_change_on_success[of E req d] by auto

text \<open>
  C2. The code at the input that breaks the claim: the same edit with the order's own
  category, on a database that raises at the second write statement of the request.
  \<open>save_profile_row\<close> has no transaction around its two writes: the answer is the error
  500, the Order row keeps the new quantity and note, and the product row keeps the old ones.
\<close>

theorem save_profile_row_partial_write:
  "fst (save_profile_row E0 (edit_request (category_label Oprava)) (shelf_db\<lparr>failing_in := Some 1\<rparr>)) =
     ServerError DatabaseError
   \<and> orders (snd (save_profile_row E0 (edit_request (category_label Oprava))
                     (shelf_db\<lparr>failing_in := Some 1\<rparr>))) =
       [frame_order\<lparr>o_miqdor := 4, o_izoh := U ''yangi''\<rparr>]
   \<and> orders shelf_db = [frame_order]
   \<and> o_miqdor frame_order = 2
   \<and> products (snd (save_profile_row E0 (edit_request (category_label Oprava))
                       (shelf_db\<lparr>failing_in := Some 1\<rparr>))) Oprava =
       [frame_product]"
  by (simp add: save_profile_row_eval)

section \<open>The merge of the add-to-cart upsert\<close>

lemma first_by_Some:
  assumes "first_by pk xs = Some x"
  shows "x \<in> set xs" and "\<And>y. y \<in> set xs \<Longrightarrow> pk x \<le> pk y"
  using assms by (auto simp: first_by_def find_Some_iff list_all_iff)

lemma first_by_exists:
  assumes "xs \<noteq> []"
  shows "\<exists>x. first_by pk xs = Some x"
proof -
  obtain x where x: "x \<in> set xs" "\<And>y. y \<in> set xs \<Longrightarrow> pk x \<le> pk y"
  proof -
    have "pk ` set xs \<noteq> {}" "finite (pk ` set xs)" using assms by simp_all
    then have "Min (pk ` set xs) \<in> pk ` set xs" by (rule Min_in[rotated])
    then obtain x where "x \<in> set xs" "pk x = Min (pk ` set xs)" by auto
    moreover have "Min (pk ` set xs) \<le> pk y" if "y \<in> set xs" for y
      using that by simp
    ultimately show ?thesis using that by metis
  qed
  then have "\<exists>x\<in>set xs. list_all (\<lambda>r'. pk x \<le> pk r') xs"
    by (auto simp: list_all_iff)
  then show ?thesis
    by (cases "find (\<lambda>r. list_all (\<lambda>r'. pk r \<le> pk r') xs) xs")
       (auto simp: first_by_def find_None_iff)
qed

lemma first_by_unique:
  assumes "x \<in> set xs" and "\<And>y. y \<in> set xs \<Longrightarrow> pk x \<le> pk y"
    and "\<And>y. y \<in> set xs \<Longrightarrow> pk y = pk x \<Longrightarrow> y = x"
  shows "first_by pk xs = Some x"
proof -
  have "xs \<noteq> []" using assms(1) by auto
  from first_by_exists[OF this] obtain z where z: "first_by pk xs = Some z"
    by blast
  from first_by_Some[OF z] assms have "pk z = pk x"
    by (metis le_antisym)
  with assms(3) first_by_Some(1)[OF z] z show ?thesis by simp
qed

text \<open>Saving a changed copy of the row a lookup found, under its primary key, leaves it the
  row the same lookup finds.\<close>

lemma first_by_saved:
  assumes found: "first_by pk (filter P xs) = Some x"
    and pk: "pk x' = pk x" and P: "P x'"
  shows "first_by pk (filter P (map (\<lambda>r. if pk r = pk x then x' else r) xs)) = Some x'"
proof (rule first_by_unique)
  let ?xs' = "map (\<lambda>r. if pk r = pk x then x' else r) xs"
  from first_by_Some[OF found] have x: "x \<in> set xs" "P x"
    and least: "\<And>y. y \<in> set xs \<Longrightarrow> P y \<Longrightarrow> pk x \<le> pk y"
    by auto
  show "x' \<in> set (filter P ?xs')"
    using x P by (auto simp: image_iff intro!: bexI[of _ x])
  show "pk x' \<le> pk y" if "y \<in> set (filter P ?xs')" for y
    using that least pk by (auto split: if_splits)
  show "y = x'" if "y \<in> set (filter P ?xs')" "pk y = pk x'" for y
    using that pk by (auto split: if_splits)
qed

lemma first_by_appended:
  assumes "filter P xs = []" and "P x'"
  shows "first_by pk (filter P (xs @ [x'])) = Some x'"
  using assms by (simp add: first_by_def)

lemma first_by_None: "first_by pk xs = None \<longleftrightarrow> xs = []"
  using first_by_exists[of xs pk] by (cases xs) (auto simp: first_by_def)

lemma filter_on_refl [simp]: "filter_on E v v"
  by (simp add: filter_on_def iexact_opt_def iexact_def split: option.splits)

lemma filter_on_opt_or [simp]: "filter_on E (opt_or v old) v"
  by (simp add: filter_on_def opt_or_def iexact_opt_def iexact_def split: option.splits)

lemma filter_on_not_given: "\<not> given v \<Longrightarrow> filter_on E col v"
  by (auto simp: filter_on_def given_def split: option.splits)

lemma bindE_Inr: "bindE m f = Inr y \<longleftrightarrow> (\<exists>x. m = Inr x \<and> f x = Inr y)"
  by (cases m) simp_all

text \<open>Binding the arguments changes the decimals only.\<close>

lemma bound_Inr:
  assumes "bound E a = Inr b"
  shows "m_user_id b = m_user_id a" and "m_branch b = m_branch a"
    and "m_model_cls b = m_model_cls a" and "m_category b = m_category a"
    and "m_nomi b = m_nomi a" and "m_miqdor b = m_miqdor a" and "m_turi b = m_turi a"
    and "m_izoh b = m_izoh a" and "m_rasm b = m_rasm a"
    and "m_extra_fields b = m_extra_fields a"
    and "m_model_cls a \<noteq> Rangli \<Longrightarrow> m_dioptriya b = m_dioptriya a"
  using assms
  by (auto simp: bound_def bindE_Inr split: option.splits if_splits)

lemma merge_into_key [simp]:
  "p_id (merge_into a p) = p_id p"
  "p_miqdor (merge_into a p) = p_miqdor p + m_miqdor a"
  by (simp_all add: merge_into_def Let_def)

lemma product_filter_merge_into:
  assumes "product_filter E a p" and b: "bound E a = Inr b"
    and key: "\<not> (m_model_cls a = Rangli \<and> given (m_dioptriya a))"
  shows "product_filter E a (merge_into b p)"
proof -
  have "dioptriya_filter E (m_model_cls a) (opt_or (m_dioptriya b) (p_dioptriya p)) (m_dioptriya a)"
    using key bound_Inr(11)[OF b]
    by (auto simp: dioptriya_filter_def given_def opt_or_def iexact_opt_def iexact_def
        split: option.splits)
  moreover have "filter_on E (p_turi (merge_into b p)) (m_turi a)"
    using assms(1) by (simp add: product_filter_def merge_into_def Let_def bound_Inr[OF b])
  ultimately show ?thesis
    using assms(1) by (simp add: product_filter_def merge_into_def Let_def)
qed

lemma product_filter_new_product:
  assumes "\<not> (given (m_turi a) \<and> \<not> has_turi (m_model_cls a))" and b: "bound E a = Inr b"
    and key: "\<not> (m_model_cls a = Rangli \<and> given (m_dioptriya a))"
  shows "product_filter E a (new_product b t n)"
proof -
  have "dioptriya_filter E (m_model_cls a) (m_dioptriya b) (m_dioptriya a)"
    using key bound_Inr(11)[OF b]
    by (auto simp: dioptriya_filter_def given_def iexact_opt_def iexact_def split: option.splits)
  then show ?thesis
    using assms(1)
    by (auto simp: product_filter_def new_product_def Let_def iexact_def iexact_opt_def
        filter_on_not_given bound_Inr[OF b])
qed

lemma order_filter_new_order:
  "order_filter E (m_user_id a) (p_id item) (m_category a) (new_order a t item oid)"
  by (simp add: order_filter_def new_order_def iexact_opt_def iexact_def)

lemma order_filter_saved:
  "order_filter E u pid c ord \<Longrightarrow>
   order_filter E u pid c (ord\<lparr>o_miqdor := m, o_izoh := i, o_narx := n, o_dioptriya := dp, o_filial := f\<rparr>)"
  by (simp add: order_filter_def)

lemma write_effects [simp]:
  "products (save_product cls row d) = (products d)(cls := map (\<lambda>r. if p_id r = p_id row then row else r) (products d cls))"
  "orders (save_product cls row d) = orders d"
  "failing_in (save_product cls row d) = failing_in d"
  "next_order_id (save_product cls row d) = next_order_id d"
  "products (save_order orow d) = products d"
  "orders (save_order orow d) = map (\<lambda>r. if o_id r = o_id orow then orow else r) (orders d)"
  "failing_in (save_order orow d) = failing_in d"
  "products (create_order a t item d) = products d"
  "orders (create_order a t item d) = orders d @ [new_order a t item (next_order_id d)]"
  "failing_in (create_order a t item d) = failing_in d"
  "products (create_product a t d) =
     (products d)(m_model_cls a := products d (m_model_cls a)
        @ [new_product a t (next_product_id d (m_model_cls a))])"
  "orders (create_product a t d) = orders d"
  "failing_in (create_product a t d) = failing_in d"
  "next_order_id (create_product a t d) = next_order_id d"
  by (simp_all add: save_product_def save_order_def create_order_def create_product_def Let_def)

lemma new_product_id [simp]: "p_id (new_product a t n) = n"
  by (simp add: new_product_def Let_def)

text \<open>The upsert once its lookup has not raised and its arguments are bound.\<close>

lemma merge_save_eq:
  assumes nf: "\<not> (given (m_turi a) \<and> \<not> has_turi (m_model_cls a))"
    and le: "lookup_error E a = None" and b: "bound E a = Inr b"
  shows "merge_save_product_and_order E t a d =
     (case first_by p_id (filter (product_filter E a) (products d (m_model_cls a))) of
        Some existing0 \<Rightarrow>
          if \<not> db_integer (p_miqdor existing0 + m_miqdor a) then (Inl OverflowError, d)
          else
            bindM (db_write (save_product (m_model_cls a) (merge_into b existing0))) (\<lambda>_ d1.
              (case first_by o_id (filter (order_filter E (m_user_id a) (p_id existing0) (m_category a)) (orders d1)) of
                 Some ord \<Rightarrow>
                   db_write (save_order (ord\<lparr>o_miqdor := p_miqdor existing0 + m_miqdor a,
                      o_izoh := str_or (p_izoh (merge_into b existing0)) (U ''-''),
                      o_narx := p_narx (merge_into b existing0),
                      o_dioptriya := opt_or (m_dioptriya a) (p_dioptriya (merge_into b existing0)),
                      o_filial := m_branch a\<rparr>)) d1
               | None \<Rightarrow> db_write (create_order a t (merge_into b existing0)) d1)) d
      | None \<Rightarrow>
          if \<not> db_integer (m_miqdor a) then (Inl OverflowError, d)
          else if turi_not_null (m_model_cls a) \<and> m_turi a = None then (Inl IntegrityError, d)
          else
            bindM (db_write (create_product b t)) (\<lambda>_ d1.
              db_write (create_order a t (new_product b t (next_product_id d (m_model_cls a)))) d1) d)"
proof -
  from nf have nf': "(given (m_turi a) \<and> \<not> has_turi (m_model_cls a)) = False"
    by simp
  show ?thesis
  proof (cases "first_by p_id (filter (product_filter E a) (products d (m_model_cls a)))")
    case None
    then show ?thesis
      by (simp add: merge_save_product_and_order_def Let_def bindM_def liftE_def raiseM_def
          nf' le b)
  next
    case (Some p0)
    show ?thesis
    proof (cases "db_integer (p_miqdor p0 + m_miqdor a)")
      case True
      then show ?thesis
        by (auto simp: merge_save_product_and_order_def Let_def bindM_def liftE_def raiseM_def
            write_int_def bound_Inr[OF b] nf' le b Some
            split: prod.splits sum.splits option.splits)
    next
      case False
      then show ?thesis
        by (simp add: merge_save_product_and_order_def Let_def bindM_def liftE_def raiseM_def
            write_int_def bound_Inr[OF b] nf' le b Some)
    qed
  qed
qed

text \<open>A call that returned passed the lookup and bound its arguments.\<close>

lemma merge_save_returned:
  assumes ok: "merge_save_product_and_order E t a d = (Inr u, d1)"
  shows "\<not> (given (m_turi a) \<and> \<not> has_turi (m_model_cls a))"
    and "lookup_error E a = None" and "\<exists>b. bound E a = Inr b"
proof -
  show nf: "\<not> (given (m_turi a) \<and> \<not> has_turi (m_model_cls a))"
    using ok by (auto simp: merge_save_product_and_order_def Let_def raiseM_def split: if_splits)
  show le: "lookup_error E a = None"
    using ok nf
    by (cases "lookup_error E a") (auto simp: merge_save_product_and_order_def Let_def raiseM_def)
  show "\<exists>b. bound E a = Inr b"
    using ok nf le
    by (cases "bound E a";
        cases "first_by p_id (filter (product_filter E a) (products d (m_model_cls a)))")
       (auto simp: merge_save_product_and_order_def Let_def raiseM_def bindM_def liftE_def)
qed

text \<open>After a call that returned, the lookup of the product finds a row, and an unsent
  order of the user for that row and category exists.\<close>

lemma merge_save_first:
  assumes ok: "merge_save_product_and_order E t a d = (Inr u, d1)"
    and key: "\<not> (m_model_cls a = Rangli \<and> given (m_dioptriya a))"
  shows "\<exists>p1. first_by p_id (filter (product_filter E a) (products d1 (m_model_cls a))) = Some p1
           \<and> filter (order_filter E (m_user_id a) (p_id p1) (m_category a)) (orders d1) \<noteq> []"
proof -
  let ?cls = "m_model_cls a"
  let ?F = "product_filter E a"
  note nf = merge_save_returned(1)[OF ok] and le = merge_save_returned(2)[OF ok]
  from merge_save_returned(3)[OF ok] obtain b where b: "bound E a = Inr b" ..
  note eq = merge_save_eq[OF nf le b, of t d]
  show ?thesis
  proof (cases "first_by p_id (filter ?F (products d ?cls))")
    case (Some p0)
    let ?p1 = "merge_into b p0"
    let ?G = "order_filter E (m_user_id a) (p_id p0) (m_category a)"
    let ?da = "save_product ?cls ?p1 (count_down d)"
    have Fp0: "?F p0" using first_by_Some(1)[OF Some] by simp
    have found1: "first_by p_id (filter ?F (map (\<lambda>r. if p_id r = p_id p0 then ?p1 else r) (products d ?cls)))
                    = Some ?p1"
      by (rule first_by_saved[OF Some]) (simp_all add: product_filter_merge_into[OF Fp0 b key])
    have fits: "db_integer (p_miqdor p0 + m_miqdor a)"
      using ok eq Some by (auto split: if_splits)
    show ?thesis
    proof (cases "first_by o_id (filter ?G (orders d))")
      case None
      with ok eq fits Some have d1: "d1 = create_order a t ?p1 (count_down ?da)"
        by (auto simp: bindM_Inr db_write_Inr)
      show ?thesis
        using found1 order_filter_new_order[of E a ?p1 t]
        by (intro exI[of _ ?p1]) (simp add: d1)
    next
      case (Some ord)
      let ?ord' = "ord\<lparr>o_miqdor := p_miqdor p0 + m_miqdor a, o_izoh := str_or (p_izoh ?p1) (U ''-''),
                      o_narx := p_narx ?p1, o_dioptriya := opt_or (m_dioptriya a) (p_dioptriya ?p1),
                      o_filial := m_branch a\<rparr>"
      from ok eq fits \<open>first_by p_id (filter ?F (products d ?cls)) = Some p0\<close> Some
      have d1: "d1 = save_order ?ord' (count_down ?da)"
        by (auto simp: bindM_Inr db_write_Inr)
      have "ord \<in> set (orders d)" "?G ord" using first_by_Some(1)[OF Some] by simp_all
      then have "?ord' \<in> set (filter ?G (orders d1))"
        using order_filter_saved[of E "m_user_id a" "p_id p0" "m_category a" ord]
        by (auto simp: d1 image_iff intro!: bexI[of _ ord])
      then have "filter ?G (orders d1) \<noteq> []"
        by (metis empty_iff empty_set)
      then show ?thesis
        using found1 by (intro exI[of _ ?p1]) (simp add: d1)
    qed
  next
    case None
    let ?p1 = "new_product b t (next_product_id d ?cls)"
    from ok eq None have d1: "d1 = create_order a t ?p1 (count_down (create_product b t (count_down d)))"
      by (auto simp: bindM_Inr db_write_Inr split: if_splits)
    have "filter ?F (products d ?cls) = []" using None by (simp add: first_by_None)
    then have "first_by p_id (filter ?F (products d ?cls @ [?p1])) = Some ?p1"
      by (rule first_by_appended) (rule product_filter_new_product[OF nf b key])
    then show ?thesis
      using order_filter_new_order[of E a ?p1 t]
      by (intro exI[of _ ?p1]) (simp add: d1 bound_Inr[OF b])
  qed
qed

text \<open>A call on a database where the lookup finds a product row and an order for it exists
  merges into both, and creates nothing.\<close>

lemma merge_save_second:
  assumes nf: "\<not> (given (m_turi a) \<and> \<not> has_turi (m_model_cls a))"
    and le: "lookup_error E a = None" and b: "bound E a = Inr b"
    and found: "first_by p_id (filter (product_filter E a) (products d (m_model_cls a))) = Some p1"
    and ne: "filter (order_filter E (m_user_id a) (p_id p1) (m_category a)) (orders d) \<noteq> []"
    and fits: "db_integer (p_miqdor p1 + m_miqdor a)"
    and nofail: "failing_in d = None"
  shows "\<exists>d2 o1. merge_save_product_and_order E t a d = (Inr (), d2)
      \<and> first_by o_id (filter (order_filter E (m_user_id a) (p_id p1) (m_category a)) (orders d)) = Some o1
      \<and> products d2 (m_model_cls a) =
          map (\<lambda>r. if p_id r = p_id p1 then merge_into b p1 else r) (products d (m_model_cls a))
      \<and> orders d2 =
          map (\<lambda>r. if o_id r = o_id o1
                    then o1\<lparr>o_miqdor := p_miqdor p1 + m_miqdor a,
                            o_izoh := str_or (p_izoh (merge_into b p1)) (U ''-''),
                            o_narx := p_narx (merge_into b p1),
                            o_dioptriya := opt_or (m_dioptriya a) (p_dioptriya (merge_into b p1)),
                            o_filial := m_branch a\<rparr>
                    else r) (orders d)"
proof -
  from first_by_exists[OF ne] obtain o1 where
    o1: "first_by o_id (filter (order_filter E (m_user_id a) (p_id p1) (m_category a)) (orders d)) = Some o1"
    by blast
  let ?o1' = "o1\<lparr>o_miqdor := p_miqdor p1 + m_miqdor a,
                  o_izoh := str_or (p_izoh (merge_into b p1)) (U ''-''),
                  o_narx := p_narx (merge_into b p1),
                  o_dioptriya := opt_or (m_dioptriya a) (p_dioptriya (merge_into b p1)),
                  o_filial := m_branch a\<rparr>"
  let ?da = "save_product (m_model_cls a) (merge_into b p1) d"
  have w1: "db_write (save_product (m_model_cls a) (merge_into b p1)) d = (Inr (), ?da)"
    by (rule db_write_ok[OF nofail])
  have w2: "db_write (save_order ?o1') ?da = (Inr (), save_order ?o1' ?da)"
    by (rule db_write_ok) (simp add: nofail)
  have "merge_save_product_and_order E t a d = (Inr (), save_order ?o1' ?da)"
    using found o1 w1 w2 fits
    by (simp add: merge_save_eq[OF nf le b] bindM_def)
  then show ?thesis using o1 by simp
qed

lemmas save_rangsiz_eval =
  save_rangsiz_eq lens_request_def lens_args_def post_json_def user_session_def
  session_user_or_json_401_def str_or_def get_user_id_def get_branch_def U_def dict_get_def
  py_or_def strip_def is_space_def empty_db_def count_down_def save_rangsiz_item_def get_or_def
  bindM_def liftE_def returnM_def raiseM_def db_write_def to_decimal_or_none_def
  none_if_empty_def merge_save_product_and_order_def given_def has_turi_def has_rasm_def
  is_gatoviy_def turi_not_null_def first_by_def product_filter_def order_filter_def iexact_def
  iexact_opt_def filter_on_def E0_def create_product_def create_order_def new_product_def
  new_order_def save_product_def save_order_def merge_into_def opt_or_def Let_def
  lookup_error_def bound_def dioptriya_filter_def write_int_def db_integer_def

theorem save_rangsiz_twice_counterexample:
  "map p_miqdor (products (snd (save_rangsiz E0 lens_request empty_db)) Rangsiz) = [2]
   \<and> map o_miqdor (orders (snd (save_rangsiz E0 lens_request empty_db))) = [2]
   \<and> map p_miqdor (products (snd (save_rangsiz E0 lens_request
         (snd (save_rangsiz E0 lens_request empty_db)))) Rangsiz) = [4]
   \<and> map o_miqdor (orders (snd (save_rangsiz E0 lens_request
         (snd (save_rangsiz E0 lens_request empty_db))))) = [4]"
proof -
  have "map p_miqdor (products (snd (save_rangsiz E0 lens_request empty_db)) Rangsiz) = [2]"
    by (simp add: save_rangsiz_eval)
  moreover have "map o_miqdor (orders (snd (save_rangsiz E0 lens_request empty_db))) = [2]"
    by (simp add: save_rangsiz_eval)
  moreover have "map p_miqdor (products (snd (save_rangsiz E0 lens_request
         (snd (save_rangsiz E0 lens_request empty_db)))) Rangsiz) = [4]"
    by (simp add: save_rangsiz_eval)
  moreover have "map o_miqdor (orders (snd (save_rangsiz E0 lens_request
         (snd (save_rangsiz E0 lens_request empty_db))))) = [4]"
    by (simp add: save_rangsiz_eval)
  ultimately show ?thesis by simp
qed

text \<open>
  C1 (as amended). The add-to-cart upsert merges, keyed by user, category and name (and by
  dioptriya and turi when they are given); it is not idempotent. For every database, item
  and branch, with the key as every save view passes it (no dioptriya for \<open>Rangli\<close>, whose
  dioptriya column is a decimal that the lookup need not match): when a first call of
  \<open>_merge_save_product_and_order\<close> has returned, the lookup finds a product row, and a
  second call with the same arguments (the database accepting its statements) does one of
  two things. When the quantity of that row plus the submitted quantity is an integer of the
  database, the call returns, creates no product row and no Order row, adds the submitted
  quantity once more to the product row, and sets the quantity of the unsent Order row
  found for that product row to the product row's new total. When the sum is beyond the
  integers of the database, the call raises \<open>OverflowError\<close> and writes nothing.
\<close>

theorem merge_save_twice_adds:
  assumes first: "merge_save_product_and_order E t a d = (Inr (), d1)"
    and nofail: "failing_in d1 = None"
    and key: "\<not> (m_model_cls a = Rangli \<and> given (m_dioptriya a))"
  shows "\<exists>p1. first_by p_id (filter (product_filter E a) (products d1 (m_model_cls a))) = Some p1
      \<and> (if db_integer (p_miqdor p1 + m_miqdor a)
         then \<exists>d2 p2 o2. merge_save_product_and_order E t' a d1 = (Inr (), d2)
            \<and> first_by p_id (filter (product_filter E a) (products d2 (m_model_cls a))) = Some p2
            \<and> p_id p2 = p_id p1 \<and> p_miqdor p2 = p_miqdor p1 + m_miqdor a
            \<and> map p_id (products d2 (m_model_cls a)) = map p_id (products d1 (m_model_cls a))
            \<and> map o_id (orders d2) = map o_id (orders d1)
            \<and> first_by o_id (filter (order_filter E (m_user_id a) (p_id p2) (m_category a)) (orders d2)) = Some o2
            \<and> o_miqdor o2 = p_miqdor p2
         else merge_save_product_and_order E t' a d1 = (Inl OverflowError, d1))"
proof -
  let ?cls = "m_model_cls a"
  let ?F = "product_filter E a"
  note nf = merge_save_returned(1)[OF first] and le = merge_save_returned(2)[OF first]
  from merge_save_returned(3)[OF first] obtain b where b: "bound E a = Inr b" ..
  from merge_save_first[OF first key] obtain p1 where
    p1: "first_by p_id (filter ?F (products d1 ?cls)) = Some p1"
    and ne: "filter (order_filter E (m_user_id a) (p_id p1) (m_category a)) (orders d1) \<noteq> []"
    by blast
  let ?G = "order_filter E (m_user_id a) (p_id p1) (m_category a)"
  let ?p2 = "merge_into b p1"
  show ?thesis
  proof (cases "db_integer (p_miqdor p1 + m_miqdor a)")
    case False
    then have "merge_save_product_and_order E t' a d1 = (Inl OverflowError, d1)"
      using p1 by (simp add: merge_save_eq[OF nf le b])
    with False p1 show ?thesis by simp
  next
    case True
    from merge_save_second[OF nf le b p1 ne True nofail, of t'] obtain d2 o1 where
      second: "merge_save_product_and_order E t' a d1 = (Inr (), d2)"
      and o1: "first_by o_id (filter ?G (orders d1)) = Some o1"
      and prods: "products d2 ?cls = map (\<lambda>r. if p_id r = p_id p1 then ?p2 else r) (products d1 ?cls)"
      and ords: "orders d2 =
            map (\<lambda>r. if o_id r = o_id o1
                      then o1\<lparr>o_miqdor := p_miqdor p1 + m_miqdor a,
                              o_izoh := str_or (p_izoh ?p2) (U ''-''),
                              o_narx := p_narx ?p2,
                              o_dioptriya := opt_or (m_dioptriya a) (p_dioptriya ?p2),
                              o_filial := m_branch a\<rparr>
                      else r) (orders d1)"
      by blast
    let ?o2 = "o1\<lparr>o_miqdor := p_miqdor p1 + m_miqdor a, o_izoh := str_or (p_izoh ?p2) (U ''-''),
                    o_narx := p_narx ?p2, o_dioptriya := opt_or (m_dioptriya a) (p_dioptriya ?p2),
                    o_filial := m_branch a\<rparr>"
    have Fp1: "?F p1" using first_by_Some(1)[OF p1] by simp
    have Go1: "?G o1" using first_by_Some(1)[OF o1] by simp
    have p2: "first_by p_id (filter ?F (products d2 ?cls)) = Some ?p2"
      unfolding prods
      by (rule first_by_saved[OF p1]) (simp_all add: product_filter_merge_into[OF Fp1 b key])
    have o2: "first_by o_id (filter ?G (orders d2)) = Some ?o2"
      unfolding ords by (rule first_by_saved[OF o1]) (simp_all add: order_filter_saved[OF Go1])
    have ids: "map p_id (products d2 ?cls) = map p_id (products d1 ?cls)"
      unfolding prods by (induction "products d1 ?cls") simp_all
    have oids: "map o_id (orders d2) = map o_id (orders d1)"
      unfolding ords by (induction "orders d1") simp_all
    have "\<exists>d2 p2 o2. merge_save_product_and_order E t' a d1 = (Inr (), d2)
            \<and> first_by p_id (filter ?F (products d2 ?cls)) = Some p2
            \<and> p_id p2 = p_id p1 \<and> p_miqdor p2 = p_miqdor p1 + m_miqdor a
            \<and> map p_id (products d2 ?cls) = map p_id (products d1 ?cls)
            \<and> map o_id (orders d2) = map o_id (orders d1)
            \<and> first_by o_id (filter (order_filter E (m_user_id a) (p_id p2) (m_category a)) (orders d2)) = Some o2
            \<and> o_miqdor o2 = p_miqdor p2"
      using second p2 ids oids o2
      by (intro exI[of _ d2] exI[of _ ?p2] exI[of _ ?o2]) (simp add: bound_Inr[OF b])
    with True p1 show ?thesis by simp
  qed
qed

lemma lens_first_call:
  "merge_save_product_and_order E0 7 lens_args empty_db =
     (Inr (), snd (merge_save_product_and_order E0 7 lens_args empty_db))"
  "failing_in (snd (merge_save_product_and_order E0 7 lens_args empty_db)) = None"
  "\<not> (m_model_cls lens_args = Rangli \<and> given (m_dioptriya lens_args))"
  by (simp_all add: save_rangsiz_eval prod_eq_iff)

lemma lens_found:
  "first_by p_id (filter (product_filter E0 lens_args)
     (products (snd (merge_save_product_and_order E0 7 lens_args empty_db)) (m_model_cls lens_args))) =
   Some (new_product lens_args 7 1)"
  "p_miqdor (new_product lens_args 7 1) + m_miqdor lens_args = 4"
  by (simp_all add: save_rangsiz_eval)

theorem merge_save_twice_adds_witness:
  "\<exists>d2 p2 o2.
      merge_save_product_and_order E0 8 lens_args
        (snd (merge_save_product_and_order E0 7 lens_args empty_db)) = (Inr (), d2)
      \<and> first_by p_id (filter (product_filter E0 lens_args) (products d2 (m_model_cls lens_args))) = Some p2
      \<and> p_id p2 = 1 \<and> p_miqdor p2 = 4
      \<and> map p_id (products d2 (m_model_cls lens_args)) =
          map p_id (products (snd (merge_save_product_and_order E0 7 lens_args empty_db))
                      (m_model_cls lens_args))
      \<and> map o_id (orders d2) =
          map o_id (orders (snd (merge_save_product_and_order E0 7 lens_args empty_db)))
      \<and> first_by o_id (filter (order_filter E0 (m_user_id lens_args) (p_id p2) (m_category lens_args))
           (orders d2)) = Some o2
      \<and> o_miqdor o2 = p_miqdor p2"
proof -
  from merge_save_twice_adds[OF lens_first_call, of 8] lens_found
  have "if db_integer (p_miqdor (new_product lens_args 7 1) + m_miqdor lens_args)
         then \<exists>d2 p2 o2. merge_save_product_and_order E0 8 lens_args
                (snd (merge_save_product_and_order E0 7 lens_args empty_db)) = (Inr (), d2)
            \<and> first_by p_id (filter (product_filter E0 lens_args) (products d2 (m_model_cls lens_args))) = Some p2
            \<and> p_id p2 = p_id (new_product lens_args 7 1)
            \<and> p_miqdor p2 = p_miqdor (new_product lens_args 7 1) + m_miqdor lens_args
            \<and> map p_id (products d2 (m_model_cls lens_args)) =
                map p_id (products (snd (merge_save_product_and_order E0 7 lens_args empty_db))
                            (m_model_cls lens_args))
            \<and> map o_id (orders d2) =
                map o_id (orders (snd (merge_save_product_and_order E0 7 lens_args empty_db)))
            \<and> first_by o_id (filter (order_filter E0 (m_user_id lens_args) (p_id p2) (m_category lens_args))
                 (orders d2)) = Some o2
            \<and> o_miqdor o2 = p_miqdor p2
         else merge_save_product_and_order E0 8 lens_args
                (snd (merge_save_product_and_order E0 7 lens_args empty_db)) =
              (Inl OverflowError, snd (merge_save_product_and_order E0 7 lens_args empty_db))"
    by auto
  then show ?thesis
    using lens_found(2) by (simp add: db_integer_def)
qed

section \<open>Validation and authorization failures\<close>

lemma get_archive_items_eq:
  "get_archive_items E req d =
     (if req_method req \<noteq> GET then (NotAllowed, d)
      else if session_user_or_json_401 req \<noteq> None then (the (session_user_or_json_401 req), d)
      else if admin_or_403 req \<noteq> None then (the (admin_or_403 req), d)
      else if form_int E req (U ''archiveId'') \<le> 0 then (JsonResponse (JList []) 200, d)
      else (JsonResponse (JList (map item_json (sort_key ai_id
              (filter (\<lambda>it. int (ai_archive it) = form_int E req (U ''archiveId'')) (archive_items d)))))
              200, d))"
  by (simp add: get_archive_items_def respond_def require_method_def returnM_def Let_def
      split: option.splits)

lemma save_view_guard:
  "save_view f m E req d =
     (if req_method req \<noteq> POST then (NotAllowed, d)
      else if session_user_or_json_401 req \<noteq> None then (the (session_user_or_json_401 req), d)
      else
        (case body req of
           BadUtf8 \<Rightarrow> (ServerError UnicodeDecodeError, d)
         | Json (JList (item # items)) \<Rightarrow>
             respond (bindM (atomic (for_each (f E req) (item # items)))
               (\<lambda>_. returnM (JsonResponse
                  (JDict [(U ''success'', JBool True), (U ''message'', JStr m),
                          (U ''redirectUrl'', JStr (index_url E))]) 200))) d
         | _ \<Rightarrow> (JsonResponse (fail_body (U ''Hech narsa tanlanmadi!'')) 400, d)))"
  by (simp add: save_view_def respond_def require_method_def returnM_def bindM_def liftE_def
      split: option.splits json.splits body.splits list.splits)

lemma admin_json_view_guard:
  "admin_json_view m req view d =
     (if req_method req \<noteq> m then (NotAllowed, d)
      else if session_user_or_json_401 req \<noteq> None then (the (session_user_or_json_401 req), d)
      else if admin_or_403 req \<noteq> None then (the (admin_or_403 req), d)
      else respond view d)"
  by (simp add: admin_json_view_def respond_def require_method_def returnM_def split: option.splits)

lemma share_all_guards:
  "req_method req = POST \<Longrightarrow> session_user_or_json_401 req = Some r \<Longrightarrow>
     share_all_archives_telegram E req d = (r, d)"
  "req_method req = POST \<Longrightarrow> session_user_or_json_401 req = None \<Longrightarrow> admin_or_403 req = Some r \<Longrightarrow>
     share_all_archives_telegram E req d = (r, d)"
  by (simp_all add: share_all_archives_telegram_def respond_def require_method_def returnM_def)

lemma download_orders_pdf_eq:
  "download_orders_pdf E req d =
     (if req_method req \<noteq> POST then (NotAllowed, d)
      else if session_user_or_json_401 req \<noteq> None then (the (session_user_or_json_401 req), d)
      else
        (case body req of
           BadUtf8 \<Rightarrow> (ServerError UnicodeDecodeError, d)
         | Json (JList (x # xs)) \<Rightarrow> respond (orders_pdf E req (x # xs)) d
         | _ \<Rightarrow> (JsonResponse (fail_body (U ''Order list bo'' @ [8216] @ U ''sh.'')) 400, d)))"
  by (simp add: download_orders_pdf_def respond_def require_method_def returnM_def bindM_def
      liftE_def split: option.splits json.splits body.splits list.splits)

lemma send_feedback_eq:
  "send_feedback E req d =
     (if req_method req \<noteq> POST then (NotAllowed, d)
      else if session_user_or_json_401 req \<noteq> None then (the (session_user_or_json_401 req), d)
      else
        (case body req of
           BadUtf8 \<Rightarrow> (ServerError UnicodeDecodeError, d)
         | Json (JDict kvs) \<Rightarrow> respond (store_feedback req kvs) d
         | _ \<Rightarrow> (JsonResponse (fail_body (U ''JSON xato.'')) 400, d)))"
  by (simp add: send_feedback_def respond_def require_method_def returnM_def bindM_def
      liftE_def split: option.splits json.splits body.splits)

lemma delete_archive_eq:
  "delete_archive E req d =
     (if req_method req \<noteq> POST then (NotAllowed, d)
      else if session_user_or_json_401 req \<noteq> None then (the (session_user_or_json_401 req), d)
      else if admin_or_403 req \<noteq> None then (the (admin_or_403 req), d)
      else
        (case body req of
           BadUtf8 \<Rightarrow> (ServerError UnicodeDecodeError, d)
         | Json (JDict kvs) \<Rightarrow> respond (delete_archive_of E kvs) d
         | _ \<Rightarrow> (JsonResponse (fail_body (U ''JSON xato.'')) 400, d)))"
  by (simp add: delete_archive_def admin_json_view_guard respond_def returnM_def bindM_def
      liftE_def split: option.splits json.splits body.splits)

lemmas json_view_defs =
  save_rangsiz_def save_rangli_def save_kapliya_def save_aksessuar_def save_antik_def
  save_gatoviy_def save_oprava_def get_archives_def clear_all_archives_def
  download_all_archives_pdf_def clear_all_feedback_def

lemma unauthorized:
  assumes "req_method req = view_method v" and "str_or (UserId (session req)) [] = []"
  shows "run_view v E req d =
           (JsonResponse (fail_body (U ''Login qiling (session topilmadi).'')) 401, d)"
proof -
  have s: "session_user_or_json_401 req =
             Some (JsonResponse (fail_body (U ''Login qiling (session topilmadi).'')) 401)"
    using assms(2) by (simp add: session_user_or_json_401_def)
  show ?thesis
    using assms(1) s
    by (cases v)
       (simp_all add: json_view_defs save_view_guard admin_json_view_guard save_profile_row_eq
          delete_rows_eq mark_as_sent_eq download_archive_pdf_eq get_archive_items_eq
          share_all_guards download_orders_pdf_eq send_feedback_eq delete_archive_eq)
qed

lemma forbidden:
  assumes "admin_only v" and "req_method req = view_method v"
    and "str_or (UserId (session req)) [] \<noteq> []" and "Role (session req) \<noteq> Some (U ''Admin'')"
  shows "run_view v E req d = (JsonResponse (fail_body (U ''Admin ruxsati kerak.'')) 403, d)"
proof -
  have s: "session_user_or_json_401 req = None"
    using assms(3) by (simp add: session_user_or_json_401_def)
  have a: "admin_or_403 req = Some (JsonResponse (fail_body (U ''Admin ruxsati kerak.'')) 403)"
    using assms(4) by (simp add: admin_or_403_def)
  show ?thesis
    using assms(1,2) s a
    by (cases v)
       (simp_all add: json_view_defs admin_json_view_guard get_archive_items_eq share_all_guards
          delete_archive_eq)
qed

lemma no_session_page:
  assumes "page_allows p (req_method req)" and "str_or (UserId (session req)) [] = []"
  shows "run_page p E req d = (answer (redirect E (U ''login'')), d)"
proof -
  have s: "session_user_or_redirect E req = Some (redirect E (U ''login''))"
    using assms(2) by (simp add: session_user_or_redirect_def)
  show ?thesis
    using assms(1) s
    by (cases p)
       (auto simp: index_view_def rangsiz_page_def rangli_page_def kaplya_page_def
          aksessuar_page_def antikomp_page_def gatoviy_page_def oprava_page_def profile_view_def
          archive_view_def feedback_page_def admin_page_def admin_feedback_page_def
          telegram_chat_id_page_def add_user_page_and_create_def render_for_session_def
          render_for_admin_def)
qed

lemma json_failure_400 [simp]:
  "json_failure (JsonResponse (fail_body (c # m)) st)"
  by (simp add: fail_body_def U_def)

lemma malformed_payload:
  assumes "req_method req = view_method v" and "str_or (UserId (session req)) [] \<noteq> []"
    and "\<not> admin_only v \<or> Role (session req) = Some (U ''Admin'')"
    and "malformed (payload_of v) (body req)"
  shows "json_failure (fst (run_view v E req d)) \<and> status_of (fst (run_view v E req d)) = 400
         \<and> snd (run_view v E req d) = d"
proof -
  have s: "session_user_or_json_401 req = None"
    using assms(2) by (simp add: session_user_or_json_401_def)
  show ?thesis
  proof (cases "payload_of v")
    case ListPayload
    from assms(4) ListPayload have b: "\<And>x xs. body req \<noteq> Json (JList (x # xs))" "body req \<noteq> BadUtf8"
      by auto
    from ListPayload assms(1) s b show ?thesis
      by (cases v)
         (auto simp: json_view_defs save_view_guard delete_rows_eq mark_as_sent_eq
            download_orders_pdf_eq fail_body_def U_def
            split: body.splits json.splits list.splits)
  next
    case DictPayload
    from assms(4) DictPayload have b: "\<And>kvs. body req \<noteq> Json (JDict kvs)" "body req \<noteq> BadUtf8"
      by auto
    have a: "admin_or_403 req = None" if "admin_only v"
      using that assms(3) by (simp add: admin_or_403_def)
    from DictPayload assms(1) s b a show ?thesis
      by (cases v)
         (auto simp: save_profile_row_eq download_archive_pdf_eq send_feedback_eq
            delete_archive_eq fail_body_def U_def
            split: body.splits json.splits)
  next
    case NoPayload
    with assms(4) show ?thesis by simp
  qed
qed

lemma bad_id:
  assumes "req_method req = POST" and "str_or (UserId (session req)) [] \<noteq> []"
  shows "body req = Json (JDict kvs) \<Longrightarrow> to_int E (dict_get kvs (U ''id'')) 0 \<le> 0 \<Longrightarrow>
           download_archive_pdf E req d = (JsonResponse (fail_body (U ''archive id xato.'')) 400, d)"
    and "body req = Json (JDict kvs) \<Longrightarrow> to_int E (dict_get kvs (U ''Id'')) 0 \<le> 0 \<Longrightarrow>
           save_profile_row E req d =
             ((case clean_str (dict_get kvs (U ''Category'')) of
                 Inl e \<Rightarrow> ServerError e
               | Inr category \<Rightarrow>
                   JsonResponse (fail_body (U ''Id noto'' @ [8216] @ U ''g'' @ [8216] @ U ''ri.'')) 400), d)"
    and "body req = Json (JList (x # xs)) \<Longrightarrow>
           filter (\<lambda>i. 0 < i) (map (\<lambda>x. to_int E x 0) (x # xs)) = [] \<Longrightarrow>
           mark_as_sent E req d =
             (JsonResponse (fail_body (U ''OrderId noto'' @ [8216] @ U ''g'' @ [8216] @ U ''ri.'')) 400, d)"
    and "Role (session req) = Some (U ''Admin'') \<Longrightarrow> body req = Json (JDict kvs) \<Longrightarrow>
           to_int E (dict_get kvs (U ''ArchiveId'')) 0 \<le> 0 \<Longrightarrow>
           delete_archive E req d = (JsonResponse (fail_body (U ''ArchiveId xato.'')) 400, d)"
    and "body req = Json (JDict kvs) \<Longrightarrow> clean_str (dict_get kvs (U ''message'')) = Inr [] \<Longrightarrow>
           send_feedback E req d =
             ((case clean_str (dict_get kvs (U ''phone'')) of
                 Inl e \<Rightarrow> ServerError e
               | Inr phone \<Rightarrow>
                   JsonResponse (fail_body (U ''Xabar bo'' @ [8216] @ U ''sh bo'' @ [8216] @ U ''lmasin.'')) 400), d)"
proof -
  have s: "session_user_or_json_401 req = None"
    using assms(2) by (simp add: session_user_or_json_401_def)
  show "body req = Json (JDict kvs) \<Longrightarrow> to_int E (dict_get kvs (U ''id'')) 0 \<le> 0 \<Longrightarrow>
           download_archive_pdf E req d = (JsonResponse (fail_body (U ''archive id xato.'')) 400, d)"
    using assms(1) s by (simp add: download_archive_pdf_eq)
  show "body req = Json (JDict kvs) \<Longrightarrow> to_int E (dict_get kvs (U ''Id'')) 0 \<le> 0 \<Longrightarrow>
           save_profile_row E req d =
             ((case clean_str (dict_get kvs (U ''Category'')) of
                 Inl e \<Rightarrow> ServerError e
               | Inr category \<Rightarrow>
                   JsonResponse (fail_body (U ''Id noto'' @ [8216] @ U ''g'' @ [8216] @ U ''ri.'')) 400), d)"
    using assms(1) s by (simp add: save_profile_row_eq split: sum.splits)
  show "body req = Json (JList (x # xs)) \<Longrightarrow>
           filter (\<lambda>i. 0 < i) (map (\<lambda>x. to_int E x 0) (x # xs)) = [] \<Longrightarrow>
           mark_as_sent E req d =
             (JsonResponse (fail_body (U ''OrderId noto'' @ [8216] @ U ''g'' @ [8216] @ U ''ri.'')) 400, d)"
    using assms(1) s by (simp add: mark_as_sent_eq)
  show "Role (session req) = Some (U ''Admin'') \<Longrightarrow> body req = Json (JDict kvs) \<Longrightarrow>
           to_int E (dict_get kvs (U ''ArchiveId'')) 0 \<le> 0 \<Longrightarrow>
           delete_archive E req d = (JsonResponse (fail_body (U ''ArchiveId xato.'')) 400, d)"
    using assms(1) s
    by (simp add: delete_archive_eq admin_or_403_def delete_archive_of_def respond_def returnM_def)
  show "body req = Json (JDict kvs) \<Longrightarrow> clean_str (dict_get kvs (U ''message'')) = Inr [] \<Longrightarrow>
           send_feedback E req d =
             ((case clean_str (dict_get kvs (U ''phone'')) of
                 Inl e \<Rightarrow> ServerError e
               | Inr phone \<Rightarrow>
                   JsonResponse (fail_body (U ''Xabar bo'' @ [8216] @ U ''sh bo'' @ [8216] @ U ''lmasin.'')) 400), d)"
    using assms(1) s
    by (simp add: send_feedback_eq store_feedback_def respond_def returnM_def bindM_def liftE_def
        split: sum.splits)
qed

lemma login_missing_fields:
  assumes "req_method req = POST"
    and "clean_form req (U ''userId'') = [] \<or> clean_form req (U ''password'') = []"
  shows "login_view E req d =
           ((JsonResponse (fail_body (U ''ID va parolni kiriting!'')) 200, session req), d)"
  using assms by (auto simp: login_view_def Let_def)

theorem get_archive_items_bad_id_counterexample:
  "get_archive_items E0 bad_id_request empty_db = (JsonResponse (JList []) 200, empty_db)
   \<and> int_of_str E0 (U ''abc'') = None
   \<and> \<not> json_failure (JsonResponse (JList []) 200)"
  by (simp add: get_archive_items_eq bad_id_request_def admin_session_def
      session_user_or_json_401_def admin_or_403_def str_or_def form_int_def E0_def U_def)

text \<open>
  C6 (as amended). For every request: a view that answers with JSON, called with its method
  but without a logged-in session, answers 401 with success false and a message; an
  admin-only one called by a logged-in session that is not an admin's answers 403 in the same
  way. A page view without a session answers with \<open>redirect ("login")\<close>: a redirect to the
  URL of the route named \<open>login\<close> where the project's URL configuration has one, and the
  error 500 (an uncaught \<open>NoReverseMatch\<close>) where it has none; \<open>urls.py\<close> itself names its
  login route \<open>optika:login\<close>. In a JSON view a logged-in request (an admin's for an
  admin-only view) whose payload is empty or malformed (no body, a body that is not JSON, or
  JSON that is not the non-empty list or the dict the view reads) is answered with status 400
  and a JSON body with success false and a message, and changes nothing. So is an id that is
  not positive in \<open>download_archive_pdf\<close>, \<open>mark_as_sent\<close> and \<open>delete_archive\<close>; in
  \<open>save_profile_row\<close> it is too unless the \<open>Category\<close> of the payload is a truthy value that
  is not a text, on which \<open>_clean_str\<close> raises first (the error 500); an empty message in
  \<open>send_feedback\<close> is too unless the \<open>phone\<close> is such a value. A login without user id or
  password is answered with success false and a message (and status 200). The exception is
  \<open>get_archive_items\<close>, which answers an \<open>archiveId\<close> that is missing, not a number or not
  positive with an empty JSON list and status 200.
\<close>

theorem request_failures_answered:
  "(req_method req = view_method v \<and> str_or (UserId (session req)) [] = [] \<longrightarrow>
      run_view v E req d = (JsonResponse (fail_body (U ''Login qiling (session topilmadi).'')) 401, d))
   \<and> (admin_only v \<and> req_method req = view_method v \<and> str_or (UserId (session req)) [] \<noteq> []
        \<and> Role (session req) \<noteq> Some (U ''Admin'') \<longrightarrow>
      run_view v E req d = (JsonResponse (fail_body (U ''Admin ruxsati kerak.'')) 403, d))
   \<and> (page_allows p (req_method req) \<and> str_or (UserId (session req)) [] = [] \<longrightarrow>
      run_page p E req d =
        ((case resolve_url E (U ''login'') of
            None \<Rightarrow> ServerError NoReverseMatch
          | Some url \<Rightarrow> Redirect url), d))
   \<and> (req_method req = view_method v \<and> str_or (UserId (session req)) [] \<noteq> []
        \<and> (\<not> admin_only v \<or> Role (session req) = Some (U ''Admin''))
        \<and> malformed (payload_of v) (body req) \<longrightarrow>
      json_failure (fst (run_view v E req d)) \<and> status_of (fst (run_view v E req d)) = 400
      \<and> snd (run_view v E req d) = d)
   \<and> (req_method req = POST \<and> str_or (UserId (session req)) [] \<noteq> [] \<and> body req = Json (JDict kvs)
        \<and> to_int E (dict_get kvs (U ''id'')) 0 \<le> 0 \<longrightarrow>
      download_archive_pdf E req d = (JsonResponse (fail_body (U ''archive id xato.'')) 400, d))
   \<and> (req_method req = POST \<and> str_or (UserId (session req)) [] \<noteq> [] \<and> body req = Json (JDict kvs)
        \<and> to_int E (dict_get kvs (U ''Id'')) 0 \<le> 0 \<longrightarrow>
      save_profile_row E req d =
        ((case clean_str (dict_get kvs (U ''Category'')) of
            Inl e \<Rightarrow> ServerError e
          | Inr category \<Rightarrow>
              JsonResponse (fail_body (U ''Id noto'' @ [8216] @ U ''g'' @ [8216] @ U ''ri.'')) 400), d))
   \<and> (req_method req = POST \<and> str_or (UserId (session req)) [] \<noteq> [] \<and> body req = Json (JList (x # xs))
        \<and> filter (\<lambda>i. 0 < i) (map (\<lambda>x. to_int E x 0) (x # xs)) = [] \<longrightarrow>
      mark_as_sent E req d =
        (JsonResponse (fail_body (U ''OrderId noto'' @ [8216] @ U ''g'' @ [8216] @ U ''ri.'')) 400, d))
   \<and> (req_method req = POST \<and> str_or (UserId (session req)) [] \<noteq> []
        \<and> Role (session req) = Some (U ''Admin'') \<and> body req = Json (JDict kvs)
        \<and> to_int E (dict_get kvs (U ''ArchiveId'')) 0 \<le> 0 \<longrightarrow>
      delete_archive E req d = (JsonResponse (fail_body (U ''ArchiveId xato.'')) 400, d))
   \<and> (req_method req = POST \<and> str_or (UserId (session req)) [] \<noteq> [] \<and> body req = Json (JDict kvs)
        \<and> clean_str (dict_get kvs (U ''message'')) = Inr [] \<longrightarrow>
      send_feedback E req d =
        ((case clean_str (dict_get kvs (U ''phone'')) of
            Inl e \<Rightarrow> ServerError e
          | Inr phone \<Rightarrow>
              JsonResponse (fail_body (U ''Xabar bo'' @ [8216] @ U ''sh bo'' @ [8216] @ U ''lmasin.'')) 400), d))
   \<and> (req_method req = POST
        \<and> (clean_form req (U ''userId'') = [] \<or> clean_form req (U ''password'') = []) \<longrightarrow>
      login_view E req d =
        ((JsonResponse (fail_body (U ''ID va parolni kiriting!'')) 200, session req), d))
   \<and> (req_method req = GET \<and> str_or (UserId (session req)) [] \<noteq> []
        \<and> Role (session req) = Some (U ''Admin'') \<and> form_int E req (U ''archiveId'') \<le> 0 \<longrightarrow>
      get_archive_items E req d = (JsonResponse (JList []) 200, d))"
proof -
  have items: "req_method req = GET \<and> str_or (UserId (session req)) [] \<noteq> []
        \<and> Role (session req) = Some (U ''Admin'') \<and> form_int E req (U ''archiveId'') \<le> 0 \<longrightarrow>
      get_archive_items E req d = (JsonResponse (JList []) 200, d)"
    by (simp add: get_archive_items_eq session_user_or_json_401_def admin_or_403_def)
  have page: "page_allows p (req_method req) \<and> str_or (UserId (session req)) [] = [] \<longrightarrow>
      run_page p E req d =
        ((case resolve_url E (U ''login'') of
            None \<Rightarrow> ServerError NoReverseMatch
          | Some url \<Rightarrow> Redirect url), d)"
    using no_session_page[of p req E d]
    by (simp add: answer_def redirect_def split: option.splits)
  show ?thesis
    apply (intro conjI)
    subgoal using unauthorized[of req v E d] by blast
    subgoal using forbidden[of v req E d] by blast
    subgoal using page by blast
    subgoal using malformed_payload[of req v E d] by blast
    subgoal using bad_id(1)[of req kvs E d] by blast
    subgoal using bad_id(2)[of req kvs E d] by blast
    subgoal using bad_id(3)[of req x xs E d] by blast
    subgoal using bad_id(4)[of req kvs E d] by blast
    subgoal using bad_id(5)[of req kvs E d] by blast
    subgoal using login_missing_fields[of req E d] by blast
    subgoal using items by blast
    done
qed

theorem request_failures_answered_witness:
  "run_view SaveRangsiz E0 (post_json no_session JNull) empty_db =
     (JsonResponse (fail_body (U ''Login qiling (session topilmadi).'')) 401, empty_db)
   \<and> run_page ProfileView E0 (post_json no_session JNull) empty_db =
       (ServerError NoReverseMatch, empty_db)
   \<and> run_page ProfileView (E0\<lparr>resolve_url := (\<lambda>name. Some (U ''/login/''))\<rparr>)
         (post_json no_session JNull) empty_db =
       (Redirect (U ''/login/''), empty_db)"
  using request_failures_answered[where req="post_json no_session JNull" and v=SaveRangsiz
      and p=ProfileView and E=E0 and d=empty_db]
    request_failures_answered[where req="post_json no_session JNull" and v=SaveRangsiz
      and p=ProfileView and E="E0\<lparr>resolve_url := (\<lambda>name. Some (U ''/login/''))\<rparr>" and d=empty_db]
  by (simp add: post_json_def no_session_def str_or_def E0_def)

end
